theory Spec2Isabelle
  imports Complex_Main
begin

section \<open>Python and numpy values\<close>

text \<open>
  Samples are floating-point numbers in the program. They are modelled as exact reals
  with one extra value for numpy's not-a-number: \<open>None\<close> is NaN, \<open>Some v\<close> is the
  number \<open>v\<close>. Rounding error, infinities and overflow of the floating-point format are
  outside the model.
\<close>

type_synonym sample = "real option"

abbreviation NaN :: sample where
  "NaN \<equiv> None"

text \<open>The exceptions of Python that the modelled code can raise.\<close>

datatype py_error =
    KeyError | TypeError | IndexError | NameError | AttributeError
  | ValueError | UnboundLocalError | RuntimeError

text \<open>
  Python's \<open>round\<close> on a float rounds to the nearest integer and resolves a tie towards
  the even neighbour; \<open>int(round(x))\<close> is that integer.
\<close>

definition py_round :: "real \<Rightarrow> int" where
  "py_round x =
     (let f = \<lfloor>x\<rfloor>; d = x - of_int f
      in if d < 1 / 2 then f
         else if 1 / 2 < d then f + 1
         else if even f then f else f + 1)"

text \<open>
  The bounds of the slice \<open>xs[a:b]\<close> of a sequence of length \<open>n\<close>: a negative bound
  counts from the end, and both bounds are clipped to the sequence.
\<close>

definition py_slice_bounds :: "nat \<Rightarrow> int \<Rightarrow> int \<Rightarrow> nat \<times> nat" where
  "py_slice_bounds n a b =
     (let lo = (if a < 0 then max (a + int n) 0 else min a (int n));
          hi = (if b < 0 then max (b + int n) 0 else min b (int n))
      in (nat lo, nat hi))"

definition py_slice :: "'a list \<Rightarrow> int \<Rightarrow> int \<Rightarrow> 'a list" where
  "py_slice xs a b =
     (case py_slice_bounds (length xs) a b of (lo, hi) \<Rightarrow> take (hi - lo) (drop lo xs))"

text \<open>
  An in-place update of every element of the view \<open>xs[a:b]\<close> (numpy basic slicing
  returns a view, so writing through it changes \<open>xs\<close>).
\<close>

definition py_slice_map :: "('a \<Rightarrow> 'a) \<Rightarrow> 'a list \<Rightarrow> int \<Rightarrow> int \<Rightarrow> 'a list" where
  "py_slice_map f xs a b =
     (case py_slice_bounds (length xs) a b of
        (lo, hi) \<Rightarrow> take lo xs @ map f (take (hi - lo) (drop lo xs)) @ drop (max lo hi) xs)"

definition nan_to_zero :: "sample \<Rightarrow> sample" where
  "nan_to_zero s = (case s of None \<Rightarrow> Some 0 | Some v \<Rightarrow> Some v)"

definition all_nan :: "sample list \<Rightarrow> bool" where
  "all_nan xs = list_all (\<lambda>s. s = NaN) xs"

text \<open>The values of a sample list that are not NaN, in order.\<close>

definition nan_values :: "sample list \<Rightarrow> real list" where
  "nan_values xs = map the (filter (\<lambda>s. s \<noteq> NaN) xs)"

definition mean :: "real list \<Rightarrow> real" where
  "mean vs = sum_list vs / real (length vs)"

text \<open>
  \<open>np.nanstd\<close>: the population standard deviation of the values that are not NaN.
  The callers only use it on a list that has at least one number.
\<close>

definition nanstd :: "sample list \<Rightarrow> real" where
  "nanstd xs =
     (let vs = nan_values xs; m = mean vs
      in sqrt (sum_list (map (\<lambda>v. (v - m)\<^sup>2) vs) / real (length vs)))"

text \<open>
  A loop \<open>for i in range(len(xs))\<close> whose body updates element \<open>i\<close> in place and either
  produces a value or raises. The loop stops at the first exception; the elements
  updated so far stay updated.
\<close>

fun iter_idx :: "(nat \<Rightarrow> 'a \<Rightarrow> 'a \<times> (py_error + 'b)) \<Rightarrow> nat \<Rightarrow> 'a list
                 \<Rightarrow> 'a list \<times> (py_error + 'b list)" where
  "iter_idx f i [] = ([], Inr [])"
| "iter_idx f i (x # xs) =
     (case f i x of
        (x', Inl e) \<Rightarrow> (x' # xs, Inl e)
      | (x', Inr r) \<Rightarrow>
          (case iter_idx f (Suc i) xs of
             (xs', Inl e) \<Rightarrow> (x' # xs', Inl e)
           | (xs', Inr rs) \<Rightarrow> (x' # xs', Inr (r # rs))))"

section \<open>N1 detection (app/detection.py)\<close>

text \<open>
  The part of the configuration that \<open>ieeg_detect_n1\<close> reads. A method-specific value
  that is absent from the configuration dictionary is \<open>None\<close>; reading it raises
  \<open>KeyError\<close>.
\<close>

record detect_config =
  peak_search_epoch :: "real \<times> real"
  n1_search_epoch :: "real \<times> real"
  n1_detect_method :: string
  std_base_baseline_epoch :: "(real \<times> real) option"
  std_base_baseline_threshold_factor :: "real option"
  cross_proj_threshold :: "real option"
  waveform_threshold :: "real option"

text \<open>
  \<open>peak_finder\<close> is defined in app/peak_finder.py, outside the modelled files. It is a
  parameter of the model: a function from the signal to the list of (index, magnitude)
  pairs of the negative peaks, or \<open>None\<close> when it returns no arrays. The other
  arguments are the constants of the one call site.
\<close>

type_synonym peak_finder = "real list \<Rightarrow> (int \<times> real) list option"

text \<open>The result of the detection: the early \<open>return None, None\<close>, an exception, or the
  two output arrays (indices and amplitudes), NaN where nothing was detected.\<close>

datatype detect_result =
    ReturnNone
  | Raised py_error
  | Arrays "int option list list" "sample list list"

text \<open>The sample indices derived from the configuration (lines 95-96, 105-106, 121-122).\<close>

definition epoch_sample :: "real \<Rightarrow> real \<Rightarrow> int \<Rightarrow> int" where
  "epoch_sample t sampling_rate stim_onset_index = py_round (t * sampling_rate) + stim_onset_index"

text \<open>Lines 149-156: the view on the peak-search window and what the cell's samples are
  after the NaNs in it were overwritten (unchanged when the window is all NaN).\<close>

definition search_signal :: "sample list \<Rightarrow> int \<Rightarrow> int \<Rightarrow> sample list" where
  "search_signal cell peak_search_start_sample peak_search_end_sample =
     py_slice cell (peak_search_start_sample + 1) peak_search_end_sample"

definition zero_nans :: "sample list \<Rightarrow> int \<Rightarrow> int \<Rightarrow> sample list" where
  "zero_nans cell peak_search_start_sample peak_search_end_sample =
     (if all_nan (search_signal cell peak_search_start_sample peak_search_end_sample) then cell
      else py_slice_map nan_to_zero cell (peak_search_start_sample + 1) peak_search_end_sample)"

text \<open>Line 187: the first position whose absolute magnitude is the maximum.\<close>

fun first_max_abs :: "(int \<times> real) list \<Rightarrow> (int \<times> real) option" where
  "first_max_abs [] = None"
| "first_max_abs (p # ps) =
     (case first_max_abs ps of
        None \<Rightarrow> Some p
      | Some q \<Rightarrow> if \<bar>snd q\<bar> \<le> \<bar>snd p\<bar> then Some p else Some q)"

text \<open>
  Lines 149-187: the peak that is selected in a cell, if any. \<open>None\<close> stands for
  each \<open>continue\<close> before the polarity check.
\<close>

definition selected_peak ::
  "peak_finder \<Rightarrow> sample list \<Rightarrow> int \<Rightarrow> int \<Rightarrow> int \<Rightarrow> int \<Rightarrow> (int \<times> real) option" where
  "selected_peak pf cell peak_search_start_sample peak_search_end_sample
                 n1_search_start_sample n1_search_end_sample =
     (let signal = search_signal cell peak_search_start_sample peak_search_end_sample
      in if all_nan signal then None
         else
           (case pf (map (\<lambda>s. the (nan_to_zero s)) signal) of
              None \<Rightarrow> None
            | Some peaks \<Rightarrow>
                (let peaks1 = (case peaks of [] \<Rightarrow> [] | p # ps \<Rightarrow> if fst p = 0 then ps else p # ps);
                     shifted = map (\<lambda>p. (fst p + peak_search_start_sample, snd p)) peaks1;
                     in_range = filter (\<lambda>p. n1_search_start_sample \<le> fst p
                                              \<and> fst p \<le> n1_search_end_sample) shifted
                 in first_max_abs in_range)))"

text \<open>A lookup \<open>m[iElec, iPair]\<close> in a metric array that may be \<open>None\<close>.\<close>

definition metric_at :: "sample list list option \<Rightarrow> nat \<Rightarrow> nat \<Rightarrow> py_error + sample" where
  "metric_at m iElec iPair =
     (case m of
        None \<Rightarrow> Inl TypeError
      | Some rows \<Rightarrow>
          if iElec < length rows \<and> iPair < length (rows ! iElec)
          then Inr (rows ! iElec ! iPair) else Inl IndexError)"

text \<open>\<open>x > threshold\<close> on floats: false when \<open>x\<close> is NaN.\<close>

definition exceeds :: "sample \<Rightarrow> real \<Rightarrow> bool" where
  "exceeds x t = (case x of None \<Rightarrow> False | Some v \<Rightarrow> t < v)"

text \<open>
  Lines 216-237, the \<open>else\<close> branch: detection by the baseline's standard deviation.
  The baseline is read from the cell after the NaNs of the search window were zeroed.
\<close>

definition classify_std_base ::
  "sample list \<Rightarrow> int \<Rightarrow> int \<Rightarrow> real \<Rightarrow> (int \<times> real) \<Rightarrow> (int \<times> real) option" where
  "classify_std_base cell baseline_start_sample baseline_end_sample
                     baseline_threshold_factor peak =
     (let baseline_signal = py_slice cell baseline_start_sample baseline_end_sample
      in if all_nan baseline_signal then None
         else
           (let baseline_std0 = nanstd baseline_signal;
                baseline_std = (if baseline_std0 < 50 then 50 else baseline_std0)
            in if baseline_threshold_factor * \<bar>baseline_std\<bar> \<le> \<bar>snd peak\<bar>
               then Some peak else None))"

text \<open>
  The values that the function has bound before the loops, depending on the method
  (lines 64-84 and 118-122). In the \<open>else\<close> branch of the loop the names of the
  \<open>std_base\<close> method are used; when the method is another string they were never
  assigned and the use raises \<open>NameError\<close>.
\<close>

record detect_env =
  env_method :: string
  env_peak_search_start_sample :: int
  env_peak_search_end_sample :: int
  env_n1_search_start_sample :: int
  env_n1_search_end_sample :: int
  env_baseline :: "(int \<times> int \<times> real) option"
  env_cross_proj_threshold :: real
  env_waveform_threshold :: real
  env_cross_proj_metrics :: "sample list list option"
  env_waveform_metrics :: "sample list list option"

text \<open>Lines 148-237: the body of the two loops for one cell. It returns the cell's
  samples after the body and either an exception or the detection for the cell.\<close>

definition detect_cell ::
  "peak_finder \<Rightarrow> detect_env \<Rightarrow> nat \<Rightarrow> nat \<Rightarrow> sample list
     \<Rightarrow> sample list \<times> (py_error + (int \<times> real) option)" where
  "detect_cell pf env iElec iPair cell =
     (let cell' = zero_nans cell (env_peak_search_start_sample env) (env_peak_search_end_sample env)
      in case selected_peak pf cell (env_peak_search_start_sample env)
                (env_peak_search_end_sample env) (env_n1_search_start_sample env)
                (env_n1_search_end_sample env) of
           None \<Rightarrow> (cell', Inr None)
         | Some peak \<Rightarrow>
             if 0 < snd peak then (cell', Inr None)
             else if 3000 < \<bar>snd peak\<bar> then (cell', Inr None)
             else if env_method env = ''cross_proj'' then
               (case metric_at (env_cross_proj_metrics env) iElec iPair of
                  Inl e \<Rightarrow> (cell', Inl e)
                | Inr m \<Rightarrow> (cell', Inr (if exceeds m (env_cross_proj_threshold env)
                                         then Some peak else None)))
             else if env_method env = ''waveform'' then
               (case metric_at (env_waveform_metrics env) iElec iPair of
                  Inl e \<Rightarrow> (cell', Inl e)
                | Inr m \<Rightarrow> (cell', Inr (if exceeds m (env_waveform_threshold env)
                                         then Some peak else None)))
             else
               (case env_baseline env of
                  None \<Rightarrow> (cell', Inl NameError)
                | Some (baseline_start_sample, baseline_end_sample, factor) \<Rightarrow>
                    (cell', Inr (classify_std_base cell' baseline_start_sample
                                   baseline_end_sample factor peak))))"

text \<open>Lines 143-146: the loops over the electrodes and the stimulation-pairs.\<close>

definition detect_loops ::
  "peak_finder \<Rightarrow> detect_env \<Rightarrow> sample list list list
     \<Rightarrow> sample list list list \<times> (py_error + (int \<times> real) option list list)" where
  "detect_loops pf env data =
     iter_idx (\<lambda>iElec row. iter_idx (\<lambda>iPair cell. detect_cell pf env iElec iPair cell) 0 row)
       0 data"

text \<open>
  The shape of an array given as nested lists. Arrays are rectangular; the length of
  the first row stands for the length of every row.
\<close>

definition shape2 :: "'a list list \<Rightarrow> nat \<times> nat" where
  "shape2 m = (length m, case m of [] \<Rightarrow> 0 | r # _ \<Rightarrow> length r)"

definition num_samples_of :: "sample list list list \<Rightarrow> nat" where
  "num_samples_of data =
     (case data of [] \<Rightarrow> 0 | row # _ \<Rightarrow> (case row of [] \<Rightarrow> 0 | cell # _ \<Rightarrow> length cell))"

text \<open>
  Lines 64-84, 95-96, 105-106 and 118-122: the values bound before the loops. A
  threshold that is not read for the configured method is never used by the loops; it
  is given the value 0 here.
\<close>

definition detect_env_of ::
  "detect_config \<Rightarrow> real \<Rightarrow> int \<Rightarrow> sample list list option \<Rightarrow> sample list list option
     \<Rightarrow> detect_env" where
  "detect_env_of cfg sampling_rate stim_onset_index cross_proj_metrics waveform_metrics =
     \<lparr> env_method = n1_detect_method cfg,
       env_peak_search_start_sample =
         epoch_sample (fst (peak_search_epoch cfg)) sampling_rate stim_onset_index,
       env_peak_search_end_sample =
         epoch_sample (snd (peak_search_epoch cfg)) sampling_rate stim_onset_index,
       env_n1_search_start_sample =
         epoch_sample (fst (n1_search_epoch cfg)) sampling_rate stim_onset_index,
       env_n1_search_end_sample =
         epoch_sample (snd (n1_search_epoch cfg)) sampling_rate stim_onset_index,
       env_baseline =
         (if n1_detect_method cfg = ''std_base'' then
            (case (std_base_baseline_epoch cfg, std_base_baseline_threshold_factor cfg) of
               (Some baseline_epoch, Some factor) \<Rightarrow>
                 Some (epoch_sample (fst baseline_epoch) sampling_rate stim_onset_index,
                       epoch_sample (snd baseline_epoch) sampling_rate stim_onset_index,
                       factor)
             | _ \<Rightarrow> None)
          else None),
       env_cross_proj_threshold = (case cross_proj_threshold cfg of None \<Rightarrow> 0 | Some t \<Rightarrow> t),
       env_waveform_threshold = (case waveform_threshold cfg of None \<Rightarrow> 0 | Some t \<Rightarrow> t),
       env_cross_proj_metrics = cross_proj_metrics,
       env_waveform_metrics = waveform_metrics \<rparr>"

text \<open>
  \<open>ieeg_detect_n1\<close>, lines 23-240. The result is the array \<open>data\<close> as the call leaves it
  (the function writes to its argument) and the value returned or exception raised.
  Both metric branches of lines 124-140 test \<open>waveform_metrics\<close>, as the source does.
\<close>

definition ieeg_detect_n1 ::
  "peak_finder \<Rightarrow> detect_config \<Rightarrow> sample list list list \<Rightarrow> int \<Rightarrow> real
     \<Rightarrow> sample list list option \<Rightarrow> sample list list option
     \<Rightarrow> sample list list list \<times> detect_result" where
  "ieeg_detect_n1 pf cfg data stim_onset_index sampling_rate cross_proj_metrics waveform_metrics =
     (let m = n1_detect_method cfg;
          env = detect_env_of cfg sampling_rate stim_onset_index cross_proj_metrics waveform_metrics
      in
      if m = ''std_base'' \<and> (std_base_baseline_epoch cfg = None
                              \<or> std_base_baseline_threshold_factor cfg = None)
        then (data, Raised KeyError)
      else if m \<noteq> ''std_base'' \<and> m = ''cross_proj'' \<and> cross_proj_threshold cfg = None
        then (data, Raised KeyError)
      else if m \<noteq> ''std_base'' \<and> m \<noteq> ''cross_proj'' \<and> m = ''waveform''
              \<and> waveform_threshold cfg = None
        then (data, Raised KeyError)
      else if env_peak_search_end_sample env < env_peak_search_start_sample env
        then (data, ReturnNone)
      else if int (num_samples_of data) < env_peak_search_end_sample env
        then (data, ReturnNone)
      else if env_n1_search_end_sample env < env_n1_search_start_sample env
        then (data, ReturnNone)
      else if m \<noteq> ''std_base'' \<and> m = ''waveform''
              \<and> (case waveform_metrics of None \<Rightarrow> True | Some w \<Rightarrow> shape2 w \<noteq> shape2 data)
        then (data, ReturnNone)
      else if m \<noteq> ''std_base'' \<and> m \<noteq> ''waveform'' \<and> m = ''cross_proj''
              \<and> (case waveform_metrics of None \<Rightarrow> True | Some w \<Rightarrow> shape2 w \<noteq> shape2 data)
        then (data, ReturnNone)
      else
        (case detect_loops pf env data of
           (data', Inl e) \<Rightarrow> (data', Raised e)
         | (data', Inr cells) \<Rightarrow>
             (data', Arrays (map (map (map_option fst)) cells)
                            (map (map (map_option snd)) cells))))"

text \<open>
  What the loop body leaves in the output arrays for one cell when the method is
  \<open>std_base\<close>: the path through \<open>detect_cell\<close> with the two metric branches removed.
\<close>

definition std_base_cell ::
  "peak_finder \<Rightarrow> detect_env \<Rightarrow> sample list \<Rightarrow> (int \<times> real) option" where
  "std_base_cell pf env cell =
     (case selected_peak pf cell (env_peak_search_start_sample env)
              (env_peak_search_end_sample env) (env_n1_search_start_sample env)
              (env_n1_search_end_sample env) of
        None \<Rightarrow> None
      | Some peak \<Rightarrow>
          if 0 < snd peak then None
          else if 3000 < \<bar>snd peak\<bar> then None
          else (case env_baseline env of
                  None \<Rightarrow> None
                | Some (bs, be, factor) \<Rightarrow>
                    classify_std_base
                      (zero_nans cell (env_peak_search_start_sample env)
                         (env_peak_search_end_sample env)) bs be factor peak))"

subsection \<open>The legacy main flow around the detection (main_run.py, lines 514-548)\<close>

text \<open>\<open>int(x)\<close> on a float truncates towards zero.\<close>

definition py_int :: "real \<Rightarrow> int" where
  "py_int x = (if 0 \<le> x then \<lfloor>x\<rfloor> else \<lceil>x\<rceil>)"

text \<open>
  The two writes of the results bundle. \<open>saveDict['ccep_average']\<close> refers to the array
  \<open>averages\<close> itself, so the second \<open>savemat\<close> writes the array as the detection left it.
  The result is the array written first and the array written second; there is no
  second write when the detection fails (the script exits).
\<close>

definition main_run_saves ::
  "peak_finder \<Rightarrow> detect_config \<Rightarrow> sample list list list \<Rightarrow> int \<Rightarrow> real
     \<Rightarrow> sample list list option \<Rightarrow> sample list list option
     \<Rightarrow> sample list list list \<times> sample list list list option" where
  "main_run_saves pf cfg averages onset_sample sampling_rate cross_proj_metrics waveform_metrics =
     (let first_write = averages
      in case ieeg_detect_n1 pf cfg averages onset_sample (of_int (py_int sampling_rate))
                cross_proj_metrics waveform_metrics of
           (averages', Arrays n1_peak_indices n1_peak_amplitudes) \<Rightarrow> (first_write, Some averages')
         | (averages', _) \<Rightarrow> (first_write, None))"

subsection \<open>A small recording for the examples\<close>

text \<open>
  A stand-in for the peak finder in the examples: it reports the second sample of the
  signal as the only negative peak.
\<close>

definition peak_at_second :: peak_finder where
  "peak_at_second signal = (if length signal < 2 then Some [] else Some [(1, signal ! 1)])"

text \<open>
  One electrode and one stimulation-pair at a sampling rate of 1 with the stimulus
  onset at sample 2: the baseline is samples 0 and 1, the peak search runs over samples
  3 to 5 and the one peak has amplitude \<open>amp\<close>. The baseline values -10 and 10 have a
  standard deviation of 10.
\<close>

definition example_config :: detect_config where
  "example_config =
     \<lparr> peak_search_epoch = (0, 4), n1_search_epoch = (1, 3), n1_detect_method = ''std_base'',
       std_base_baseline_epoch = Some (- 2, 0),
       std_base_baseline_threshold_factor = Some (34 / 10),
       cross_proj_threshold = None, waveform_threshold = None \<rparr>"

definition example_cell :: "real \<Rightarrow> sample list" where
  "example_cell amp = [Some (- 10), Some 10, Some 0, Some 0, Some amp, Some 0]"

text \<open>The values bound before the loops for the example.\<close>

definition example_env :: detect_env where
  "example_env = detect_env_of example_config 1 2 None None"

text \<open>The example cell with one missing sample inside the peak-search window.\<close>

definition example_nan_cell :: "sample list" where
  "example_nan_cell = [Some (- 10), Some 10, Some 0, NaN, Some (- 171), Some 0]"

text \<open>The example configuration with the method \<open>cross_proj\<close>.\<close>

definition example_cross_proj_config :: detect_config where
  "example_cross_proj_config =
     \<lparr> peak_search_epoch = (0, 4), n1_search_epoch = (1, 3), n1_detect_method = ''cross_proj'',
       std_base_baseline_epoch = None, std_base_baseline_threshold_factor = None,
       cross_proj_threshold = Some (35 / 10), waveform_threshold = None \<rparr>"

section \<open>Stimulation-pair conditions (main_run.py lines 390-437, _erdetect.py lines 203-254)\<close>

text \<open>
  The legacy main flow keeps four parallel lists (labels, electrode indices, trial
  indices and trial onsets) that are appended to and deleted from together; one record
  per stimulation-pair stands for one position of the four lists.
\<close>

record stimpair =
  stimpair_label :: string
  stimpair_electrode_indices :: "nat \<times> nat"
  stimpair_trial_indices :: "nat list"
  stimpair_trial_onsets :: "real list"

text \<open>
  The indices of the trials that belong to the pair of channels \<open>iChannel0\<close>,
  \<open>iChannel1\<close> (the list comprehensions over \<open>enumerate(trial_pairs)\<close>); the same in both
  pipelines. A trial pair is the two channel names of its stimulation site.
\<close>

definition pair_trial_indices ::
  "bool \<Rightarrow> string list \<Rightarrow> (string \<times> string) list \<Rightarrow> nat \<Rightarrow> nat \<Rightarrow> nat list" where
  "pair_trial_indices concat_bidirectional_pairs channels trial_pairs iChannel0 iChannel1 =
     (if concat_bidirectional_pairs then
        (if \<not> iChannel1 < iChannel0 then
           filter (\<lambda>i. (fst (trial_pairs ! i) = channels ! iChannel0
                          \<and> snd (trial_pairs ! i) = channels ! iChannel1)
                       \<or> (fst (trial_pairs ! i) = channels ! iChannel1
                          \<and> snd (trial_pairs ! i) = channels ! iChannel0))
             [0..<length trial_pairs]
         else [])
      else
        filter (\<lambda>i. fst (trial_pairs ! i) = channels ! iChannel0
                     \<and> snd (trial_pairs ! i) = channels ! iChannel1)
          [0..<length trial_pairs])"

text \<open>What is appended to the four lists for a pair of channels.\<close>

definition make_stimpair ::
  "bool \<Rightarrow> string list \<Rightarrow> (string \<times> string) list \<Rightarrow> real list \<Rightarrow> nat \<Rightarrow> nat \<Rightarrow> stimpair" where
  "make_stimpair concat_bidirectional_pairs channels trial_pairs trial_onsets iChannel0 iChannel1 =
     \<lparr> stimpair_label = channels ! iChannel0 @ ''-'' @ channels ! iChannel1,
       stimpair_electrode_indices = (iChannel0, iChannel1),
       stimpair_trial_indices =
         pair_trial_indices concat_bidirectional_pairs channels trial_pairs iChannel0 iChannel1,
       stimpair_trial_onsets =
         map (\<lambda>i. trial_onsets ! i)
           (pair_trial_indices concat_bidirectional_pairs channels trial_pairs
              iChannel0 iChannel1) \<rparr>"

text \<open>The two nested loops over the channels: a pair is added when it has trials.\<close>

definition stimpairs_with_trials ::
  "bool \<Rightarrow> string list \<Rightarrow> (string \<times> string) list \<Rightarrow> real list \<Rightarrow> stimpair list" where
  "stimpairs_with_trials concat_bidirectional_pairs channels trial_pairs trial_onsets =
     concat (map (\<lambda>iChannel0.
       concat (map (\<lambda>iChannel1.
         (let p = make_stimpair concat_bidirectional_pairs channels trial_pairs trial_onsets
                    iChannel0 iChannel1
          in if 0 < length (stimpair_trial_indices p) then [p] else []))
         [0..<length channels]))
       [0..<length channels])"

text \<open>The stimulation-pairs that are left after the pairs with too few trials are deleted.\<close>

definition stimpairs ::
  "bool \<Rightarrow> int \<Rightarrow> string list \<Rightarrow> (string \<times> string) list \<Rightarrow> real list \<Rightarrow> stimpair list" where
  "stimpairs concat_bidirectional_pairs minimum_stimpair_trials channels trial_pairs trial_onsets =
     filter (\<lambda>p. \<not> int (length (stimpair_trial_indices p)) < minimum_stimpair_trials)
       (stimpairs_with_trials concat_bidirectional_pairs channels trial_pairs trial_onsets)"

text \<open>
  The words of the specification: the trials that stimulate \<open>a-b\<close> in this order, and the
  trials that stimulate \<open>a-b\<close> or \<open>b-a\<close>, merged in trial order.
\<close>

definition stimulating :: "(string \<times> string) list \<Rightarrow> string \<Rightarrow> string \<Rightarrow> nat list" where
  "stimulating trial_pairs a b = filter (\<lambda>i. trial_pairs ! i = (a, b)) [0..<length trial_pairs]"

definition merged_trials :: "(string \<times> string) list \<Rightarrow> string \<Rightarrow> string \<Rightarrow> nat list" where
  "merged_trials trial_pairs a b =
     filter (\<lambda>i. i \<in> set (stimulating trial_pairs a b) \<or> i \<in> set (stimulating trial_pairs b a))
       [0..<length trial_pairs]"

text \<open>
  The packaged pipeline (\<open>process_subset\<close>) keeps two dictionaries keyed by the label
  \<open>A-B\<close>, one with the onsets and one with the electrode names, always written and
  deleted together; they are modelled as one association list in insertion order.
  Assigning to a key that is present replaces the value and keeps the position.
\<close>

fun dict_set :: "'k \<Rightarrow> 'v \<Rightarrow> ('k \<times> 'v) list \<Rightarrow> ('k \<times> 'v) list" where
  "dict_set k v [] = [(k, v)]"
| "dict_set k v (kv # d) = (if fst kv = k then (k, v) # d else kv # dict_set k v d)"

text \<open>The body of the two loops of \<open>process_subset\<close> for one pair of channel indices.\<close>

definition add_stim_pair ::
  "bool \<Rightarrow> string list \<Rightarrow> (string \<times> string) list \<Rightarrow> real list \<Rightarrow> nat \<times> nat
     \<Rightarrow> (string \<times> real list \<times> string \<times> string) list
     \<Rightarrow> (string \<times> real list \<times> string \<times> string) list" where
  "add_stim_pair concat_bidirectional_pairs channels_stim_incl trial_pairs trial_onsets ij d =
     (let indices = pair_trial_indices concat_bidirectional_pairs channels_stim_incl trial_pairs
                      (fst ij) (snd ij)
      in if 0 < length indices
         then dict_set (channels_stim_incl ! fst ij @ ''-'' @ channels_stim_incl ! snd ij)
                (map (\<lambda>i. trial_onsets ! i) indices,
                 (channels_stim_incl ! fst ij, channels_stim_incl ! snd ij)) d
         else d)"

text \<open>The dictionaries after the loops and after the deletion of the pairs with too few trials.\<close>

definition stim_pairs_dict ::
  "bool \<Rightarrow> int \<Rightarrow> string list \<Rightarrow> (string \<times> string) list \<Rightarrow> real list
     \<Rightarrow> (string \<times> real list \<times> string \<times> string) list" where
  "stim_pairs_dict concat_bidirectional_pairs minimum_stimpair_trials channels_stim_incl
                   trial_pairs trial_onsets =
     filter (\<lambda>entry. \<not> int (length (fst (snd entry))) < minimum_stimpair_trials)
       (fold (add_stim_pair concat_bidirectional_pairs channels_stim_incl trial_pairs trial_onsets)
          (List.product [0..<length channels_stim_incl] [0..<length channels_stim_incl]) [])"

text \<open>The example of the specification: three trials stimulate A-B and two stimulate B-A.\<close>

definition example_channels :: "string list" where
  "example_channels = [''A'', ''B'']"

definition example_trial_pairs :: "(string \<times> string) list" where
  "example_trial_pairs = [(''A'', ''B''), (''A'', ''B''), (''B'', ''A''), (''A'', ''B''), (''B'', ''A'')]"

definition example_trial_onsets :: "real list" where
  "example_trial_onsets = [10, 20, 30, 40, 50]"

section \<open>The averaging strategies of load_data_epochs_averages (utils/bids.py)\<close>

text \<open>
  The two averaging functions differ in the nesting of their loops. Each is
  represented by the order in which it handles the (channel, condition, trial) triples:
  a list of triples of indices, where the argument gives the number of channels and
  the number of trials of each condition.
\<close>

text \<open>
  \<open>__load_data_epoch_averages__by_condition_trial\<close> (lines 581-784): the loop over the
  conditions is the outermost, then the trials of the condition, then the channels. One
  buffer of channels x trials-in-condition x samples is allocated per condition.
\<close>

definition by_condition_trial :: "nat \<Rightarrow> nat list \<Rightarrow> (nat \<times> nat \<times> nat) list" where
  "by_condition_trial num_channels condition_trials =
     concat (map (\<lambda>condition_idx.
       concat (map (\<lambda>trial_idx.
         map (\<lambda>channel_idx. (channel_idx, condition_idx, trial_idx)) [0..<num_channels])
         [0..<condition_trials ! condition_idx]))
       [0..<length condition_trials])"

text \<open>
  \<open>__load_data_epoch_averages__by_channel_condition_trial\<close> (lines 962-1015) with
  \<open>__subload_data_epoch_averages__from_channel__by_condition_trials\<close> (lines 787-959):
  the loop over the channels is the outermost, then the conditions, then the trials.
  One buffer of trials-in-condition x samples is allocated per channel and condition.
\<close>

definition by_channel_condition_trial :: "nat \<Rightarrow> nat list \<Rightarrow> (nat \<times> nat \<times> nat) list" where
  "by_channel_condition_trial num_channels condition_trials =
     concat (map (\<lambda>channel_idx.
       concat (map (\<lambda>condition_idx.
         map (\<lambda>trial_idx. (channel_idx, condition_idx, trial_idx))
           [0..<condition_trials ! condition_idx])
         [0..<length condition_trials]))
       [0..<num_channels])"

text \<open>
  The choice in \<open>load_data_epochs_averages\<close> (lines 238-277) by the reader's
  \<open>data_format\<close> (0 = EDF, 1 = BrainVision, 2 = MEF3). For any other format neither
  branch assigns the results and the \<open>return\<close> raises \<open>UnboundLocalError\<close>.
\<close>

definition load_data_epochs_averages_order ::
  "nat \<Rightarrow> nat \<Rightarrow> nat list \<Rightarrow> py_error + (nat \<times> nat \<times> nat) list" where
  "load_data_epochs_averages_order data_format num_channels condition_trials =
     (if data_format = 0 \<or> data_format = 1
        then Inr (by_channel_condition_trial num_channels condition_trials)
      else if data_format = 2
        then Inr (by_condition_trial num_channels condition_trials)
      else Inl UnboundLocalError)"

section \<open>Epoching (utils/bids.py)\<close>

text \<open>Arithmetic on samples: a NaN operand gives NaN.\<close>

definition sample_sub :: "sample \<Rightarrow> sample \<Rightarrow> sample" where
  "sample_sub a b = (case (a, b) of (Some x, Some y) \<Rightarrow> Some (x - y) | _ \<Rightarrow> NaN)"

text \<open>\<open>np.nanmean\<close> and \<open>np.nanmedian\<close> of a vector: NaN when no value is a number.\<close>

definition nanmean :: "sample list \<Rightarrow> sample" where
  "nanmean xs = (let vs = nan_values xs in if vs = [] then NaN else Some (mean vs))"

definition nanmedian :: "sample list \<Rightarrow> sample" where
  "nanmedian xs =
     (let vs = sort (nan_values xs); k = length vs
      in if k = 0 then NaN
         else if odd k then Some (vs ! (k div 2))
         else Some ((vs ! (k div 2 - 1) + vs ! (k div 2)) / 2))"

text \<open>
  Modelled from the spec: \<open>allocate_array\<close> of utils/misc.py, which is not among the
  sources. The specification has the output pre-allocated and the part of a trial that
  is not available covered by the missing-value filler, so a new array holds NaN.
\<close>

definition allocate_array :: "nat \<Rightarrow> sample list" where
  "allocate_array n = replicate n NaN"

text \<open>
  The assignment \<open>row[a:b] = values\<close> of numpy: the values must have the length of
  the slice, or length 1 (the one value is then repeated); otherwise \<open>ValueError\<close>.
\<close>

definition assign_slice :: "sample list \<Rightarrow> int \<Rightarrow> int \<Rightarrow> sample list \<Rightarrow> py_error + sample list" where
  "assign_slice row a b values =
     (case py_slice_bounds (length row) a b of
        (lo, hi) \<Rightarrow>
          if length values = hi - lo
            then Inr (take lo row @ values @ drop (max lo hi) row)
          else if length values = 1
            then Inr (take lo row @ replicate (hi - lo) (hd values) @ drop (max lo hi) row)
          else Inl ValueError)"

text \<open>
  What the checks on the bounds of a trial decide (lines 361-394 of
  \<open>__epoch_data__from_channel_data__by_trials\<close>, and the same lines 507-536 of
  \<open>__load_data_epochs__by_trial\<close>): the call is aborted (\<open>raise RuntimeError\<close>), the
  trial is skipped (\<open>continue\<close>), or samples \<open>trial_sample_start\<close> to
  \<open>trial_sample_end\<close> of the recording go to positions \<open>local_start\<close> to \<open>local_end\<close>
  of the trial's row.
\<close>

datatype trial_window =
    Abort
  | Skip
  | Extract int int int int

text \<open>
  The decision and the number of warnings written on the way. \<open>is_first\<close> and \<open>is_last\<close> say
  whether the trial is the first or the last of the list of onsets.
\<close>

definition check_trial_bounds ::
  "nat \<Rightarrow> bool \<Rightarrow> bool \<Rightarrow> int \<Rightarrow> int \<Rightarrow> int \<Rightarrow> trial_window \<times> nat" where
  "check_trial_bounds out_of_bound_method is_first is_last trial_num_samples num_samples
                      trial_sample_start =
     (let trial_sample_end = trial_sample_start + trial_num_samples;
          before_allowed = ((out_of_bound_method = 1 \<and> is_first) \<or> out_of_bound_method = 2);
          after_allowed = ((out_of_bound_method = 1 \<and> is_last) \<or> out_of_bound_method = 2)
      in if trial_sample_end < 0 then
           (if before_allowed then (Skip, 1) else (Abort, 0))
         else if trial_sample_start < 0 \<and> \<not> before_allowed then (Abort, 0)
         else
           (let local_start = (if trial_sample_start < 0 then - trial_sample_start else 0);
                start = (if trial_sample_start < 0 then 0 else trial_sample_start);
                w = (if trial_sample_start < 0 then 1 else 0)
            in if num_samples < start then
                 (if after_allowed then (Skip, w + 1) else (Abort, w))
               else if num_samples < trial_sample_end then
                 (if after_allowed
                  then (Extract local_start
                          (trial_num_samples - (trial_sample_end - num_samples)) start num_samples,
                        w + 1)
                  else (Abort, w))
               else (Extract local_start trial_num_samples start trial_sample_end, w)))"

text \<open>The first sample of a trial's window (lines 353 and 499).\<close>

definition trial_start :: "real \<Rightarrow> real \<times> real \<Rightarrow> real \<Rightarrow> int" where
  "trial_start onset epoch sampling_rate = py_round ((onset + fst epoch) * sampling_rate)"

text \<open>The length in samples of a window (lines 434-435 and 483-484).\<close>

definition epoch_num_samples :: "real \<times> real \<Rightarrow> real \<Rightarrow> int" where
  "epoch_num_samples epoch sampling_rate = py_round (\<bar>snd epoch - fst epoch\<bar> * sampling_rate)"

text \<open>Lines 403-412: the values written for a trial, by the baseline method.\<close>

definition normalized :: "nat \<Rightarrow> sample list \<Rightarrow> sample list \<Rightarrow> sample list option" where
  "normalized baseline_method values baseline =
     (if baseline_method = 0 then Some values
      else if baseline_method = 1 then Some (map (\<lambda>v. sample_sub v (nanmean baseline)) values)
      else if baseline_method = 2 then Some (map (\<lambda>v. sample_sub v (nanmedian baseline)) values)
      else None)"

text \<open>
  The body of the loop over the trials in \<open>__epoch_data__from_channel_data__by_trials\<close>
  (lines 350-412) for the row \<open>ref_data[channel_idx, trial_idx]\<close>. The result is the
  row after the body and either the exception or the number of warnings it logged
  (warnings are logged for the first channel only).
\<close>

definition epoch_trial_from_channel ::
  "nat \<Rightarrow> sample list \<Rightarrow> real \<Rightarrow> real list \<Rightarrow> int \<Rightarrow> real \<times> real \<Rightarrow> int \<Rightarrow> nat
     \<Rightarrow> real \<times> real \<Rightarrow> nat \<Rightarrow> nat \<Rightarrow> sample list \<Rightarrow> sample list \<times> (py_error + nat)" where
  "epoch_trial_from_channel channel_idx channel_data sampling_rate onsets trial_num_samples
       trial_epoch baseline_num_samples baseline_method baseline_epoch out_of_bound_method
       trial_idx row =
     (let baseline_start_sample = trial_start (onsets ! trial_idx) baseline_epoch sampling_rate;
          baseline_end_sample = baseline_start_sample + baseline_num_samples;
          size = int (length channel_data)
      in case check_trial_bounds out_of_bound_method (trial_idx = 0)
                (int trial_idx = int (length onsets) - 1) trial_num_samples size
                (trial_start (onsets ! trial_idx) trial_epoch sampling_rate) of
           (Abort, w) \<Rightarrow> (row, Inl RuntimeError)
         | (Skip, w) \<Rightarrow> (row, Inr (if channel_idx = 0 then w else 0))
         | (Extract local_start local_end trial_sample_start trial_sample_end, w) \<Rightarrow>
             if 0 < baseline_method \<and> (baseline_start_sample < 0 \<or> size < baseline_end_sample)
               then (row, Inl RuntimeError)
             else
               (case normalized baseline_method
                       (py_slice channel_data trial_sample_start trial_sample_end)
                       (py_slice channel_data baseline_start_sample baseline_end_sample) of
                  None \<Rightarrow> (row, Inr (if channel_idx = 0 then w else 0))
                | Some values \<Rightarrow>
                    (case assign_slice row local_start local_end values of
                       Inl e \<Rightarrow> (row, Inl e)
                     | Inr row' \<Rightarrow> (row', Inr (if channel_idx = 0 then w else 0)))))"

text \<open>
  \<open>__load_data_epochs__by_channels\<close> (lines 418-464) as called by \<open>load_data_epochs\<close> for
  the in-memory formats: the output is allocated, and for every channel the whole
  channel is retrieved (\<open>channels_data\<close> holds the samples of each requested channel)
  and epoched. \<open>load_data_epochs\<close> turns every exception into \<open>RuntimeError\<close>. The result
  is the epoched data (channel x trial x sample) and the number of warnings.
\<close>

definition load_data_epochs_by_channels ::
  "sample list list \<Rightarrow> real \<Rightarrow> real list \<Rightarrow> real \<times> real \<Rightarrow> nat \<Rightarrow> real \<times> real \<Rightarrow> nat
     \<Rightarrow> py_error + sample list list list \<times> nat" where
  "load_data_epochs_by_channels channels_data sampling_rate onsets trial_epoch baseline_method
       baseline_epoch out_of_bound_method =
     (let trial_num_samples = epoch_num_samples trial_epoch sampling_rate;
          baseline_num_samples = epoch_num_samples baseline_epoch sampling_rate;
          data = replicate (length channels_data)
                   (replicate (length onsets) (allocate_array (nat trial_num_samples)))
      in case iter_idx
                (\<lambda>channel_idx rows.
                   case iter_idx (epoch_trial_from_channel channel_idx
                                    (channels_data ! channel_idx) sampling_rate onsets
                                    trial_num_samples trial_epoch baseline_num_samples
                                    baseline_method baseline_epoch out_of_bound_method) 0 rows of
                     (rows', Inl e) \<Rightarrow> (rows', Inl e)
                   | (rows', Inr ws) \<Rightarrow> (rows', Inr (sum_list ws)))
                0 data of
           (data', Inl e) \<Rightarrow> Inl RuntimeError
         | (data', Inr ws) \<Rightarrow> Inr (data', sum_list ws))"

text \<open>
  Modelled from the spec: \<open>retrieve_sample_range_data\<close> of the data reader
  (utils/IeegDataReader.py, not among the sources) returns one row per requested channel
  for the given window of samples.
\<close>

definition retrieve_sample_range_data :: "sample list list \<Rightarrow> int \<Rightarrow> int \<Rightarrow> sample list list" where
  "retrieve_sample_range_data channels_data start_sample end_sample =
     map (\<lambda>channel_data. py_slice channel_data start_sample end_sample) channels_data"

text \<open>
  The body of the loop over the trials in \<open>__load_data_epochs__by_trial\<close> (lines
  496-575). \<open>column\<close> holds the rows \<open>data[channel_idx, trial_idx]\<close> of all channels for
  the trial. The result is the rows after the body and either the exception or the
  number of warnings logged.
\<close>

definition epoch_trial_all_channels ::
  "sample list list \<Rightarrow> int \<Rightarrow> real \<Rightarrow> real list \<Rightarrow> int \<Rightarrow> real \<times> real \<Rightarrow> int \<Rightarrow> nat
     \<Rightarrow> real \<times> real \<Rightarrow> nat \<Rightarrow> nat \<Rightarrow> sample list list
     \<Rightarrow> sample list list \<times> (py_error + nat)" where
  "epoch_trial_all_channels channels_data num_samples sampling_rate onsets trial_num_samples
       trial_epoch baseline_num_samples baseline_method baseline_epoch out_of_bound_method
       trial_idx column =
     (let baseline_start_sample =
            trial_start (onsets ! trial_idx) baseline_epoch sampling_rate
              - trial_start (onsets ! trial_idx) trial_epoch sampling_rate;
          baseline_end_sample = baseline_start_sample + baseline_num_samples
      in case check_trial_bounds out_of_bound_method (trial_idx = 0)
                (int trial_idx = int (length onsets) - 1) trial_num_samples num_samples
                (trial_start (onsets ! trial_idx) trial_epoch sampling_rate) of
           (Abort, w) \<Rightarrow> (column, Inl RuntimeError)
         | (Skip, w) \<Rightarrow> (column, Inr w)
         | (Extract local_start local_end trial_sample_start trial_sample_end, w) \<Rightarrow>
             if 0 < baseline_method
                \<and> (baseline_start_sample < 0 \<or> trial_num_samples < baseline_end_sample
                    \<or> baseline_start_sample < local_start \<or> local_end < baseline_end_sample)
               then (column, Inl RuntimeError)
             else
               (let trial_data = retrieve_sample_range_data channels_data
                                   trial_sample_start trial_sample_end
                in case iter_idx
                          (\<lambda>channel_idx row.
                             case normalized baseline_method (trial_data ! channel_idx)
                                    (py_slice (trial_data ! channel_idx)
                                       baseline_start_sample baseline_end_sample) of
                               None \<Rightarrow> (row, Inr ())
                             | Some values \<Rightarrow>
                                 (case assign_slice row local_start local_end values of
                                    Inl e \<Rightarrow> (row, Inl e)
                                  | Inr row' \<Rightarrow> (row', Inr ())))
                          0 column of
                     (column', Inl e) \<Rightarrow> (column', Inl e)
                   | (column', Inr u) \<Rightarrow> (column', Inr w)))"

text \<open>
  \<open>__load_data_epochs__by_trial\<close> (lines 467-578) as called by \<open>load_data_epochs\<close> for
  the streaming format. The loop runs over the trials and writes
  \<open>data[channel_idx, trial_idx]\<close> for every channel; in the model the rows are kept by
  trial during the loop and arranged as channel x trial x sample at the end.
  \<open>num_samples\<close> is the number of samples of the recording according to the reader.
\<close>

definition load_data_epochs_by_trial ::
  "sample list list \<Rightarrow> int \<Rightarrow> real \<Rightarrow> real list \<Rightarrow> real \<times> real \<Rightarrow> nat \<Rightarrow> real \<times> real \<Rightarrow> nat
     \<Rightarrow> py_error + sample list list list \<times> nat" where
  "load_data_epochs_by_trial channels_data num_samples sampling_rate onsets trial_epoch
       baseline_method baseline_epoch out_of_bound_method =
     (let trial_num_samples = epoch_num_samples trial_epoch sampling_rate;
          baseline_num_samples = epoch_num_samples baseline_epoch sampling_rate;
          columns = replicate (length onsets)
                      (replicate (length channels_data) (allocate_array (nat trial_num_samples)))
      in case iter_idx (epoch_trial_all_channels channels_data num_samples sampling_rate onsets
                          trial_num_samples trial_epoch baseline_num_samples baseline_method
                          baseline_epoch out_of_bound_method) 0 columns of
           (columns', Inl e) \<Rightarrow> Inl RuntimeError
         | (columns', Inr ws) \<Rightarrow>
             Inr (map (\<lambda>channel_idx. map (\<lambda>trial_idx. columns' ! trial_idx ! channel_idx)
                                        [0..<length onsets])
                    [0..<length channels_data],
                  sum_list ws))"

text \<open>Under the policy \<open>first_last_only\<close> a trial is admitted when it starts within the
  recording or is the first, and ends within the recording or is the last.\<close>

definition admitted :: "nat \<Rightarrow> nat \<Rightarrow> int \<Rightarrow> int \<Rightarrow> int \<Rightarrow> bool" where
  "admitted trial_idx num_trials trial_num_samples num_samples trial_sample_start =
     ((0 \<le> trial_sample_start \<or> trial_idx = 0)
      \<and> (trial_sample_start + trial_num_samples \<le> num_samples \<or> Suc trial_idx = num_trials))"

text \<open>
  The check of the baseline passes. When epoching by channels (lines 396-400) the
  baseline, if one is used, must lie within the recording. \<open>baseline_start_sample\<close> is the
  first sample of the baseline in the recording.
\<close>

definition baseline_in_recording :: "nat \<Rightarrow> int \<Rightarrow> int \<Rightarrow> int \<Rightarrow> bool" where
  "baseline_in_recording baseline_method num_samples baseline_start_sample baseline_num_samples =
     (baseline_method = 0
      \<or> (0 \<le> baseline_start_sample
          \<and> baseline_start_sample + baseline_num_samples \<le> num_samples))"

text \<open>
  When epoching by trial (lines 539-548) the baseline is taken from the samples loaded
  for the trial, so it must also lie within the window of the trial.
\<close>

definition baseline_in_trial :: "nat \<Rightarrow> int \<Rightarrow> int \<Rightarrow> int \<Rightarrow> int \<Rightarrow> int \<Rightarrow> bool" where
  "baseline_in_trial baseline_method trial_num_samples num_samples trial_sample_start
       baseline_start_sample baseline_num_samples =
     (baseline_method = 0
      \<or> (trial_sample_start \<le> baseline_start_sample
          \<and> baseline_start_sample + baseline_num_samples \<le> trial_sample_start + trial_num_samples
          \<and> 0 \<le> baseline_start_sample
          \<and> baseline_start_sample + baseline_num_samples \<le> num_samples))"

text \<open>The window of a trial does not lie within the recording.\<close>

definition out_of_bounds :: "int \<Rightarrow> int \<Rightarrow> int \<Rightarrow> bool" where
  "out_of_bounds trial_num_samples num_samples trial_sample_start =
     (trial_sample_start < 0 \<or> num_samples < trial_sample_start + trial_num_samples)"

text \<open>The positions of a trial's row that lie before the start or after the end of the
  recording.\<close>

definition outside_recording :: "int \<Rightarrow> int \<Rightarrow> int \<Rightarrow> nat \<Rightarrow> bool" where
  "outside_recording trial_num_samples num_samples trial_sample_start k =
     ((trial_sample_start < 0 \<and> int k < - trial_sample_start)
      \<or> (num_samples < trial_sample_start + trial_num_samples
          \<and> num_samples - trial_sample_start \<le> int k))"

text \<open>
  A recording of one channel with six samples at a sampling rate of 1. With the trial
  window (-1, 2) a trial has three samples; a trial with onset 0 starts one sample
  before the recording and a trial with onset 5 ends one sample after it.
\<close>

definition example_recording :: "sample list list" where
  "example_recording = [[Some 1, Some 2, Some 3, Some 4, Some 5, Some 6]]"

section \<open>The cross-projection metric (erdetect/core/metrics/metric_cross_proj.py)\<close>

text \<open>\<open>str.lower\<close> on the letters A to Z; the configuration values are plain ASCII.\<close>

definition py_lower :: "string \<Rightarrow> string" where
  "py_lower s =
     map (\<lambda>c. if 65 \<le> (of_char c :: nat) \<and> (of_char c :: nat) \<le> 90
              then char_of (of_char c + 32 :: nat) else c) s"

text \<open>The part of the configuration that the metric reads.\<close>

record metric_config =
  metric_trial_epoch :: "real \<times> real"
  metric_baseline_norm :: string
  metric_cross_proj_epoch :: "real \<times> real"

definition sample_mul :: "sample \<Rightarrow> sample \<Rightarrow> sample" where
  "sample_mul a b = (case (a, b) of (Some x, Some y) \<Rightarrow> Some (x * y) | _ \<Rightarrow> NaN)"

definition sample_add :: "sample \<Rightarrow> sample \<Rightarrow> sample" where
  "sample_add a b = (case (a, b) of (Some x, Some y) \<Rightarrow> Some (x + y) | _ \<Rightarrow> NaN)"

text \<open>Division by a value that is NaN gives NaN. The divisor of the metric is never 0.\<close>

definition sample_div :: "sample \<Rightarrow> sample \<Rightarrow> sample" where
  "sample_div a b = (case (a, b) of (Some x, Some y) \<Rightarrow> Some (x / y) | _ \<Rightarrow> NaN)"

text \<open>\<open>ndarray.sum\<close> of a vector: NaN as soon as one element is NaN.\<close>

definition sample_sum :: "sample list \<Rightarrow> sample" where
  "sample_sum xs = foldr sample_add xs (Some 0)"

text \<open>
  \<open>rows - column[:, None]\<close> with numpy's broadcasting over the first axis: the numbers
  of rows must agree, or one of the two must be 1.
\<close>

definition subtract_per_row :: "sample list list \<Rightarrow> sample list \<Rightarrow> py_error + sample list list" where
  "subtract_per_row rows column =
     (if length column = length rows
        then Inr (map (\<lambda>(row, m). map (\<lambda>v. sample_sub v m) row) (zip rows column))
      else if length column = 1
        then Inr (map (\<lambda>row. map (\<lambda>v. sample_sub v (hd column)) row) rows)
      else if length rows = 1
        then Inr (map (\<lambda>m. map (\<lambda>v. sample_sub v m) (hd rows)) column)
      else Inl ValueError)"

text \<open>Lines 53-56: the L2 norm of a trial, with a norm of 0 replaced by NaN, and the
  trial divided by it.\<close>

definition trial_norm :: "sample list \<Rightarrow> sample" where
  "trial_norm row =
     (case sample_sum (map (\<lambda>v. sample_mul v v) row) of
        None \<Rightarrow> NaN
      | Some q \<Rightarrow> if sqrt q = 0 then NaN else Some (sqrt q))"

definition normalize_trial :: "sample list \<Rightarrow> sample list" where
  "normalize_trial row = map (\<lambda>v. sample_div v (trial_norm row)) row"

text \<open>Line 59: the matrix of the projections of every normalized trial on every trial.\<close>

definition projections :: "sample list list \<Rightarrow> sample list list" where
  "projections metric_data =
     map (\<lambda>a. map (\<lambda>b. sample_sum (map (\<lambda>(x, y). sample_mul x y) (zip a b))) metric_data)
       (map normalize_trial metric_data)"

text \<open>Line 62: the values above the diagonal, row by row.\<close>

definition upper_triangle :: "sample list list \<Rightarrow> sample list" where
  "upper_triangle proj =
     concat (map (\<lambda>i. map (\<lambda>j. proj ! i ! j) [Suc i..<length proj]) [0..<length proj])"

text \<open>
  \<open>metric_cross_proj\<close>, lines 19-66. \<open>ttest_1samp\<close> stands for the statistic of
  \<open>scipy.stats.ttest_1samp(values, 0)\<close>, a library function. \<open>baseline\<close> is \<open>None\<close> when
  the caller has no baseline data. In the last branch of lines 41-47 nothing is assigned
  to \<open>metric_data\<close>, and its use in line 54 raises \<open>UnboundLocalError\<close>.
\<close>

definition metric_cross_proj ::
  "(sample list \<Rightarrow> sample) \<Rightarrow> metric_config \<Rightarrow> real \<Rightarrow> sample list list
     \<Rightarrow> sample list list option \<Rightarrow> py_error + sample" where
  "metric_cross_proj ttest_1samp cfg sampling_rate data baseline =
     (let start_sample = py_round ((fst (metric_cross_proj_epoch cfg) - fst (metric_trial_epoch cfg)) * sampling_rate);
          end_sample = py_round ((snd (metric_cross_proj_epoch cfg) - fst (metric_trial_epoch cfg)) * sampling_rate);
          window = map (\<lambda>row. py_slice row start_sample end_sample) data;
          metric_data =
            (if py_lower (metric_baseline_norm cfg) = ''mean'' \<or> py_lower (metric_baseline_norm cfg) = ''average''
               then (case baseline of
                       None \<Rightarrow> Inl ValueError
                     | Some b \<Rightarrow> subtract_per_row window (map nanmean b))
             else if py_lower (metric_baseline_norm cfg) = ''median''
               then (case baseline of
                       None \<Rightarrow> Inl ValueError
                     | Some b \<Rightarrow> subtract_per_row window (map nanmedian b))
             else Inl UnboundLocalError)
      in case metric_data of
           Inl e \<Rightarrow> Inl e
         | Inr md \<Rightarrow> Inr (ttest_1samp (upper_triangle (projections md))))"

text \<open>The trials of the metric's window after the baseline was subtracted, when the
  numbers of trials agree.\<close>

definition baseline_corrected ::
  "metric_config \<Rightarrow> real \<Rightarrow> sample list list \<Rightarrow> sample list list \<Rightarrow> sample list list" where
  "baseline_corrected cfg sampling_rate data b =
     map (\<lambda>(row, m). map (\<lambda>v. sample_sub v m) row)
       (zip (map (\<lambda>row. py_slice row
                    (py_round ((fst (metric_cross_proj_epoch cfg) - fst (metric_trial_epoch cfg)) * sampling_rate))
                    (py_round ((snd (metric_cross_proj_epoch cfg) - fst (metric_trial_epoch cfg)) * sampling_rate)))
               data)
            (map (if py_lower (metric_baseline_norm cfg) = ''median'' then nanmedian else nanmean) b))"

text \<open>
  Two trials of four samples with a trial window from -1 and a metric window (0, 2) at
  a sampling rate of 1: the metric uses samples 1 and 2 of every trial. Both baselines
  have the median 1.
\<close>

definition example_metric_config :: "string \<Rightarrow> metric_config" where
  "example_metric_config mode =
     \<lparr> metric_trial_epoch = (- 1, 2), metric_baseline_norm = mode,
       metric_cross_proj_epoch = (0, 2) \<rparr>"

definition example_trials :: "sample list list" where
  "example_trials = [[Some 1, Some 4, Some 5, Some 1], [Some 1, Some 7, Some 9, Some 1]]"

definition example_baselines :: "sample list list" where
  "example_baselines = [[Some 0, Some 1, Some 2], [Some 1, Some 1, Some 7]]"

section \<open>JSON documents\<close>

text \<open>
  The values that \<open>json.load\<close> returns: \<open>None\<close>, booleans, numbers, strings, lists
  and dictionaries. A dictionary is the list of its members in the order of the
  document; when a key occurs more than once the last member counts. Numbers are exact
  reals (Python's distinction between \<open>int\<close> and \<open>float\<close> plays no role in the
  configuration).
\<close>

datatype json =
    JNull
  | JBool bool
  | JNum real
  | JStr string
  | JArr "json list"
  | JObj "(string \<times> json) list"

subsection \<open>Reading a document\<close>

text \<open>
  \<open>json.load\<close> belongs to Python's library. The model follows the JSON grammar
  (RFC 8259), which is what the library implements: a document is cut into tokens and
  the tokens are read by a machine with a stack of open containers. Two extensions of
  the library are left out: the literals \<open>NaN\<close>, \<open>Infinity\<close> and \<open>-Infinity\<close> are
  rejected, and a \<open>\u\<close> escape is kept in the string as it is written.
\<close>

datatype token =
    TLBrace | TRBrace | TLBrack | TRBrack | TComma | TColon
  | TString string
  | TWord string
  | TBad

datatype lex_mode = Top | InString string | InEscape string | InWord string

definition is_ws :: "char \<Rightarrow> bool" where
  "is_ws c = (c = CHR '' '' \<or> c = CHR 0x0A \<or> c = CHR 0x0D \<or> c = CHR 0x09)"

definition punct_token :: "char \<Rightarrow> token option" where
  "punct_token c =
     (if c = CHR ''{'' then Some TLBrace
      else if c = CHR ''}'' then Some TRBrace
      else if c = CHR ''['' then Some TLBrack
      else if c = CHR '']'' then Some TRBrack
      else if c = CHR '','' then Some TComma
      else if c = CHR '':'' then Some TColon
      else None)"

definition unescape :: "char \<Rightarrow> char option" where
  "unescape c =
     (if c = CHR 0x22 then Some (CHR 0x22)
      else if c = CHR 0x5C then Some (CHR 0x5C)
      else if c = CHR ''/'' then Some (CHR ''/'')
      else if c = CHR ''b'' then Some (CHR 0x08)
      else if c = CHR ''f'' then Some (CHR 0x0C)
      else if c = CHR ''n'' then Some (CHR 0x0A)
      else if c = CHR ''r'' then Some (CHR 0x0D)
      else if c = CHR ''t'' then Some (CHR 0x09)
      else None)"

text \<open>
  The tokens of a text. The characters of a string or of a word (a number or a
  literal) are collected in reverse. A string that is not closed, a control character
  in a string and an unknown escape give the token \<open>TBad\<close>.
\<close>

fun lex :: "lex_mode \<Rightarrow> string \<Rightarrow> token list" where
  "lex Top [] = []"
| "lex (InString acc) [] = [TBad]"
| "lex (InEscape acc) [] = [TBad]"
| "lex (InWord acc) [] = [TWord (rev acc)]"
| "lex Top (c # cs) =
     (if is_ws c then lex Top cs
      else case punct_token c of
             Some t \<Rightarrow> t # lex Top cs
           | None \<Rightarrow> if c = CHR 0x22 then lex (InString []) cs else lex (InWord [c]) cs)"
| "lex (InString acc) (c # cs) =
     (if c = CHR 0x22 then TString (rev acc) # lex Top cs
      else if c = CHR 0x5C then lex (InEscape acc) cs
      else if (of_char c :: nat) < 32 then [TBad]
      else lex (InString (c # acc)) cs)"
| "lex (InEscape acc) (c # cs) =
     (case unescape c of
        Some d \<Rightarrow> lex (InString (d # acc)) cs
      | None \<Rightarrow> if c = CHR ''u'' then lex (InString (c # CHR 0x5C # acc)) cs else [TBad])"
| "lex (InWord acc) (c # cs) =
     (if is_ws c then TWord (rev acc) # lex Top cs
      else case punct_token c of
             Some t \<Rightarrow> TWord (rev acc) # t # lex Top cs
           | None \<Rightarrow> if c = CHR 0x22 then TWord (rev acc) # lex (InString []) cs
                     else lex (InWord (c # acc)) cs)"

text \<open>Numbers: an optional minus sign, an integer part without leading zeros, an
  optional fraction and an optional exponent.\<close>

definition is_digit :: "char \<Rightarrow> bool" where
  "is_digit c = (48 \<le> (of_char c :: nat) \<and> (of_char c :: nat) \<le> 57)"

definition digits_value :: "string \<Rightarrow> nat" where
  "digits_value ds = foldl (\<lambda>n c. 10 * n + (of_char c - 48)) 0 ds"

definition parse_number :: "string \<Rightarrow> real option" where
  "parse_number w =
     (let negative = (w \<noteq> [] \<and> hd w = CHR ''-'');
          r0 = (if negative then tl w else w);
          int_part = takeWhile is_digit r0;
          r1 = dropWhile is_digit r0;
          has_frac = (r1 \<noteq> [] \<and> hd r1 = CHR ''.'');
          frac_part = (if has_frac then takeWhile is_digit (tl r1) else []);
          r2 = (if has_frac then dropWhile is_digit (tl r1) else r1);
          has_exp = (r2 \<noteq> [] \<and> (hd r2 = CHR ''e'' \<or> hd r2 = CHR ''E''));
          r3 = (if has_exp then tl r2 else r2);
          exp_negative = (has_exp \<and> r3 \<noteq> [] \<and> hd r3 = CHR ''-'');
          r4 = (if has_exp \<and> r3 \<noteq> [] \<and> (hd r3 = CHR ''-'' \<or> hd r3 = CHR ''+'')
                then tl r3 else r3);
          exp_part = (if has_exp then takeWhile is_digit r4 else []);
          r5 = (if has_exp then dropWhile is_digit r4 else r4);
          mantissa = real (digits_value int_part)
                     + real (digits_value frac_part) / 10 ^ length frac_part;
          scaled = (if exp_negative then mantissa / 10 ^ digits_value exp_part
                    else mantissa * 10 ^ digits_value exp_part)
      in if int_part \<noteq> [] \<and> (int_part = ''0'' \<or> hd int_part \<noteq> CHR ''0'')
            \<and> (if has_frac then frac_part \<noteq> [] else True)
            \<and> (if has_exp then exp_part \<noteq> [] else True)
            \<and> r5 = []
         then Some (if negative then - scaled else scaled)
         else None)"

definition word_value :: "string \<Rightarrow> json option" where
  "word_value w =
     (if w = ''true'' then Some (JBool True)
      else if w = ''false'' then Some (JBool False)
      else if w = ''null'' then Some JNull
      else map_option JNum (parse_number w))"

text \<open>
  The machine that reads the tokens. A frame is an open list with its elements so
  far, or an open dictionary with its members so far and the key that waits for its
  value (both in reverse). \<open>expect\<close> says what may come next.
\<close>

datatype frame = FArr "json list" | FObj "(string \<times> json) list" "string option"

datatype expect =
    EValue | EValueOrEnd | EKeyOrEnd | EKey | EColon | ECommaOrEnd | EDone json

definition push_value :: "json \<Rightarrow> frame list \<Rightarrow> (frame list \<times> expect) option" where
  "push_value v stack =
     (case stack of
        [] \<Rightarrow> Some ([], EDone v)
      | FArr xs # st \<Rightarrow> Some (FArr (v # xs) # st, ECommaOrEnd)
      | FObj kvs None # st \<Rightarrow> None
      | FObj kvs (Some k) # st \<Rightarrow> Some (FObj ((k, v) # kvs) None # st, ECommaOrEnd))"

definition close_array :: "frame list \<Rightarrow> (frame list \<times> expect) option" where
  "close_array stack =
     (case stack of FArr xs # st \<Rightarrow> push_value (JArr (rev xs)) st | _ \<Rightarrow> None)"

definition close_object :: "frame list \<Rightarrow> (frame list \<times> expect) option" where
  "close_object stack =
     (case stack of FObj kvs None # st \<Rightarrow> push_value (JObj (rev kvs)) st | _ \<Rightarrow> None)"

definition start_value :: "frame list \<Rightarrow> token \<Rightarrow> (frame list \<times> expect) option" where
  "start_value stack t =
     (case t of
        TLBrace \<Rightarrow> Some (FObj [] None # stack, EKeyOrEnd)
      | TLBrack \<Rightarrow> Some (FArr [] # stack, EValueOrEnd)
      | TString s \<Rightarrow> push_value (JStr s) stack
      | TWord w \<Rightarrow> (case word_value w of Some v \<Rightarrow> push_value v stack | None \<Rightarrow> None)
      | _ \<Rightarrow> None)"

definition take_key :: "frame list \<Rightarrow> token \<Rightarrow> (frame list \<times> expect) option" where
  "take_key stack t =
     (case (t, stack) of
        (TString k, FObj kvs None # st) \<Rightarrow> Some (FObj kvs (Some k) # st, EColon)
      | _ \<Rightarrow> None)"

fun parse_step :: "frame list \<times> expect \<Rightarrow> token \<Rightarrow> (frame list \<times> expect) option" where
  "parse_step (stack, EValue) t = start_value stack t"
| "parse_step (stack, EValueOrEnd) t =
     (if t = TRBrack then close_array stack else start_value stack t)"
| "parse_step (stack, EKeyOrEnd) t =
     (if t = TRBrace then close_object stack else take_key stack t)"
| "parse_step (stack, EKey) t = take_key stack t"
| "parse_step (stack, EColon) t = (if t = TColon then Some (stack, EValue) else None)"
| "parse_step (stack, ECommaOrEnd) t =
     (if t = TComma then
        (case stack of
           FArr xs # st \<Rightarrow> Some (stack, EValue)
         | FObj kvs k # st \<Rightarrow> Some (stack, EKey)
         | [] \<Rightarrow> None)
      else if t = TRBrack then close_array stack
      else if t = TRBrace then close_object stack
      else None)"
| "parse_step (stack, EDone v) t = None"

fun parse_tokens :: "frame list \<times> expect \<Rightarrow> token list \<Rightarrow> (frame list \<times> expect) option" where
  "parse_tokens s [] = Some s"
| "parse_tokens s (t # ts) =
     (case parse_step s t of None \<Rightarrow> None | Some s' \<Rightarrow> parse_tokens s' ts)"

text \<open>\<open>json.loads\<close>: the value of the document, or \<open>None\<close> for \<open>JSONDecodeError\<close>.\<close>

definition json_loads :: "string \<Rightarrow> json option" where
  "json_loads text =
     (case parse_tokens ([], EValue) (lex Top text) of
        Some ([], EDone v) \<Rightarrow> Some v
      | _ \<Rightarrow> None)"

section \<open>The configuration (app/config.py)\<close>

text \<open>
  The configuration dictionary with one field per entry; the name of a field is the
  path of the entry. The dictionaries of the detection methods under \<open>n1_detect\<close> can
  be absent, and so can the entries in them: \<open>None\<close> is an absent dictionary and
  \<open>Some\<close> of a dictionary gives each entry or \<open>None\<close>.
\<close>

record config =
  cfg_preprocess_high_pass :: bool
  cfg_preprocess_line_noise_removal :: string
  cfg_preprocess_early_re_referencing_enabled :: bool
  cfg_preprocess_early_re_referencing_method :: string
  cfg_preprocess_early_re_referencing_stim_excl_epoch :: "real \<times> real"
  cfg_trials_trial_epoch :: "real \<times> real"
  cfg_trials_out_of_bounds_handling :: string
  cfg_trials_baseline_epoch :: "real \<times> real"
  cfg_trials_baseline_norm :: string
  cfg_trials_concat_bidirectional_pairs :: bool
  cfg_trials_minimum_stimpair_trials :: real
  cfg_channels_types :: "string list"
  cfg_metrics_cross_proj_enabled :: bool
  cfg_metrics_cross_proj_epoch :: "real \<times> real"
  cfg_metrics_waveform_enabled :: bool
  cfg_metrics_waveform_epoch :: "real \<times> real"
  cfg_metrics_waveform_bandpass :: "real \<times> real"
  cfg_n1_detect_peak_search_epoch :: "real \<times> real"
  cfg_n1_detect_n1_search_epoch :: "real \<times> real"
  cfg_n1_detect_method :: string
  cfg_n1_detect_std_base :: "((real \<times> real) option \<times> real option) option"
  cfg_n1_detect_cross_proj :: "real option option"
  cfg_n1_detect_waveform :: "real option option"
  cfg_visualization_x_axis_epoch :: "real \<times> real"
  cfg_visualization_blank_stim_epoch :: "real \<times> real"
  cfg_visualization_generate_electrode_images :: bool
  cfg_visualization_generate_stimpair_images :: bool
  cfg_visualization_generate_matrix_images :: bool

text \<open>\<open>__create_default_config\<close>, lines 32-88.\<close>

definition create_default_config :: config where
  "create_default_config =
     \<lparr> cfg_preprocess_high_pass = False,
       cfg_preprocess_line_noise_removal = ''off'',
       cfg_preprocess_early_re_referencing_enabled = False,
       cfg_preprocess_early_re_referencing_method = ''CAR'',
       cfg_preprocess_early_re_referencing_stim_excl_epoch = (- 0.01, 1.0),
       cfg_trials_trial_epoch = (- 1.0, 2.0),
       cfg_trials_out_of_bounds_handling = ''first_last_only'',
       cfg_trials_baseline_epoch = (- 0.5, - 0.1),
       cfg_trials_baseline_norm = ''median'',
       cfg_trials_concat_bidirectional_pairs = True,
       cfg_trials_minimum_stimpair_trials = 5,
       cfg_channels_types = [''ECOG'', ''SEEG'', ''DBS''],
       cfg_metrics_cross_proj_enabled = True,
       cfg_metrics_cross_proj_epoch = (0.012, 0.09),
       cfg_metrics_waveform_enabled = True,
       cfg_metrics_waveform_epoch = (0.012, 0.09),
       cfg_metrics_waveform_bandpass = (10, 30),
       cfg_n1_detect_peak_search_epoch = (0, 0.5),
       cfg_n1_detect_n1_search_epoch = (0.009, 0.09),
       cfg_n1_detect_method = ''std_base'',
       cfg_n1_detect_std_base = Some (Some (- 1, - 0.1), Some 3.4),
       cfg_n1_detect_cross_proj = None,
       cfg_n1_detect_waveform = None,
       cfg_visualization_x_axis_epoch = (- 0.2, 1),
       cfg_visualization_blank_stim_epoch = (- 0.015, 0.0025),
       cfg_visualization_generate_electrode_images = True,
       cfg_visualization_generate_stimpair_images = True,
       cfg_visualization_generate_matrix_images = True \<rparr>"

subsection \<open>Steps that can return False or raise\<close>

text \<open>
  A step of \<open>load_config\<close> or of \<open>__check_config\<close> goes on with a configuration, makes
  the function return \<open>False\<close>, or raises.
\<close>

datatype 'a outcome = Continue 'a | ReturnFalse | Raise py_error

fun run_steps :: "('s \<Rightarrow> 's outcome) list \<Rightarrow> 's \<Rightarrow> 's outcome" where
  "run_steps [] s = Continue s"
| "run_steps (f # fs) s =
     (case f s of
        Continue s' \<Rightarrow> run_steps fs s'
      | ReturnFalse \<Rightarrow> ReturnFalse
      | Raise e \<Rightarrow> Raise e)"

subsection \<open>Looking up an entry of the document\<close>

definition is_substring :: "string \<Rightarrow> string \<Rightarrow> bool" where
  "is_substring k s = list_ex (\<lambda>i. take (length k) (drop i s) = k) [0..<Suc (length s)]"

text \<open>
  \<open>key in value\<close> and \<open>value[key]\<close> for a string key: for a dictionary the membership
  of the key and its value; for a list the test whether the string is an element, and
  \<open>TypeError\<close> for the subscript; for a string the substring test, and \<open>TypeError\<close>
  for the subscript; for a number, a boolean and \<open>None\<close> \<open>TypeError\<close>.
\<close>

fun py_in :: "string \<Rightarrow> json \<Rightarrow> py_error + bool" where
  "py_in k (JObj kvs) = Inr (k \<in> set (map fst kvs))"
| "py_in k (JArr xs) = Inr (JStr k \<in> set xs)"
| "py_in k (JStr s) = Inr (is_substring k s)"
| "py_in k (JNum x) = Inl TypeError"
| "py_in k (JBool b) = Inl TypeError"
| "py_in k JNull = Inl TypeError"

fun py_item :: "json \<Rightarrow> string \<Rightarrow> py_error + json" where
  "py_item (JObj kvs) k = (case map_of (rev kvs) k of None \<Rightarrow> Inl KeyError | Some v \<Rightarrow> Inr v)"
| "py_item (JArr xs) k = Inl TypeError"
| "py_item (JStr s) k = Inl TypeError"
| "py_item (JNum x) k = Inl TypeError"
| "py_item (JBool b) k = Inl TypeError"
| "py_item JNull k = Inl TypeError"

text \<open>
  The nested tests \<open>if level1 in json_dict: if level2 in json_dict[level1]: ...\<close> at
  the head of every \<open>retrieve_config_...\<close> helper: the entry at the path, or \<open>None\<close>
  when a level is absent.
\<close>

fun json_get :: "json \<Rightarrow> string list \<Rightarrow> json option outcome" where
  "json_get j [] = Continue (Some j)"
| "json_get j (k # ks) =
     (case py_in k j of
        Inl e \<Rightarrow> Raise e
      | Inr False \<Rightarrow> Continue None
      | Inr True \<Rightarrow> (case py_item j k of Inl e \<Rightarrow> Raise e | Inr v \<Rightarrow> json_get v ks))"

text \<open>\<open>bool(value)\<close>.\<close>

fun py_bool :: "json \<Rightarrow> bool" where
  "py_bool JNull = False"
| "py_bool (JBool b) = b"
| "py_bool (JNum x) = (x \<noteq> 0)"
| "py_bool (JStr s) = (s \<noteq> [])"
| "py_bool (JArr xs) = (xs \<noteq> [])"
| "py_bool (JObj kvs) = (kvs \<noteq> [])"

text \<open>
  Modelled from the spec: \<open>is_number\<close> and \<open>is_valid_numeric_range\<close> of utils/misc.py,
  which are not among the sources. The specification has a numeric field checked for a
  number and a range checked for a 2-element numeric range.
\<close>

fun is_number :: "json \<Rightarrow> bool" where
  "is_number (JNum x) = True"
| "is_number v = False"

fun is_valid_numeric_range :: "json \<Rightarrow> bool" where
  "is_valid_numeric_range (JArr [JNum a, JNum b]) = True"
| "is_valid_numeric_range v = False"

fun py_float :: "json \<Rightarrow> real" where
  "py_float (JNum x) = x"
| "py_float v = 0"

fun range_of :: "json \<Rightarrow> real \<times> real" where
  "range_of (JArr [a, b]) = (py_float a, py_float b)"
| "range_of v = (0, 0)"

definition py_upper :: "string \<Rightarrow> string" where
  "py_upper s =
     map (\<lambda>c. if 97 \<le> (of_char c :: nat) \<and> (of_char c :: nat) \<le> 122
              then char_of (of_char c - 32 :: nat) else c) s"

subsection \<open>The helpers of load_config (lines 192-349)\<close>

text \<open>
  Each helper gets the document, the path of the entry and a function that stores the
  value at that path of the configuration under construction.
\<close>

definition retrieve_config_bool ::
  "json \<Rightarrow> string list \<Rightarrow> (bool \<Rightarrow> config \<Rightarrow> config) \<Rightarrow> config \<Rightarrow> config outcome" where
  "retrieve_config_bool json_dict path store ref_config =
     (case json_get json_dict path of
        Raise e \<Rightarrow> Raise e
      | ReturnFalse \<Rightarrow> ReturnFalse
      | Continue None \<Rightarrow> Continue ref_config
      | Continue (Some v) \<Rightarrow> Continue (store (py_bool v) ref_config))"

definition retrieve_config_number ::
  "json \<Rightarrow> string list \<Rightarrow> (real \<Rightarrow> config \<Rightarrow> config) \<Rightarrow> config \<Rightarrow> config outcome" where
  "retrieve_config_number json_dict path store ref_config =
     (case json_get json_dict path of
        Raise e \<Rightarrow> Raise e
      | ReturnFalse \<Rightarrow> ReturnFalse
      | Continue None \<Rightarrow> Continue ref_config
      | Continue (Some v) \<Rightarrow>
          if is_number v then Continue (store (py_float v) ref_config) else ReturnFalse)"

definition retrieve_config_range ::
  "json \<Rightarrow> string list \<Rightarrow> (real \<times> real \<Rightarrow> config \<Rightarrow> config) \<Rightarrow> config \<Rightarrow> config outcome" where
  "retrieve_config_range json_dict path store ref_config =
     (case json_get json_dict path of
        Raise e \<Rightarrow> Raise e
      | ReturnFalse \<Rightarrow> ReturnFalse
      | Continue None \<Rightarrow> Continue ref_config
      | Continue (Some v) \<Rightarrow>
          if is_valid_numeric_range v then Continue (store (range_of v) ref_config)
          else ReturnFalse)"

text \<open>The options are compared without regard to case; the value is stored as it is
  written in the document.\<close>

definition retrieve_config_string ::
  "json \<Rightarrow> string list \<Rightarrow> string list \<Rightarrow> (string \<Rightarrow> config \<Rightarrow> config) \<Rightarrow> config
     \<Rightarrow> config outcome" where
  "retrieve_config_string json_dict path options store ref_config =
     (case json_get json_dict path of
        Raise e \<Rightarrow> Raise e
      | ReturnFalse \<Rightarrow> ReturnFalse
      | Continue None \<Rightarrow> Continue ref_config
      | Continue (Some v) \<Rightarrow>
          (case v of
             JStr value \<Rightarrow>
               if py_lower value \<in> set (map py_lower options)
               then Continue (store value ref_config) else ReturnFalse
           | _ \<Rightarrow> ReturnFalse))"

fun is_str :: "json \<Rightarrow> bool" where
  "is_str (JStr s) = True"
| "is_str v = False"

fun str_of :: "json \<Rightarrow> string" where
  "str_of (JStr s) = s"
| "str_of v = []"

text \<open>
  For a list the values are lower-cased first (\<open>value.lower()\<close> raises
  \<open>AttributeError\<close> for a value that is no string), then every value has to be one of
  the lower-cased options; the lower-cased values are stored.
\<close>

definition retrieve_config_tuple ::
  "json \<Rightarrow> string list \<Rightarrow> string list \<Rightarrow> (string list \<Rightarrow> config \<Rightarrow> config) \<Rightarrow> config
     \<Rightarrow> config outcome" where
  "retrieve_config_tuple json_dict path options store ref_config =
     (case json_get json_dict path of
        Raise e \<Rightarrow> Raise e
      | ReturnFalse \<Rightarrow> ReturnFalse
      | Continue None \<Rightarrow> Continue ref_config
      | Continue (Some v) \<Rightarrow>
          (case v of
             JArr values \<Rightarrow>
               if \<not> list_all is_str values then Raise AttributeError
               else
                 (let values_cased = map (\<lambda>value. py_lower (str_of value)) values
                  in if list_all (\<lambda>value. value \<in> set (map py_lower options)) values_cased
                     then Continue (store values_cased ref_config) else ReturnFalse)
           | _ \<Rightarrow> ReturnFalse))"

subsection \<open>The sanity checks (__check_config, lines 535-696)\<close>

text \<open>
  Reading an entry of a method's dictionary: \<open>KeyError\<close> when the dictionary or the
  entry is absent.
\<close>

definition std_base_baseline_epoch_of :: "config \<Rightarrow> (real \<times> real) outcome" where
  "std_base_baseline_epoch_of c =
     (case cfg_n1_detect_std_base c of
        Some (Some r, f) \<Rightarrow> Continue r
      | _ \<Rightarrow> Raise KeyError)"

definition std_base_threshold_factor_of :: "config \<Rightarrow> real outcome" where
  "std_base_threshold_factor_of c =
     (case cfg_n1_detect_std_base c of
        Some (r, Some f) \<Rightarrow> Continue f
      | _ \<Rightarrow> Raise KeyError)"

definition cross_proj_threshold_of :: "config \<Rightarrow> real outcome" where
  "cross_proj_threshold_of c =
     (case cfg_n1_detect_cross_proj c of Some (Some t) \<Rightarrow> Continue t | _ \<Rightarrow> Raise KeyError)"

definition waveform_threshold_of :: "config \<Rightarrow> real outcome" where
  "waveform_threshold_of c =
     (case cfg_n1_detect_waveform c of Some (Some t) \<Rightarrow> Continue t | _ \<Rightarrow> Raise KeyError)"

text \<open>A check reads a value and lets the configuration pass or returns \<open>False\<close>.\<close>

definition check_value :: "(config \<Rightarrow> 'a outcome) \<Rightarrow> (config \<Rightarrow> 'a \<Rightarrow> bool) \<Rightarrow> config \<Rightarrow> config outcome" where
  "check_value read ok c =
     (case read c of
        Raise e \<Rightarrow> Raise e
      | ReturnFalse \<Rightarrow> ReturnFalse
      | Continue v \<Rightarrow> if ok c v then Continue c else ReturnFalse)"

definition check_range_order :: "(config \<Rightarrow> (real \<times> real) outcome) \<Rightarrow> config \<Rightarrow> config outcome" where
  "check_range_order read = check_value read (\<lambda>c r. \<not> snd r < fst r \<and> \<not> fst r = snd r)"

definition check_epoch_within_trial ::
  "(config \<Rightarrow> (real \<times> real) outcome) \<Rightarrow> config \<Rightarrow> config outcome" where
  "check_epoch_within_trial read =
     check_value read (\<lambda>c r. \<not> fst r < fst (cfg_trials_trial_epoch c)
                             \<and> \<not> snd (cfg_trials_trial_epoch c) < snd r)"

definition check_epoch_start_after_onset ::
  "(config \<Rightarrow> (real \<times> real) outcome) \<Rightarrow> config \<Rightarrow> config outcome" where
  "check_epoch_start_after_onset read = check_value read (\<lambda>c r. \<not> fst r < 0)"

text \<open>All calls of \<open>check_number_positive\<close> are for an entry at the third level, where
  the test is \<open>< 0\<close>.\<close>

definition check_number_positive :: "(config \<Rightarrow> real outcome) \<Rightarrow> config \<Rightarrow> config outcome" where
  "check_number_positive read = check_value read (\<lambda>c v. \<not> v < 0)"

definition when_method :: "string \<Rightarrow> (config \<Rightarrow> config outcome) \<Rightarrow> config \<Rightarrow> config outcome" where
  "when_method m step c = (if cfg_n1_detect_method c = m then step c else Continue c)"

definition plain :: "(config \<Rightarrow> 'a) \<Rightarrow> config \<Rightarrow> 'a outcome" where
  "plain field c = Continue (field c)"

definition check_config :: "config \<Rightarrow> config outcome" where
  "check_config =
     run_steps
       [check_range_order (plain cfg_trials_trial_epoch),
        check_range_order (plain cfg_trials_baseline_epoch),
        check_range_order (plain cfg_metrics_cross_proj_epoch),
        check_range_order (plain cfg_metrics_waveform_epoch),
        check_range_order (plain cfg_n1_detect_peak_search_epoch),
        check_range_order (plain cfg_n1_detect_n1_search_epoch),
        when_method ''std_base'' (check_range_order std_base_baseline_epoch_of),
        check_range_order (plain cfg_visualization_x_axis_epoch),
        check_range_order (plain cfg_visualization_blank_stim_epoch),
        check_epoch_within_trial (plain cfg_metrics_cross_proj_epoch),
        check_epoch_within_trial (plain cfg_metrics_waveform_epoch),
        check_epoch_within_trial (plain cfg_n1_detect_peak_search_epoch),
        check_epoch_within_trial (plain cfg_n1_detect_n1_search_epoch),
        when_method ''std_base'' (check_epoch_within_trial std_base_baseline_epoch_of),
        check_epoch_within_trial (plain cfg_visualization_x_axis_epoch),
        check_epoch_within_trial (plain cfg_visualization_blank_stim_epoch),
        check_value (plain cfg_trials_trial_epoch) (\<lambda>c r. \<not> 0 \<le> fst r),
        check_epoch_start_after_onset (plain cfg_metrics_cross_proj_epoch),
        check_epoch_start_after_onset (plain cfg_metrics_waveform_epoch),
        check_epoch_start_after_onset (plain cfg_n1_detect_peak_search_epoch),
        check_epoch_start_after_onset (plain cfg_n1_detect_n1_search_epoch),
        (\<lambda>c. if cfg_n1_detect_method c = ''std_base''
               then check_number_positive std_base_threshold_factor_of c
             else if cfg_n1_detect_method c = ''cross_proj''
               then check_number_positive cross_proj_threshold_of c
             else if cfg_n1_detect_method c = ''waveform''
               then check_number_positive waveform_threshold_of c
             else Continue c),
        check_value (plain cfg_metrics_waveform_bandpass) (\<lambda>c r. \<not> fst r \<le> 0),
        check_value (plain cfg_metrics_waveform_bandpass) (\<lambda>c r. \<not> snd r \<le> 0),
        check_value (plain cfg_metrics_waveform_bandpass) (\<lambda>c r. \<not> snd r < fst r),
        check_value (plain cfg_metrics_waveform_bandpass) (\<lambda>c r. \<not> fst r = snd r)]"

subsection \<open>load_config (lines 163-456)\<close>

definition VALID_CHANNEL_TYPES :: "string list" where
  "VALID_CHANNEL_TYPES =
     [''EEG'', ''ECOG'', ''SEEG'', ''DBS'', ''VEOG'', ''HEOG'', ''EOG'', ''ECG'', ''EMG'',
      ''TRIG'', ''AUDIO'', ''PD'', ''EYEGAZE'', ''PUPIL'', ''MISC'', ''SYSCLOCK'', ''ADC'',
      ''DAC'', ''REF'', ''OTHER'']"

text \<open>Storing an entry in the dictionary of a method, which was created just before.\<close>

definition store_std_base_baseline_epoch :: "real \<times> real \<Rightarrow> config \<Rightarrow> config" where
  "store_std_base_baseline_epoch r c =
     c\<lparr>cfg_n1_detect_std_base :=
         Some (Some r, case cfg_n1_detect_std_base c of None \<Rightarrow> None | Some d \<Rightarrow> snd d)\<rparr>"

definition store_std_base_threshold_factor :: "real \<Rightarrow> config \<Rightarrow> config" where
  "store_std_base_threshold_factor f c =
     c\<lparr>cfg_n1_detect_std_base :=
         Some (case cfg_n1_detect_std_base c of None \<Rightarrow> None | Some d \<Rightarrow> fst d, Some f)\<rparr>"

text \<open>Lines 355-449: the settings are retrieved in this order, starting from the
  default configuration, and checked at the end.\<close>

definition load_steps :: "json \<Rightarrow> (config \<Rightarrow> config outcome) list" where
  "load_steps json_config =
     [retrieve_config_bool json_config [''preprocess'', ''high_pass'']
        (\<lambda>v c. c\<lparr>cfg_preprocess_high_pass := v\<rparr>),
      retrieve_config_range json_config [''trials'', ''trial_epoch'']
        (\<lambda>v c. c\<lparr>cfg_trials_trial_epoch := v\<rparr>),
      retrieve_config_string json_config [''trials'', ''out_of_bounds_handling'']
        [''error'', ''first_last_only'', ''allow'']
        (\<lambda>v c. c\<lparr>cfg_trials_out_of_bounds_handling := v\<rparr>),
      (\<lambda>c. Continue (c\<lparr>cfg_trials_out_of_bounds_handling :=
                           py_lower (cfg_trials_out_of_bounds_handling c)\<rparr>)),
      retrieve_config_range json_config [''trials'', ''baseline_epoch'']
        (\<lambda>v c. c\<lparr>cfg_trials_baseline_epoch := v\<rparr>),
      retrieve_config_string json_config [''trials'', ''baseline_norm'']
        [''median'', ''mean'', ''none'']
        (\<lambda>v c. c\<lparr>cfg_trials_baseline_norm := v\<rparr>),
      (\<lambda>c. Continue (c\<lparr>cfg_trials_baseline_norm := py_lower (cfg_trials_baseline_norm c)\<rparr>)),
      retrieve_config_bool json_config [''trials'', ''concat_bidirectional_pairs'']
        (\<lambda>v c. c\<lparr>cfg_trials_concat_bidirectional_pairs := v\<rparr>),
      retrieve_config_number json_config [''trials'', ''minimum_stimpair_trials'']
        (\<lambda>v c. c\<lparr>cfg_trials_minimum_stimpair_trials := v\<rparr>),
      (\<lambda>c. if \<not> cfg_trials_minimum_stimpair_trials c
                  = of_int (py_round (cfg_trials_minimum_stimpair_trials c))
             then ReturnFalse
           else if cfg_trials_minimum_stimpair_trials c < 0 then ReturnFalse
           else Continue c),
      retrieve_config_tuple json_config [''channels'', ''types''] VALID_CHANNEL_TYPES
        (\<lambda>v c. c\<lparr>cfg_channels_types := v\<rparr>),
      (\<lambda>c. if length (cfg_channels_types c) = 0 then ReturnFalse
           else Continue (c\<lparr>cfg_channels_types := map py_upper (cfg_channels_types c)\<rparr>)),
      retrieve_config_bool json_config [''metrics'', ''cross_proj'', ''enabled'']
        (\<lambda>v c. c\<lparr>cfg_metrics_cross_proj_enabled := v\<rparr>),
      retrieve_config_range json_config [''metrics'', ''cross_proj'', ''epoch'']
        (\<lambda>v c. c\<lparr>cfg_metrics_cross_proj_epoch := v\<rparr>),
      retrieve_config_bool json_config [''metrics'', ''waveform'', ''enabled'']
        (\<lambda>v c. c\<lparr>cfg_metrics_waveform_enabled := v\<rparr>),
      retrieve_config_range json_config [''metrics'', ''waveform'', ''epoch'']
        (\<lambda>v c. c\<lparr>cfg_metrics_waveform_epoch := v\<rparr>),
      retrieve_config_range json_config [''metrics'', ''waveform'', ''bandpass'']
        (\<lambda>v c. c\<lparr>cfg_metrics_waveform_bandpass := v\<rparr>),
      retrieve_config_range json_config [''n1_detect'', ''peak_search_epoch'']
        (\<lambda>v c. c\<lparr>cfg_n1_detect_peak_search_epoch := v\<rparr>),
      retrieve_config_range json_config [''n1_detect'', ''n1_search_epoch'']
        (\<lambda>v c. c\<lparr>cfg_n1_detect_n1_search_epoch := v\<rparr>),
      retrieve_config_string json_config [''n1_detect'', ''method'']
        [''std_base'', ''cross_proj'', ''waveform'']
        (\<lambda>v c. c\<lparr>cfg_n1_detect_method := v\<rparr>),
      (\<lambda>c. Continue (c\<lparr>cfg_n1_detect_std_base := None, cfg_n1_detect_cross_proj := None,
                           cfg_n1_detect_waveform := None\<rparr>)),
      (\<lambda>c. if cfg_n1_detect_method c = ''std_base'' then
             run_steps
               [retrieve_config_range json_config [''n1_detect'', ''std_base'', ''baseline_epoch'']
                  store_std_base_baseline_epoch,
                retrieve_config_number json_config
                  [''n1_detect'', ''std_base'', ''baseline_threshold_factor'']
                  store_std_base_threshold_factor]
               (c\<lparr>cfg_n1_detect_std_base := Some (None, None)\<rparr>)
           else if cfg_n1_detect_method c = ''cross_proj'' then
             retrieve_config_number json_config [''n1_detect'', ''cross_proj'', ''threshold'']
               (\<lambda>v c. c\<lparr>cfg_n1_detect_cross_proj := Some (Some v)\<rparr>)
               (c\<lparr>cfg_n1_detect_cross_proj := Some None\<rparr>)
           else if cfg_n1_detect_method c = ''waveform'' then
             retrieve_config_number json_config [''n1_detect'', ''waveform'', ''threshold'']
               (\<lambda>v c. c\<lparr>cfg_n1_detect_waveform := Some (Some v)\<rparr>)
               (c\<lparr>cfg_n1_detect_waveform := Some None\<rparr>)
           else Continue c),
      retrieve_config_range json_config [''visualization'', ''x_axis_epoch'']
        (\<lambda>v c. c\<lparr>cfg_visualization_x_axis_epoch := v\<rparr>),
      retrieve_config_range json_config [''visualization'', ''blank_stim_epoch'']
        (\<lambda>v c. c\<lparr>cfg_visualization_blank_stim_epoch := v\<rparr>),
      retrieve_config_bool json_config [''visualization'', ''generate_electrode_images'']
        (\<lambda>v c. c\<lparr>cfg_visualization_generate_electrode_images := v\<rparr>),
      retrieve_config_bool json_config [''visualization'', ''generate_stimpair_images'']
        (\<lambda>v c. c\<lparr>cfg_visualization_generate_stimpair_images := v\<rparr>),
      retrieve_config_bool json_config [''visualization'', ''generate_matrix_images'']
        (\<lambda>v c. c\<lparr>cfg_visualization_generate_matrix_images := v\<rparr>),
      check_config]"

text \<open>
  \<open>load_config\<close>. The file is \<open>None\<close> when it cannot be opened (\<open>IOError\<close>), and its
  text otherwise. The second argument is the module's configuration \<open>_config\<close> before
  the call; the result is the value returned (\<open>Inr\<close>) or the exception raised (\<open>Inl\<close>),
  and \<open>_config\<close> after the call.
\<close>

definition load_config :: "string option \<Rightarrow> config \<Rightarrow> (py_error + bool) \<times> config" where
  "load_config file current_config =
     (case file of
        None \<Rightarrow> (Inr False, current_config)
      | Some text \<Rightarrow>
          (case json_loads text of
             None \<Rightarrow> (Inr False, current_config)
           | Some json_config \<Rightarrow>
               (case run_steps (load_steps json_config) create_default_config of
                  Continue config \<Rightarrow> (Inr True, config)
                | ReturnFalse \<Rightarrow> (Inr False, current_config)
                | Raise e \<Rightarrow> (Inl e, current_config))))"

subsection \<open>write_config (lines 459-532)\<close>

text \<open>
  The functions that turn numbers and lists into text are not part of the sources
  (\<open>numbers_to_padded_string\<close> of utils/misc.py with the width 16) or belong to
  Python's library (\<open>str\<close> of a number, \<open>json.dumps\<close> of a list of strings); they are
  parameters of the model.
\<close>

record renderers =
  numbers_to_padded_string :: "real \<times> real \<Rightarrow> string"
  py_str :: "real \<Rightarrow> string"
  json_dumps :: "string list \<Rightarrow> string"

definition bool_str :: "bool \<Rightarrow> string" where
  "bool_str b = (if b then ''true'' else ''false'')"

text \<open>Lines 469-504: the text up to the entry of the detection method.\<close>

definition config_str_head :: "renderers \<Rightarrow> config \<Rightarrow> string" where
  "config_str_head r c =
     concat
       [''{\<newline>'',
        ''    \"preprocess\": {\<newline>'',
        ''        \"high_pass\":                        '',
        bool_str (cfg_preprocess_high_pass c),
        '',\<newline>'',
        ''        \"line_noise_removal\":               \"'',
        cfg_preprocess_line_noise_removal c,
        ''\"\<newline>'',
        ''        \"early_re_referencing\": {\<newline>'',
        ''            \"enabled\":                      '',
        bool_str (cfg_preprocess_early_re_referencing_enabled c),
        '',\<newline>'',
        ''            \"method\":                       \"'',
        cfg_preprocess_early_re_referencing_method c,
        ''\",\<newline>'',
        ''            \"stim_excl_epoch\":              ['',
        numbers_to_padded_string r (cfg_preprocess_early_re_referencing_stim_excl_epoch c),
        '']\<newline>'',
        ''        },\<newline>'',
        ''    },\<newline>\<newline>'',
        ''    \"trials\": {\<newline>'',
        ''        \"trial_epoch\":                      ['',
        numbers_to_padded_string r (cfg_trials_trial_epoch c),
        ''],\<newline>'',
        ''        \"out_of_bounds_handling\":           \"'',
        cfg_trials_out_of_bounds_handling c,
        ''\",\<newline>'',
        ''        \"baseline_epoch\":                   ['',
        numbers_to_padded_string r (cfg_trials_baseline_epoch c),
        ''],\<newline>'',
        ''        \"baseline_norm\":                    \"'',
        cfg_trials_baseline_norm c,
        ''\",\<newline>'',
        ''        \"concat_bidirectional_pairs\":       '',
        bool_str (cfg_trials_concat_bidirectional_pairs c),
        '',\<newline>'',
        ''        \"minimum_stimpair_trials\":          '',
        py_str r (cfg_trials_minimum_stimpair_trials c),
        ''\<newline>'',
        ''    },\<newline>\<newline>'',
        ''    \"channels\": {\<newline>'',
        ''        \"types\":                            '',
        json_dumps r (cfg_channels_types c),
        ''\<newline>'',
        ''    },\<newline>\<newline>'',
        ''    \"metrics\": {\<newline>'',
        ''        \"cross_proj\": {\<newline>'',
        ''            \"enabled\":                      '',
        bool_str (cfg_metrics_cross_proj_enabled c),
        '',\<newline>'',
        ''            \"epoch\":                        ['',
        numbers_to_padded_string r (cfg_metrics_cross_proj_epoch c),
        '']\<newline>'',
        ''        },\<newline>'',
        ''        \"waveform\": {\<newline>'',
        ''            \"enabled\":                      '',
        bool_str (cfg_metrics_waveform_enabled c),
        '',\<newline>'',
        ''            \"epoch\":                        ['',
        numbers_to_padded_string r (cfg_metrics_waveform_epoch c),
        ''],\<newline>'',
        ''            \"bandpass\":                     ['',
        numbers_to_padded_string r (cfg_metrics_waveform_bandpass c),
        '']\<newline>'',
        ''        }\<newline>'',
        ''    },\<newline>\<newline>'',
        ''    \"n1_detect\": {\<newline>'',
        ''        \"peak_search_epoch\":                ['',
        numbers_to_padded_string r (cfg_n1_detect_peak_search_epoch c),
        ''],\<newline>'',
        ''        \"n1_search_epoch\":                  ['',
        numbers_to_padded_string r (cfg_n1_detect_n1_search_epoch c),
        ''],\<newline>'',
        ''        \"method\":                           \"'',
        cfg_n1_detect_method c,
        ''\",\<newline>'']"

text \<open>Lines 506-518: the dictionary of the configured detection method; reading an
  absent entry raises \<open>KeyError\<close>.\<close>

definition config_str_method :: "renderers \<Rightarrow> config \<Rightarrow> py_error + string" where
  "config_str_method r c =
     (if cfg_n1_detect_method c = ''std_base'' then
        (case cfg_n1_detect_std_base c of
           Some (Some baseline_epoch, Some baseline_threshold_factor) \<Rightarrow>
             Inr (concat
               [''        \"std_base\": {\<newline>'',
                ''            \"baseline_epoch\":                ['',
                numbers_to_padded_string r baseline_epoch,
                ''],\<newline>'',
                ''            \"baseline_threshold_factor\":     '',
                py_str r baseline_threshold_factor,
                ''\<newline>'',
                ''        }\<newline>''])
         | _ \<Rightarrow> Inl KeyError)
      else if cfg_n1_detect_method c = ''cross_proj'' then
        (case cfg_n1_detect_cross_proj c of
           Some (Some threshold) \<Rightarrow>
             Inr (concat
               [''        \"cross_proj\": {\<newline>'',
                ''            \"threshold\":                     '',
                py_str r threshold,
                ''\<newline>'',
                ''        }\<newline>''])
         | _ \<Rightarrow> Inl KeyError)
      else if cfg_n1_detect_method c = ''waveform'' then
        (case cfg_n1_detect_waveform c of
           Some (Some threshold) \<Rightarrow>
             Inr (concat
               [''        \"waveform\": {\<newline>'',
                ''            \"threshold\":                     '',
                py_str r threshold,
                ''\<newline>'',
                ''        }\<newline>''])
         | _ \<Rightarrow> Inl KeyError)
      else Inr [])"

text \<open>Lines 520-528: the rest of the text.\<close>

definition config_str_tail :: "renderers \<Rightarrow> config \<Rightarrow> string" where
  "config_str_tail r c =
     concat
       [''    },\<newline>\<newline>'',
        ''    \"visualization\": {\<newline>'',
        ''        \"x_axis_epoch\":                     ['',
        numbers_to_padded_string r (cfg_visualization_x_axis_epoch c),
        ''],\<newline>'',
        ''        \"blank_stim_epoch\":                 ['',
        numbers_to_padded_string r (cfg_visualization_blank_stim_epoch c),
        ''],\<newline>'',
        ''        \"generate_electrode_images\":        '',
        bool_str (cfg_visualization_generate_electrode_images c),
        '',\<newline>'',
        ''        \"generate_stimpair_images\":         '',
        bool_str (cfg_visualization_generate_stimpair_images c),
        '',\<newline>'',
        ''        \"generate_matrix_images\":           '',
        bool_str (cfg_visualization_generate_matrix_images c),
        ''\<newline>'',
        ''    }\<newline>'',
        ''}'']"

text \<open>\<open>write_config\<close>: the text that is written to the file, or the exception.\<close>

definition write_config :: "renderers \<Rightarrow> config \<Rightarrow> py_error + string" where
  "write_config r c =
     (case config_str_method r c of
        Inl e \<Rightarrow> Inl e
      | Inr method_str \<Rightarrow>
          Inr (config_str_head r c @ method_str @ config_str_tail r c @ ''\<newline>''))"

text \<open>
  \<open>write_config(filepath)\<close> followed by \<open>load_config(filepath)\<close> of the same file,
  starting with the configuration \<open>c\<close>: the value returned by \<open>load_config\<close> (or the
  exception raised by one of the two) and the configuration afterwards.
\<close>

definition write_then_load :: "renderers \<Rightarrow> config \<Rightarrow> (py_error + bool) \<times> config" where
  "write_then_load r c =
     (case write_config r c of
        Inl e \<Rightarrow> (Inl e, c)
      | Inr text \<Rightarrow> load_config (Some text) c)"

text \<open>A text without a double quote, a backslash or a control character: it stands for
  itself between the quotes of a JSON string.\<close>

definition plain_text :: "string \<Rightarrow> bool" where
  "plain_text s =
     list_all (\<lambda>c. c \<noteq> CHR 0x22 \<and> c \<noteq> CHR 0x5C \<and> \<not> (of_char c :: nat) < 32) s"

section \<open>Properties of the loop combinator\<close>

lemma iter_idx_no_error:
  "(\<And>k x. x \<in> set xs \<Longrightarrow> f k x = (u k x, Inr (g k x))) \<Longrightarrow>
   iter_idx f i xs = (map (\<lambda>(k, x). u k x) (zip [i..<i + length xs] xs),
                      Inr (map (\<lambda>(k, x). g k x) (zip [i..<i + length xs] xs)))"
proof (induction xs arbitrary: i)
  case Nil
  then show ?case by simp
next
  case (Cons x xs)
  have step: "f i x = (u i x, Inr (g i x))" using Cons.prems by simp
  have rest: "iter_idx f (Suc i) xs =
      (map (\<lambda>(k, x). u k x) (zip [Suc i..<Suc i + length xs] xs),
       Inr (map (\<lambda>(k, x). g k x) (zip [Suc i..<Suc i + length xs] xs)))"
    using Cons.IH [of "Suc i"] Cons.prems by simp
  have upt: "[i..<i + length (x # xs)] = i # [Suc i..<Suc i + length xs]"
    by (subst upt_rec) simp
  show ?case
    unfolding upt by (simp add: step rest)
qed

lemma iter_idx_Inr:
  "iter_idx f i xs = (xs', Inr rs) \<Longrightarrow>
     length xs' = length xs \<and> length rs = length xs \<and>
     (\<forall>k<length xs. f (i + k) (xs ! k) = (xs' ! k, Inr (rs ! k)))"
proof (induction xs arbitrary: i xs' rs)
  case Nil
  then show ?case by simp
next
  case (Cons x xs)
  obtain x' r where fx: "f i x = (x', Inr r)"
    using Cons.prems by (auto split: prod.splits sum.splits)
  obtain ys rs' where rec: "iter_idx f (Suc i) xs = (ys, Inr rs')"
    using Cons.prems fx by (auto split: prod.splits sum.splits)
  have xs': "xs' = x' # ys" and rs: "rs = r # rs'"
    using Cons.prems fx rec by auto
  have IH: "length ys = length xs \<and> length rs' = length xs \<and>
     (\<forall>k<length xs. f (Suc i + k) (xs ! k) = (ys ! k, Inr (rs' ! k)))"
    using Cons.IH [OF rec] .
  show ?case
  proof (intro conjI allI impI)
    fix k assume k: "k < length (x # xs)"
    show "f (i + k) ((x # xs) ! k) = (xs' ! k, Inr (rs ! k))"
    proof (cases k)
      case 0
      then show ?thesis using fx xs' rs by simp
    next
      case (Suc j)
      then show ?thesis using IH k xs' rs by simp
    qed
  qed (use IH xs' rs in simp_all)
qed


lemma nth_map_zip_upt:
  "k < length xs \<Longrightarrow> map (\<lambda>(j, x). h j x) (zip [i..<i + length xs] xs) ! k = h (i + k) (xs ! k)"
  by simp

lemma map2_ignore_index:
  "length ks = length xs \<Longrightarrow> map (\<lambda>(k, x). h x) (zip ks xs) = map h xs"
  by (induction ks xs rule: list_induct2) auto

section \<open>Detection by the baseline's standard deviation\<close>

lemma detect_cell_std_base:
  assumes "env_method env = ''std_base''" and "env_baseline env = Some b"
  shows "detect_cell pf env iElec iPair cell =
           (zero_nans cell (env_peak_search_start_sample env) (env_peak_search_end_sample env),
            Inr (std_base_cell pf env cell))"
  using assms
  by (cases b) (simp add: detect_cell_def std_base_cell_def Let_def split: option.splits)

lemma detect_loops_std_base:
  assumes "env_method env = ''std_base''" and "env_baseline env = Some b"
  shows "detect_loops pf env data =
           (map (map (\<lambda>cell. zero_nans cell (env_peak_search_start_sample env)
                              (env_peak_search_end_sample env))) data,
            Inr (map (map (std_base_cell pf env)) data))"
proof -
  have inner: "iter_idx (\<lambda>iPair cell. detect_cell pf env iElec iPair cell) 0 row =
      (map (\<lambda>cell. zero_nans cell (env_peak_search_start_sample env)
                              (env_peak_search_end_sample env)) row,
       Inr (map (std_base_cell pf env) row))" for iElec row
    using iter_idx_no_error [of row "\<lambda>iPair cell. detect_cell pf env iElec iPair cell"
        "\<lambda>k cell. zero_nans cell (env_peak_search_start_sample env) (env_peak_search_end_sample env)"
        "\<lambda>k cell. std_base_cell pf env cell" 0]
    by (simp add: detect_cell_std_base [OF assms] map2_ignore_index)
  have outer: "iter_idx (\<lambda>iElec row. iter_idx (\<lambda>iPair cell. detect_cell pf env iElec iPair cell) 0 row) 0 data =
      (map (\<lambda>(k, row). map (\<lambda>cell. zero_nans cell (env_peak_search_start_sample env)
                              (env_peak_search_end_sample env)) row) (zip [0..<0 + length data] data),
       Inr (map (\<lambda>(k, row). map (std_base_cell pf env) row) (zip [0..<0 + length data] data)))"
    by (rule iter_idx_no_error) (rule inner)
  show ?thesis
    unfolding detect_loops_def outer by (simp add: map2_ignore_index)
qed



text \<open>
  The example of the claim: the baseline has standard deviation 10, which counts as 50,
  so with the factor 3.4 the threshold is 170. A peak of -171 is recorded, a peak of
  -169 is not.
\<close>

lemma sqrt_100: "sqrt 100 = 10"
  by (rule real_sqrt_unique) simp_all

lemma example_baseline_std: "nanstd [Some (- 10), Some 10] = 10"
  by (simp add: nanstd_def nan_values_def mean_def sqrt_100)

lemma example_selected_peak:
  "selected_peak peak_at_second (example_cell amp) 2 6 3 5 = Some (3, amp)"
  by (simp add: selected_peak_def search_signal_def py_slice_def py_slice_bounds_def
        all_nan_def example_cell_def peak_at_second_def nan_to_zero_def Let_def)


lemma py_round_of_int: "py_round (of_int n) = n"
  by (simp add: py_round_def)

lemma example_samples:
  "epoch_sample 0 1 2 = 2" "epoch_sample 4 1 2 = 6" "epoch_sample 1 1 2 = 3"
  "epoch_sample 3 1 2 = 5" "epoch_sample (- 2) 1 2 = 0"
  using py_round_of_int [of 0] py_round_of_int [of 4] py_round_of_int [of 1]
    py_round_of_int [of 3] py_round_of_int [of "- 2"]
  by (simp_all add: epoch_sample_def)

lemma example_baseline:
  "py_slice (zero_nans (example_cell amp) 2 6) 0 2 = [Some (- 10), Some 10]"
  by (simp add: zero_nans_def search_signal_def py_slice_def py_slice_map_def
        py_slice_bounds_def all_nan_def example_cell_def nan_to_zero_def)


section \<open>The loop body and the loops for every method\<close>

lemma fst_detect_cell:
  "fst (detect_cell pf env iElec iPair cell) =
     zero_nans cell (env_peak_search_start_sample env) (env_peak_search_end_sample env)"
  by (simp add: detect_cell_def Let_def split: option.splits sum.splits prod.splits)

lemma detect_cell_rejected:
  assumes "selected_peak pf cell (env_peak_search_start_sample env)
             (env_peak_search_end_sample env) (env_n1_search_start_sample env)
             (env_n1_search_end_sample env) = Some (idx, amp)"
    and "0 < amp \<or> 3000 < \<bar>amp\<bar>"
  shows "snd (detect_cell pf env iElec iPair cell) = Inr None"
  using assms by (auto simp add: detect_cell_def Let_def)

lemma detect_loops_cell:
  assumes "detect_loops pf env data = (data', Inr cells)"
    and "iElec < length data" and "iPair < length (data ! iElec)"
  shows "detect_cell pf env iElec iPair (data ! iElec ! iPair)
           = (data' ! iElec ! iPair, Inr (cells ! iElec ! iPair))"
proof -
  have outer: "iter_idx (\<lambda>iPair cell. detect_cell pf env iElec iPair cell) 0 (data ! iElec)
                 = (data' ! iElec, Inr (cells ! iElec))"
    using iter_idx_Inr [OF assms(1) [unfolded detect_loops_def]] assms(2) by simp
  show ?thesis
    using iter_idx_Inr [OF outer] assms(3) by simp
qed

lemma ieeg_detect_n1_Arrays:
  assumes "ieeg_detect_n1 pf cfg data stim_onset_index sampling_rate cpm wfm
             = (data', Arrays inds amps)"
  shows "\<exists>cells. detect_loops pf (detect_env_of cfg sampling_rate stim_onset_index cpm wfm) data
                   = (data', Inr cells)
               \<and> inds = map (map (map_option fst)) cells
               \<and> amps = map (map (map_option snd)) cells
               \<and> epoch_sample (fst (peak_search_epoch cfg)) sampling_rate stim_onset_index
                   \<le> epoch_sample (snd (peak_search_epoch cfg)) sampling_rate stim_onset_index"
  using assms
  by (simp add: ieeg_detect_n1_def detect_env_of_def Let_def
        split: if_splits prod.splits sum.splits)


text \<open>
  Claim C2. Whatever the configured method: when the call returns its output arrays, a
  cell whose selected peak is positive or larger than 3000 in magnitude has no
  detection (both output arrays keep NaN there).
\<close>

theorem saturated_or_positive_peak_rejected:
  assumes run: "ieeg_detect_n1 pf cfg data stim_onset_index sampling_rate cpm wfm
                  = (data', Arrays inds amps)"
    and env: "env = detect_env_of cfg sampling_rate stim_onset_index cpm wfm"
    and cell: "iElec < length data" "iPair < length (data ! iElec)"
    and peak: "selected_peak pf (data ! iElec ! iPair) (env_peak_search_start_sample env)
                 (env_peak_search_end_sample env) (env_n1_search_start_sample env)
                 (env_n1_search_end_sample env) = Some (idx, amp)"
    and bad: "0 < amp \<or> 3000 < \<bar>amp\<bar>"
  shows "inds ! iElec ! iPair = None \<and> amps ! iElec ! iPair = NaN"
proof -
  obtain cells where loops: "detect_loops pf env data = (data', Inr cells)"
    and inds: "inds = map (map (map_option fst)) cells"
    and amps: "amps = map (map (map_option snd)) cells"
    using ieeg_detect_n1_Arrays [OF run] env by blast
  have lens: "length cells = length data"
    using iter_idx_Inr [OF loops [unfolded detect_loops_def]] by simp
  have row: "iter_idx (\<lambda>iPair cell. detect_cell pf env iElec iPair cell) 0 (data ! iElec)
                 = (data' ! iElec, Inr (cells ! iElec))"
    using iter_idx_Inr [OF loops [unfolded detect_loops_def]] cell(1) by simp
  have lens2: "length (cells ! iElec) = length (data ! iElec)"
    using iter_idx_Inr [OF row] by simp
  have "snd (detect_cell pf env iElec iPair (data ! iElec ! iPair)) = Inr (cells ! iElec ! iPair)"
    using detect_loops_cell [OF loops cell] by simp
  then have "cells ! iElec ! iPair = None"
    using detect_cell_rejected [OF peak bad] by simp
  then show ?thesis
    using cell lens lens2 by (simp add: inds amps)
qed


lemma py_slice_map_nth:
  assumes "k < length xs" and "py_slice_bounds (length xs) a b = (lo, hi)"
  shows "py_slice_map f xs a b ! k = (if lo \<le> k \<and> k < hi then f (xs ! k) else xs ! k)"
proof -
  have hi: "hi \<le> length xs" and lo: "lo \<le> length xs"
    using assms(2) by (auto simp add: py_slice_bounds_def Let_def split: if_splits)
  show ?thesis
    using assms(1) hi lo
    by (auto simp add: py_slice_map_def assms(2) nth_append min_def max_def)
qed

lemma zero_nans_nth:
  assumes "0 \<le> ps" and "ps \<le> pe" and "k < length cell"
  shows "zero_nans cell ps pe ! k =
           (if \<not> all_nan (search_signal cell ps pe) \<and> ps < int k \<and> int k < pe
                 \<and> cell ! k = NaN
            then Some 0 else cell ! k)"
proof -
  have b: "py_slice_bounds (length cell) (ps + 1) pe
             = (nat (min (ps + 1) (int (length cell))), nat (min pe (int (length cell))))"
    using assms(1,2) by (simp add: py_slice_bounds_def Let_def)
  have in_window: "(nat (min (ps + 1) (int (length cell))) \<le> k
                    \<and> k < nat (min pe (int (length cell)))) = (ps < int k \<and> int k < pe)"
    using assms by auto
  show ?thesis
    using py_slice_map_nth [OF assms(3) b, of nan_to_zero]
    by (auto simp add: zero_nans_def in_window nan_to_zero_def split: option.splits)
qed

lemma py_slice_map_length: "length (py_slice_map f xs a b) = length xs"
proof -
  obtain lo hi where b: "py_slice_bounds (length xs) a b = (lo, hi)"
    by (cases "py_slice_bounds (length xs) a b")
  have hi: "hi \<le> length xs" and lo: "lo \<le> length xs"
    using b by (auto simp add: py_slice_bounds_def Let_def split: if_splits)
  show ?thesis
    using hi lo by (simp add: py_slice_map_def b)
qed

lemma zero_nans_length: "length (zero_nans cell ps pe) = length cell"
  by (simp add: zero_nans_def py_slice_map_length)


text \<open>
  Claim C9. The detection writes to the array it is given. When it returns its output
  arrays, every cell has kept its length, and a sample of a cell has changed exactly
  when the cell's peak-search window is not all NaN, the sample lies in that window
  (indices above the start sample and below the end sample) and it was NaN; it is then
  0. In the legacy main flow the array saved by the first write is the array before the
  call, and the array saved by the second write is the array after the call.
\<close>

theorem detection_zeroes_nans_in_place:
  assumes run: "ieeg_detect_n1 pf cfg data stim_onset_index sampling_rate cpm wfm
                  = (data', Arrays inds amps)"
    and ps: "ps = epoch_sample (fst (peak_search_epoch cfg)) sampling_rate stim_onset_index"
    and pe: "pe = epoch_sample (snd (peak_search_epoch cfg)) sampling_rate stim_onset_index"
    and nonneg: "0 \<le> ps"
    and cell: "iElec < length data" "iPair < length (data ! iElec)"
    and k: "k < length (data ! iElec ! iPair)"
  shows "length (data' ! iElec ! iPair) = length (data ! iElec ! iPair)
         \<and> data' ! iElec ! iPair ! k =
             (if \<not> all_nan (search_signal (data ! iElec ! iPair) ps pe)
                   \<and> ps < int k \<and> int k < pe \<and> data ! iElec ! iPair ! k = NaN
              then Some 0 else data ! iElec ! iPair ! k)
         \<and> (\<forall>rate. sampling_rate = of_int (py_int rate) \<longrightarrow>
               main_run_saves pf cfg data stim_onset_index rate cpm wfm = (data, Some data'))"
proof -
  define env where "env = detect_env_of cfg sampling_rate stim_onset_index cpm wfm"
  obtain cells where loops: "detect_loops pf env data = (data', Inr cells)"
    and order: "ps \<le> pe"
    using ieeg_detect_n1_Arrays [OF run] env_def ps pe by blast
  have envs: "env_peak_search_start_sample env = ps" "env_peak_search_end_sample env = pe"
    by (simp_all add: env_def detect_env_of_def ps pe)
  have "fst (detect_cell pf env iElec iPair (data ! iElec ! iPair)) = data' ! iElec ! iPair"
    using detect_loops_cell [OF loops cell] by simp
  then have eq: "data' ! iElec ! iPair = zero_nans (data ! iElec ! iPair) ps pe"
    by (simp add: fst_detect_cell envs)
  have saves: "main_run_saves pf cfg data stim_onset_index rate cpm wfm = (data, Some data')"
    if "sampling_rate = of_int (py_int rate)" for rate
    using run that by (simp add: main_run_saves_def)
  show ?thesis
    using zero_nans_nth [OF nonneg order k] saves
    by (simp add: eq zero_nans_length)
qed


lemma ieeg_detect_n1_std_base:
  assumes m: "n1_detect_method cfg = ''std_base''"
    and bl: "std_base_baseline_epoch cfg = Some bl_epoch"
    and fa: "std_base_baseline_threshold_factor cfg = Some factor"
    and env: "env = detect_env_of cfg sampling_rate stim_onset_index cpm wfm"
    and valid: "env_peak_search_start_sample env \<le> env_peak_search_end_sample env"
      "env_peak_search_end_sample env \<le> int (num_samples_of data)"
      "env_n1_search_start_sample env \<le> env_n1_search_end_sample env"
  shows "ieeg_detect_n1 pf cfg data stim_onset_index sampling_rate cpm wfm =
      (map (map (\<lambda>cell. zero_nans cell (env_peak_search_start_sample env)
                              (env_peak_search_end_sample env))) data,
       Arrays (map (map (\<lambda>cell. map_option fst (std_base_cell pf env cell))) data)
              (map (map (\<lambda>cell. map_option snd (std_base_cell pf env cell))) data))"
proof -
  have em: "env_method env = ''std_base''"
    by (simp add: env detect_env_of_def m)
  obtain b where eb: "env_baseline env = Some b"
    by (simp add: env detect_env_of_def m bl fa)
  show ?thesis
    using valid detect_loops_std_base [OF em eb, of pf data]
    by (simp add: ieeg_detect_n1_def m bl fa Let_def env [symmetric] comp_def)
qed

lemma example_env_simps:
  "env_method example_env = ''std_base''"
  "env_peak_search_start_sample example_env = 2"
  "env_peak_search_end_sample example_env = 6"
  "env_n1_search_start_sample example_env = 3"
  "env_n1_search_end_sample example_env = 5"
  "env_baseline example_env = Some (0, 2, 34 / 10)"
  by (simp_all add: example_env_def detect_env_of_def example_config_def example_samples)

lemma example_run:
  assumes "length cell = 6"
  shows "ieeg_detect_n1 peak_at_second example_config [[cell]] 2 1 None None =
           ([[zero_nans cell 2 6]],
            Arrays [[map_option fst (std_base_cell peak_at_second example_env cell)]]
                   [[map_option snd (std_base_cell peak_at_second example_env cell)]])"
proof -
  have cfg: "n1_detect_method example_config = ''std_base''"
    "std_base_baseline_epoch example_config = Some (- 2, 0)"
    "std_base_baseline_threshold_factor example_config = Some (34 / 10)"
    by (simp_all add: example_config_def)
  have valid: "env_peak_search_start_sample example_env \<le> env_peak_search_end_sample example_env"
    "env_peak_search_end_sample example_env \<le> int (num_samples_of [[cell]])"
    "env_n1_search_start_sample example_env \<le> env_n1_search_end_sample example_env"
    using assms by (simp_all add: example_env_simps num_samples_of_def)
  show ?thesis
    using ieeg_detect_n1_std_base [OF cfg example_env_def valid, of peak_at_second]
    by (simp add: example_env_simps)
qed

lemma example_std_base_cell:
  "std_base_cell peak_at_second example_env (example_cell amp) =
     (if 0 < amp \<or> 3000 < \<bar>amp\<bar> \<or> \<bar>amp\<bar> < 170 then None else Some (3, amp))"
  by (simp add: std_base_cell_def example_env_simps example_selected_peak
        classify_std_base_def example_baseline example_baseline_std all_nan_def Let_def)

text \<open>
  The example of claim C2: a peak of -3001 gives no detection; the same recording with
  a peak of -2999, which is above the threshold of 170, gives one.
\<close>

theorem saturated_or_positive_peak_rejected_witness:
  "(\<exists>data' inds amps.
      ieeg_detect_n1 peak_at_second example_config [[example_cell (- 3001)]] 2 1 None None
        = (data', Arrays inds amps)
      \<and> inds ! 0 ! 0 = None \<and> amps ! 0 ! 0 = NaN)
   \<and> (\<exists>data' inds amps.
      ieeg_detect_n1 peak_at_second example_config [[example_cell (- 2999)]] 2 1 None None
        = (data', Arrays inds amps)
      \<and> inds ! 0 ! 0 = Some 3 \<and> amps ! 0 ! 0 = Some (- 2999))"
proof -
  have len: "length (example_cell amp) = 6" for amp
    by (simp add: example_cell_def)
  note run = example_run [OF len [of "- 3001"]]
  have "inds ! 0 ! 0 = None \<and> amps ! 0 ! 0 = NaN"
    if "inds = [[map_option fst (std_base_cell peak_at_second example_env (example_cell (- 3001)))]]"
      and "amps = [[map_option snd (std_base_cell peak_at_second example_env (example_cell (- 3001)))]]"
    for inds amps
    using saturated_or_positive_peak_rejected [where pf = peak_at_second
        and cfg = example_config and data = "[[example_cell (- 3001)]]"
        and stim_onset_index = 2 and sampling_rate = 1 and cpm = None and wfm = None
        and env = example_env and iElec = 0 and iPair = 0 and idx = 3 and amp = "- 3001"
        and inds = inds and amps = amps and data' = "[[zero_nans (example_cell (- 3001)) 2 6]]"]
      run that
    by (simp add: example_env_simps example_selected_peak example_env_def [symmetric])
  then have a: "\<exists>data' inds amps.
      ieeg_detect_n1 peak_at_second example_config [[example_cell (- 3001)]] 2 1 None None
        = (data', Arrays inds amps)
      \<and> inds ! 0 ! 0 = None \<and> amps ! 0 ! 0 = NaN"
    using run by blast
  have b: "\<exists>data' inds amps.
      ieeg_detect_n1 peak_at_second example_config [[example_cell (- 2999)]] 2 1 None None
        = (data', Arrays inds amps)
      \<and> inds ! 0 ! 0 = Some 3 \<and> amps ! 0 ! 0 = Some (- 2999)"
    using example_run [OF len [of "- 2999"]] by (simp add: example_std_base_cell)
  show ?thesis using a b by blast
qed


lemma py_int_1: "py_int 1 = 1"
  by (simp add: py_int_def)

theorem detection_zeroes_nans_in_place_witness:
  "\<exists>data'. main_run_saves peak_at_second example_config [[example_nan_cell]] 2 1 None None
              = ([[example_nan_cell]], Some data')
           \<and> example_nan_cell ! 3 = NaN \<and> data' ! 0 ! 0 ! 3 = Some 0
           \<and> data' ! 0 ! 0 ! 4 = example_nan_cell ! 4"
proof -
  have len: "length example_nan_cell = 6"
    by (simp add: example_nan_cell_def)
  have window: "\<not> all_nan (search_signal example_nan_cell 2 6)"
    by (simp add: search_signal_def py_slice_def py_slice_bounds_def all_nan_def
          example_nan_cell_def)
  have ps: "2 = epoch_sample (fst (peak_search_epoch example_config)) 1 2"
    and pe: "6 = epoch_sample (snd (peak_search_epoch example_config)) 1 2"
    by (simp_all add: example_config_def example_samples)
  note inst = detection_zeroes_nans_in_place [OF example_run [OF len] ps pe, of 0 0]
  have "main_run_saves peak_at_second example_config [[example_nan_cell]] 2 1 None None
              = ([[example_nan_cell]], Some [[zero_nans example_nan_cell 2 6]])
        \<and> example_nan_cell ! 3 = NaN \<and> [[zero_nans example_nan_cell 2 6]] ! 0 ! 0 ! 3 = Some 0
        \<and> [[zero_nans example_nan_cell 2 6]] ! 0 ! 0 ! 4 = example_nan_cell ! 4"
    using inst [of 3] inst [of 4] window py_int_1
    by (simp add: len) (simp add: example_nan_cell_def)
  then show ?thesis by blast
qed

text \<open>
  Claim C6. With method \<open>cross_proj\<close> the check before the loops looks at the waveform
  metrics and not at the cross-projection metrics. A call without cross-projection
  metrics but with waveform metrics of the right shape passes the check and raises
  \<open>TypeError\<close> inside the loops, at the first cell that reaches the classification; a
  call with cross-projection metrics but without waveform metrics returns
  \<open>(None, None)\<close>.
\<close>

theorem cross_proj_tests_waveform_metrics:
  "ieeg_detect_n1 peak_at_second example_cross_proj_config [[example_cell (- 171)]] 2 1
       None (Some [[Some 0]])
     = ([[example_cell (- 171)]], Raised TypeError)
   \<and> ieeg_detect_n1 peak_at_second example_cross_proj_config [[example_cell (- 171)]] 2 1
       (Some [[Some 10]]) None
     = ([[example_cell (- 171)]], ReturnNone)"
proof -
  have samples: "epoch_sample (fst (peak_search_epoch example_cross_proj_config)) 1 2 = 2"
    "epoch_sample (snd (peak_search_epoch example_cross_proj_config)) 1 2 = 6"
    "epoch_sample (fst (n1_search_epoch example_cross_proj_config)) 1 2 = 3"
    "epoch_sample (snd (n1_search_epoch example_cross_proj_config)) 1 2 = 5"
    by (simp_all add: example_cross_proj_config_def example_samples)
  have cfg: "n1_detect_method example_cross_proj_config = ''cross_proj''"
    "cross_proj_threshold example_cross_proj_config = Some (35 / 10)"
    by (simp_all add: example_cross_proj_config_def)
  have shape: "num_samples_of [[example_cell (- 171)]] = 6" "shape2 [[example_cell (- 171)]] = (1, 1)"
    "shape2 [[Some (0::real)]] = (1, 1)"
    by (simp_all add: num_samples_of_def shape2_def example_cell_def)
  have unchanged: "zero_nans (example_cell (- 171)) 2 6 = example_cell (- 171)"
    by (simp add: zero_nans_def search_signal_def py_slice_def py_slice_map_def
          py_slice_bounds_def all_nan_def example_cell_def nan_to_zero_def)
  have cell: "detect_cell peak_at_second
                (detect_env_of example_cross_proj_config 1 2 None (Some [[Some 0]])) 0 0
                (example_cell (- 171))
              = (example_cell (- 171), Inl TypeError)"
    by (simp add: detect_cell_def detect_env_of_def samples cfg example_selected_peak
          unchanged metric_at_def)
  have a: "ieeg_detect_n1 peak_at_second example_cross_proj_config [[example_cell (- 171)]] 2 1
       None (Some [[Some 0]]) = ([[example_cell (- 171)]], Raised TypeError)"
    by (simp add: ieeg_detect_n1_def Let_def cfg shape detect_loops_def cell)
       (simp add: detect_env_of_def samples)
  have b: "ieeg_detect_n1 peak_at_second example_cross_proj_config [[example_cell (- 171)]] 2 1
       (Some [[Some 10]]) None = ([[example_cell (- 171)]], ReturnNone)"
    by (simp add: ieeg_detect_n1_def Let_def cfg shape)
  show ?thesis using a b by simp
qed

section \<open>Stimulation-pair conditions\<close>

lemma pair_trial_indices_concat:
  "pair_trial_indices True channels trial_pairs i0 i1 =
     (if i0 \<le> i1 then merged_trials trial_pairs (channels ! i0) (channels ! i1) else [])"
  by (auto simp add: pair_trial_indices_def merged_trials_def stimulating_def prod_eq_iff
        intro: filter_cong)

lemma pair_trial_indices_separate:
  "pair_trial_indices False channels trial_pairs i0 i1 =
     stimulating trial_pairs (channels ! i0) (channels ! i1)"
  by (auto simp add: pair_trial_indices_def stimulating_def prod_eq_iff intro: filter_cong)

lemma stimpairs_member:
  "p \<in> set (stimpairs c m channels trial_pairs trial_onsets) \<longleftrightarrow>
   (\<exists>i0 < length channels. \<exists>i1 < length channels.
      p = make_stimpair c channels trial_pairs trial_onsets i0 i1
      \<and> pair_trial_indices c channels trial_pairs i0 i1 \<noteq> []
      \<and> m \<le> int (length (pair_trial_indices c channels trial_pairs i0 i1)))"
  by (auto simp add: stimpairs_def stimpairs_with_trials_def Let_def make_stimpair_def)

lemma map_of_dict_set: "map_of (dict_set k v d) = (map_of d)(k \<mapsto> v)"
  by (induction d) (auto simp add: fun_eq_iff)

lemma keys_dict_set: "fst ` set (dict_set k v d) = insert k (fst ` set d)"
  by (induction d) auto

lemma distinct_dict_set:
  "distinct (map fst d) \<Longrightarrow> distinct (map fst (dict_set k v d))"
  by (induction d) (auto simp add: keys_dict_set)

lemma distinct_add_stim_pair:
  "distinct (map fst d) \<Longrightarrow> distinct (map fst (add_stim_pair c ch tp ons ij d))"
  by (simp add: add_stim_pair_def Let_def distinct_dict_set)

lemma distinct_fold_add:
  "distinct (map fst d) \<Longrightarrow> distinct (map fst (fold (add_stim_pair c ch tp ons) ps d))"
  by (induction ps arbitrary: d) (simp_all add: distinct_add_stim_pair)

lemma map_of_filter_distinct:
  "distinct (map fst d) \<Longrightarrow>
     map_of (filter P d) k =
       (case map_of d k of None \<Rightarrow> None | Some v \<Rightarrow> if P (k, v) then Some v else None)"
proof (induction d)
  case Nil
  then show ?case by simp
next
  case (Cons kv d)
  obtain k' v' where kv: "kv = (k', v')" by (cases kv)
  have notin: "k' \<notin> fst ` set d" using Cons.prems kv by simp
  have none: "map_of (filter P d) k' = None"
    using notin by (auto simp add: map_of_eq_None_iff)
  show ?case
    using Cons kv none by (auto split: option.splits)
qed

lemma map_of_fold_add:
  assumes "\<forall>p \<in> set ps. ch ! fst p @ ''-'' @ ch ! snd p = ch ! fst q @ ''-'' @ ch ! snd q
                          \<longrightarrow> p = q"
  shows "map_of (fold (add_stim_pair c ch tp ons) ps d) (ch ! fst q @ ''-'' @ ch ! snd q) =
           (if q \<in> set ps \<and> pair_trial_indices c ch tp (fst q) (snd q) \<noteq> []
            then Some (map (\<lambda>i. ons ! i) (pair_trial_indices c ch tp (fst q) (snd q)),
                       (ch ! fst q, ch ! snd q))
            else map_of d (ch ! fst q @ ''-'' @ ch ! snd q))"
  using assms
proof (induction ps arbitrary: d)
  case Nil
  then show ?case by simp
next
  case (Cons p ps)
  have rest: "\<forall>p \<in> set ps. ch ! fst p @ ''-'' @ ch ! snd p = ch ! fst q @ ''-'' @ ch ! snd q
                          \<longrightarrow> p = q"
    using Cons.prems by simp
  have here: "ch ! fst p @ ''-'' @ ch ! snd p = ch ! fst q @ ''-'' @ ch ! snd q \<longrightarrow> p = q"
    using Cons.prems by simp
  show ?case
    using Cons.IH [OF rest, of "add_stim_pair c ch tp ons p d"] here
    by (auto simp add: add_stim_pair_def Let_def map_of_dict_set)
qed

lemma stim_pairs_dict_lookup:
  assumes "i0 < length ch" and "i1 < length ch"
    and inj: "\<forall>j0 < length ch. \<forall>j1 < length ch.
                ch ! j0 @ ''-'' @ ch ! j1 = ch ! i0 @ ''-'' @ ch ! i1 \<longrightarrow> j0 = i0 \<and> j1 = i1"
  shows "map_of (stim_pairs_dict c m ch tp ons) (ch ! i0 @ ''-'' @ ch ! i1) =
           (if pair_trial_indices c ch tp i0 i1 = []
               \<or> int (length (pair_trial_indices c ch tp i0 i1)) < m
            then None
            else Some (map (\<lambda>i. ons ! i) (pair_trial_indices c ch tp i0 i1), (ch ! i0, ch ! i1)))"
proof -
  let ?ps = "List.product [0..<length ch] [0..<length ch]"
  have uniq: "\<forall>p \<in> set ?ps. ch ! fst p @ ''-'' @ ch ! snd p
                 = ch ! fst (i0, i1) @ ''-'' @ ch ! snd (i0, i1) \<longrightarrow> p = (i0, i1)"
    using inj by auto
  have mem: "(i0, i1) \<in> set ?ps" using assms(1,2) by simp
  have look: "map_of (fold (add_stim_pair c ch tp ons) ?ps []) (ch ! i0 @ ''-'' @ ch ! i1) =
           (if pair_trial_indices c ch tp i0 i1 \<noteq> []
            then Some (map (\<lambda>i. ons ! i) (pair_trial_indices c ch tp i0 i1), (ch ! i0, ch ! i1))
            else None)"
    using map_of_fold_add [OF uniq, of c tp ons "[]"] mem by simp
  have dist: "distinct (map fst (fold (add_stim_pair c ch tp ons) ?ps []))"
    by (rule distinct_fold_add) simp
  show ?thesis
    unfolding stim_pairs_dict_def map_of_filter_distinct [OF dist] look
    by simp
qed

text \<open>
  Claim C3. With concatenation of bidirectional pairs the conditions of the legacy main
  flow are exactly these: for channels at indices \<open>i \<le> j\<close>, the merged trials of \<open>A-B\<close>
  and \<open>B-A\<close> under the label and index order \<open>(i, j)\<close>, when there is at least one such
  trial and their number is not below the minimum. Without concatenation every ordered
  pair of channels is a condition of its own with the trials of that order, under the
  same two conditions on the number of trials. A condition with exactly the minimum
  number of trials is kept. The dictionaries of the packaged pipeline hold the same
  conditions under their labels, provided no other pair of channels has the same label.
\<close>

theorem stimpair_construction:
  "(p \<in> set (stimpairs True m ch tp ons) \<longleftrightarrow>
      (\<exists>i < length ch. \<exists>j < length ch. i \<le> j
         \<and> merged_trials tp (ch ! i) (ch ! j) \<noteq> []
         \<and> m \<le> int (length (merged_trials tp (ch ! i) (ch ! j)))
         \<and> p = \<lparr> stimpair_label = ch ! i @ ''-'' @ ch ! j,
                  stimpair_electrode_indices = (i, j),
                  stimpair_trial_indices = merged_trials tp (ch ! i) (ch ! j),
                  stimpair_trial_onsets =
                    map (\<lambda>k. ons ! k) (merged_trials tp (ch ! i) (ch ! j)) \<rparr>))
   \<and> (p \<in> set (stimpairs False m ch tp ons) \<longleftrightarrow>
      (\<exists>i < length ch. \<exists>j < length ch.
         stimulating tp (ch ! i) (ch ! j) \<noteq> []
         \<and> m \<le> int (length (stimulating tp (ch ! i) (ch ! j)))
         \<and> p = \<lparr> stimpair_label = ch ! i @ ''-'' @ ch ! j,
                  stimpair_electrode_indices = (i, j),
                  stimpair_trial_indices = stimulating tp (ch ! i) (ch ! j),
                  stimpair_trial_onsets =
                    map (\<lambda>k. ons ! k) (stimulating tp (ch ! i) (ch ! j)) \<rparr>))
   \<and> (i0 < length ch \<and> i1 < length ch
        \<and> (\<forall>j0 < length ch. \<forall>j1 < length ch.
              ch ! j0 @ ''-'' @ ch ! j1 = ch ! i0 @ ''-'' @ ch ! i1 \<longrightarrow> j0 = i0 \<and> j1 = i1)
      \<longrightarrow>
        map_of (stim_pairs_dict True m ch tp ons) (ch ! i0 @ ''-'' @ ch ! i1) =
          (if i0 \<le> i1 \<and> merged_trials tp (ch ! i0) (ch ! i1) \<noteq> []
              \<and> m \<le> int (length (merged_trials tp (ch ! i0) (ch ! i1)))
           then Some (map (\<lambda>k. ons ! k) (merged_trials tp (ch ! i0) (ch ! i1)),
                      (ch ! i0, ch ! i1))
           else None)
        \<and> map_of (stim_pairs_dict False m ch tp ons) (ch ! i0 @ ''-'' @ ch ! i1) =
          (if stimulating tp (ch ! i0) (ch ! i1) \<noteq> []
              \<and> m \<le> int (length (stimulating tp (ch ! i0) (ch ! i1)))
           then Some (map (\<lambda>k. ons ! k) (stimulating tp (ch ! i0) (ch ! i1)),
                      (ch ! i0, ch ! i1))
           else None))"
proof (intro conjI impI)
  show "p \<in> set (stimpairs True m ch tp ons) \<longleftrightarrow>
      (\<exists>i < length ch. \<exists>j < length ch. i \<le> j
         \<and> merged_trials tp (ch ! i) (ch ! j) \<noteq> []
         \<and> m \<le> int (length (merged_trials tp (ch ! i) (ch ! j)))
         \<and> p = \<lparr> stimpair_label = ch ! i @ ''-'' @ ch ! j,
                  stimpair_electrode_indices = (i, j),
                  stimpair_trial_indices = merged_trials tp (ch ! i) (ch ! j),
                  stimpair_trial_onsets =
                    map (\<lambda>k. ons ! k) (merged_trials tp (ch ! i) (ch ! j)) \<rparr>)"
    unfolding stimpairs_member
    by (auto simp add: make_stimpair_def pair_trial_indices_concat split: if_splits)
  show "p \<in> set (stimpairs False m ch tp ons) \<longleftrightarrow>
      (\<exists>i < length ch. \<exists>j < length ch.
         stimulating tp (ch ! i) (ch ! j) \<noteq> []
         \<and> m \<le> int (length (stimulating tp (ch ! i) (ch ! j)))
         \<and> p = \<lparr> stimpair_label = ch ! i @ ''-'' @ ch ! j,
                  stimpair_electrode_indices = (i, j),
                  stimpair_trial_indices = stimulating tp (ch ! i) (ch ! j),
                  stimpair_trial_onsets =
                    map (\<lambda>k. ons ! k) (stimulating tp (ch ! i) (ch ! j)) \<rparr>)"
    unfolding stimpairs_member
    by (auto simp add: make_stimpair_def pair_trial_indices_separate)
next
  assume a: "i0 < length ch \<and> i1 < length ch
        \<and> (\<forall>j0 < length ch. \<forall>j1 < length ch.
              ch ! j0 @ ''-'' @ ch ! j1 = ch ! i0 @ ''-'' @ ch ! i1 \<longrightarrow> j0 = i0 \<and> j1 = i1)"
  then have i0: "i0 < length ch" and i1: "i1 < length ch"
    and inj: "\<forall>j0 < length ch. \<forall>j1 < length ch.
              ch ! j0 @ ''-'' @ ch ! j1 = ch ! i0 @ ''-'' @ ch ! i1 \<longrightarrow> j0 = i0 \<and> j1 = i1"
    by blast+
  show "map_of (stim_pairs_dict True m ch tp ons) (ch ! i0 @ ''-'' @ ch ! i1) =
          (if i0 \<le> i1 \<and> merged_trials tp (ch ! i0) (ch ! i1) \<noteq> []
              \<and> m \<le> int (length (merged_trials tp (ch ! i0) (ch ! i1)))
           then Some (map (\<lambda>k. ons ! k) (merged_trials tp (ch ! i0) (ch ! i1)),
                      (ch ! i0, ch ! i1))
           else None)"
    unfolding stim_pairs_dict_lookup [OF i0 i1 inj]
    by (auto simp add: pair_trial_indices_concat)
  show "map_of (stim_pairs_dict False m ch tp ons) (ch ! i0 @ ''-'' @ ch ! i1) =
          (if stimulating tp (ch ! i0) (ch ! i1) \<noteq> []
              \<and> m \<le> int (length (stimulating tp (ch ! i0) (ch ! i1)))
           then Some (map (\<lambda>k. ons ! k) (stimulating tp (ch ! i0) (ch ! i1)),
                      (ch ! i0, ch ! i1))
           else None)"
    unfolding stim_pairs_dict_lookup [OF i0 i1 inj]
    by (auto simp add: pair_trial_indices_separate)
qed

text \<open>
  The example of claim C3: with a minimum of 5 trials the 3 + 2 trials form one condition
  \<open>A-B\<close> when concatenating; without concatenation both conditions are dropped.
\<close>

lemma example_merged:
  "merged_trials example_trial_pairs ''A'' ''B'' = [0, 1, 2, 3, 4]"
  by code_simp

lemma example_separate:
  "stimpairs False 5 example_channels example_trial_pairs example_trial_onsets = []"
  "stim_pairs_dict False 5 example_channels example_trial_pairs example_trial_onsets = []"
  by code_simp+

theorem stimpair_construction_witness:
  "\<lparr> stimpair_label = ''A-B'', stimpair_electrode_indices = (0, 1),
      stimpair_trial_indices = [0, 1, 2, 3, 4],
      stimpair_trial_onsets = [10, 20, 30, 40, 50] \<rparr>
     \<in> set (stimpairs True 5 example_channels example_trial_pairs example_trial_onsets)
   \<and> stimpairs False 5 example_channels example_trial_pairs example_trial_onsets = []
   \<and> map_of (stim_pairs_dict True 5 example_channels example_trial_pairs example_trial_onsets)
        ''A-B'' = Some ([10, 20, 30, 40, 50], (''A'', ''B''))
   \<and> stim_pairs_dict False 5 example_channels example_trial_pairs example_trial_onsets = []"
proof -
  let ?p = "\<lparr> stimpair_label = ''A-B'', stimpair_electrode_indices = (0, 1),
      stimpair_trial_indices = [0, 1, 2, 3, 4],
      stimpair_trial_onsets = [10, 20, 30, 40, 50 :: real] \<rparr>"
  note inst = stimpair_construction [where p = ?p and m = 5 and ch = example_channels
      and tp = example_trial_pairs and ons = example_trial_onsets and ?i0.0 = 0 and ?i1.0 = 1]
  have ch: "length example_channels = 2" "example_channels ! 0 = ''A''"
    "example_channels ! 1 = ''B''" "example_channels ! Suc 0 = ''B''"
    by (simp_all add: example_channels_def)
  have ons: "example_trial_onsets ! 0 = 10" "example_trial_onsets ! Suc 0 = 20"
    "example_trial_onsets ! 2 = 30" "example_trial_onsets ! 3 = 40" "example_trial_onsets ! 4 = 50"
    by (simp_all add: example_trial_onsets_def)
  have "\<exists>i < length example_channels. \<exists>j < length example_channels. i \<le> j
         \<and> merged_trials example_trial_pairs (example_channels ! i) (example_channels ! j) \<noteq> []
         \<and> 5 \<le> int (length (merged_trials example_trial_pairs (example_channels ! i)
                                 (example_channels ! j)))
         \<and> ?p = \<lparr> stimpair_label = example_channels ! i @ ''-'' @ example_channels ! j,
                  stimpair_electrode_indices = (i, j),
                  stimpair_trial_indices =
                    merged_trials example_trial_pairs (example_channels ! i) (example_channels ! j),
                  stimpair_trial_onsets =
                    map (\<lambda>k. example_trial_onsets ! k)
                      (merged_trials example_trial_pairs (example_channels ! i)
                         (example_channels ! j)) \<rparr>"
    by (rule exI [of _ 0], rule conjI, simp add: ch, rule exI [of _ 1])
       (simp add: ch example_merged ons)
  then have a: "?p \<in> set (stimpairs True 5 example_channels example_trial_pairs
                            example_trial_onsets)"
    by (rule inst [THEN conjunct1, THEN iffD2])
  have inj: "\<forall>j0 < length example_channels. \<forall>j1 < length example_channels.
       example_channels ! j0 @ ''-'' @ example_channels ! j1
         = example_channels ! 0 @ ''-'' @ example_channels ! 1 \<longrightarrow> j0 = 0 \<and> j1 = 1"
    by (auto simp add: ch less_Suc_eq numeral_2_eq_2)
  have b: "map_of (stim_pairs_dict True 5 example_channels example_trial_pairs
                     example_trial_onsets) ''A-B'' = Some ([10, 20, 30, 40, 50], (''A'', ''B''))"
    using inst [THEN conjunct2, THEN conjunct2] inj by (simp add: ch example_merged ons)
  show ?thesis
    using a b example_separate by simp
qed

section \<open>The averaging strategy that is chosen for a format\<close>

lemma sorted_concat_blocks:
  assumes "\<And>i. i \<in> set is \<Longrightarrow> \<forall>x \<in> set (f i). key x = i"
    and "sorted is"
  shows "sorted (map key (concat (map f is)))"
  using assms
proof (induction "is")
  case Nil
  then show ?case by simp
next
  case (Cons i "is")
  have here: "map key (f i) = replicate (length (f i)) i"
    using Cons.prems(1) [of i] by (simp add: map_replicate_const [symmetric] cong: map_cong)
  have later: "\<forall>y \<in> set (map key (concat (map f is))). i \<le> y"
  proof
    fix y assume "y \<in> set (map key (concat (map f is)))"
    then obtain j x where j: "j \<in> set is" and x: "x \<in> set (f j)" and y: "y = key x"
      by auto
    have "key x = j" using Cons.prems(1) [of j] j x by simp
    moreover have "i \<le> j" using Cons.prems(2) j by simp
    ultimately show "i \<le> y" using y by simp
  qed
  have "sorted (map key (concat (map f is)))"
    using Cons by simp
  then show ?case
    using later by (auto simp add: here sorted_append)
qed

text \<open>
  Claim C5, as the code has it. For the in-memory formats (0 and 1) the averages are
  loaded by channel, then condition, then trial: the channel index never decreases
  along the order of work. For the streaming format (2) they are loaded by condition,
  then trial: the condition index never decreases.
\<close>

theorem averaging_strategy_by_format:
  "load_data_epochs_averages_order 0 n cs = Inr (by_channel_condition_trial n cs)
   \<and> load_data_epochs_averages_order 1 n cs = Inr (by_channel_condition_trial n cs)
   \<and> load_data_epochs_averages_order 2 n cs = Inr (by_condition_trial n cs)
   \<and> sorted (map fst (by_channel_condition_trial n cs))
   \<and> sorted (map (\<lambda>v. fst (snd v)) (by_condition_trial n cs))"
proof -
  have a: "sorted (map fst (by_channel_condition_trial n cs))"
    unfolding by_channel_condition_trial_def
    by (rule sorted_concat_blocks) auto
  have b: "sorted (map (\<lambda>v. fst (snd v)) (by_condition_trial n cs))"
    unfolding by_condition_trial_def
    by (rule sorted_concat_blocks) auto
  show ?thesis
    using a b by (simp add: load_data_epochs_averages_order_def)
qed

text \<open>
  The claim states the opposite assignment. With two channels and conditions of two
  and one trials, format 0 handles both trials and both conditions of channel 0 before
  channel 1, which is not the order by condition and trial; format 2 handles the
  triples by condition and trial, which is not the order by channel.
\<close>

theorem in_memory_format_is_channel_first:
  "load_data_epochs_averages_order 0 2 [2, 1]
     = Inr [(0, 0, 0), (0, 0, 1), (0, 1, 0), (1, 0, 0), (1, 0, 1), (1, 1, 0)]
   \<and> by_condition_trial 2 [2, 1]
     = [(0, 0, 0), (1, 0, 0), (0, 0, 1), (1, 0, 1), (0, 1, 0), (1, 1, 0)]
   \<and> load_data_epochs_averages_order 0 2 [2, 1] \<noteq> Inr (by_condition_trial 2 [2, 1])
   \<and> load_data_epochs_averages_order 2 2 [2, 1] \<noteq> Inr (by_channel_condition_trial 2 [2, 1])"
  by code_simp

section \<open>Out-of-bounds handling of the epoching\<close>

lemma check_trial_bounds_error:
  "out_of_bounds n sz s \<Longrightarrow> fst (check_trial_bounds 0 is_first is_last n sz s) = Abort"
  by (auto simp add: check_trial_bounds_def out_of_bounds_def Let_def)

lemma check_trial_bounds_not_first:
  "s < 0 \<Longrightarrow> fst (check_trial_bounds 1 False is_last n sz s) = Abort"
  by (auto simp add: check_trial_bounds_def Let_def)

lemma check_trial_bounds_not_last:
  "sz < s + n \<Longrightarrow> 0 \<le> sz \<Longrightarrow> fst (check_trial_bounds 1 is_first False n sz s) = Abort"
  by (auto simp add: check_trial_bounds_def Let_def)

lemma check_trial_bounds_before:
  assumes "s < 0" and "check_trial_bounds m is_first is_last n sz s = (Extract ls le a b, w)"
  shows "ls = - s \<and> 0 \<le> le \<and> 0 < w"
  using assms by (auto simp add: check_trial_bounds_def Let_def split: if_splits)

lemma check_trial_bounds_before_skip:
  assumes "s < 0" and "check_trial_bounds m is_first is_last n sz s = (Skip, w)"
  shows "0 < w"
  using assms by (auto simp add: check_trial_bounds_def Let_def split: if_splits)

lemma check_trial_bounds_after:
  assumes "sz < s + n" and "check_trial_bounds m is_first is_last n sz s = (Extract ls le a b, w)"
  shows "le = sz - s \<and> 0 \<le> le \<and> 0 < w"
  using assms by (auto simp add: check_trial_bounds_def Let_def split: if_splits)

lemma check_trial_bounds_after_skip:
  assumes "sz < s + n" and "0 \<le> sz"
    and "check_trial_bounds m is_first is_last n sz s = (Skip, w)"
  shows "0 < w"
  using assms by (auto simp add: check_trial_bounds_def Let_def split: if_splits)

lemma check_trial_bounds_nonneg:
  assumes "check_trial_bounds m is_first is_last n sz s = (Extract ls le a b, w)"
  shows "0 \<le> ls"
  using assms by (auto simp add: check_trial_bounds_def Let_def split: if_splits)

lemma iter_idx_error:
  assumes "k < length xs" and "snd (f (i + k) (xs ! k)) = Inl e"
  shows "\<exists>e'. snd (iter_idx f i xs) = Inl e'"
proof (cases "snd (iter_idx f i xs)")
  case (Inl e')
  then show ?thesis by blast
next
  case (Inr rs)
  then have "iter_idx f i xs = (fst (iter_idx f i xs), Inr rs)"
    by (simp add: prod_eq_iff)
  from iter_idx_Inr [OF this] assms show ?thesis by simp
qed

lemma assign_slice_outside:
  assumes "assign_slice row a b vs = Inr row'" and "0 \<le> a" and "0 \<le> b"
    and "k < length row" and "int k < a \<or> b \<le> int k"
  shows "row' ! k = row ! k"
proof -
  define lo where "lo = nat (min a (int (length row)))"
  define hi where "hi = nat (min b (int (length row)))"
  have b: "py_slice_bounds (length row) a b = (lo, hi)"
    using assms(2,3) by (simp add: py_slice_bounds_def Let_def lo_def hi_def)
  have "\<exists>ws. length ws = hi - lo \<and> row' = take lo row @ ws @ drop (max lo hi) row"
  proof (cases "length vs = hi - lo")
    case True
    then show ?thesis using assms(1) by (auto simp add: assign_slice_def b)
  next
    case False
    then have "row' = take lo row @ replicate (hi - lo) (hd vs) @ drop (max lo hi) row"
      using assms(1) by (auto simp add: assign_slice_def b split: if_splits)
    then show ?thesis by (intro exI [of _ "replicate (hi - lo) (hd vs)"]) simp
  qed
  then obtain ws where ws: "length ws = hi - lo"
    and row': "row' = take lo row @ ws @ drop (max lo hi) row"
    by blast
  have lo: "lo \<le> length row" and hi: "hi \<le> length row"
    by (simp_all add: lo_def hi_def)
  show ?thesis
  proof (cases "k < lo")
    case True
    then show ?thesis using lo by (simp add: row' nth_append)
  next
    case False
    then have "hi \<le> k" using assms(4,5) by (auto simp add: lo_def hi_def)
    then show ?thesis
      using False lo hi assms(4) ws by (auto simp add: row' nth_append max_def)
  qed
qed

lemma epoch_trial_from_channel_abort:
  assumes "fst (check_trial_bounds oob (t = 0) (int t = int (length onsets) - 1) n
                  (int (length channel_data)) (trial_start (onsets ! t) te sr)) = Abort"
  shows "snd (epoch_trial_from_channel c channel_data sr onsets n te bn bm be oob t row)
           = Inl RuntimeError"
  using assms
  by (cases "check_trial_bounds oob (t = 0) (int t = int (length onsets) - 1) n
                  (int (length channel_data)) (trial_start (onsets ! t) te sr)")
     (simp add: epoch_trial_from_channel_def Let_def)

lemma epoch_trial_all_channels_abort:
  assumes "fst (check_trial_bounds oob (t = 0) (int t = int (length onsets) - 1) n
                  num_samples (trial_start (onsets ! t) te sr)) = Abort"
  shows "snd (epoch_trial_all_channels channels_data num_samples sr onsets n te bn bm be oob t col)
           = Inl RuntimeError"
  using assms
  by (cases "check_trial_bounds oob (t = 0) (int t = int (length onsets) - 1) n
                  num_samples (trial_start (onsets ! t) te sr)")
     (simp add: epoch_trial_all_channels_def Let_def)

lemma load_data_epochs_by_channels_abort:
  assumes "channels_data \<noteq> []" and "t < length onsets"
    and "fst (check_trial_bounds oob (t = 0) (int t = int (length onsets) - 1)
                (epoch_num_samples te sr) (int (length (channels_data ! 0)))
                (trial_start (onsets ! t) te sr)) = Abort"
  shows "load_data_epochs_by_channels channels_data sr onsets te bm be oob = Inl RuntimeError"
proof -
  define n where "n = epoch_num_samples te sr"
  define bn where "bn = epoch_num_samples be sr"
  define data where "data = replicate (length channels_data)
                   (replicate (length onsets) (allocate_array (nat n)))"
  define body where "body = (\<lambda>channel_idx rows.
                   case iter_idx (epoch_trial_from_channel channel_idx
                                    (channels_data ! channel_idx) sr onsets
                                    n te bn bm be oob) 0 rows of
                     (rows', Inl e) \<Rightarrow> (rows', Inl e)
                   | (rows', Inr ws) \<Rightarrow> (rows', Inr (sum_list ws)))"
  have inner: "\<exists>e. snd (iter_idx (epoch_trial_from_channel 0 (channels_data ! 0) sr onsets
                             n te bn bm be oob) 0 (data ! 0)) = Inl e"
  proof (rule iter_idx_error [where k = t])
    show "t < length (data ! 0)" using assms(1,2) by (simp add: data_def)
    show "snd (epoch_trial_from_channel 0 (channels_data ! 0) sr onsets n te bn bm be oob
                 (0 + t) (data ! 0 ! t)) = Inl RuntimeError"
      using epoch_trial_from_channel_abort [OF assms(3) [folded n_def]] by simp
  qed
  then have "\<exists>e. snd (body 0 (data ! 0)) = Inl e"
    by (auto simp add: body_def split: prod.splits sum.splits)
  then obtain e where "snd (body (0 + 0) (data ! 0)) = Inl e" by auto
  moreover have "0 < length data" using assms(1) by (simp add: data_def)
  ultimately have "\<exists>e'. snd (iter_idx body 0 data) = Inl e'"
    by (rule iter_idx_error [rotated])
  then show ?thesis
    by (auto simp add: load_data_epochs_by_channels_def Let_def n_def [symmetric]
          bn_def [symmetric] data_def [symmetric] body_def [symmetric]
          split: prod.splits sum.splits)
qed

lemma load_data_epochs_by_trial_abort:
  assumes "t < length onsets"
    and "fst (check_trial_bounds oob (t = 0) (int t = int (length onsets) - 1)
                (epoch_num_samples te sr) num_samples
                (trial_start (onsets ! t) te sr)) = Abort"
  shows "load_data_epochs_by_trial channels_data num_samples sr onsets te bm be oob
           = Inl RuntimeError"
proof -
  define n where "n = epoch_num_samples te sr"
  define bn where "bn = epoch_num_samples be sr"
  define columns where "columns = replicate (length onsets)
                      (replicate (length channels_data) (allocate_array (nat n)))"
  have "\<exists>e. snd (iter_idx (epoch_trial_all_channels channels_data num_samples sr onsets
                             n te bn bm be oob) 0 columns) = Inl e"
  proof (rule iter_idx_error [where k = t])
    show "t < length columns" using assms(1) by (simp add: columns_def)
    show "snd (epoch_trial_all_channels channels_data num_samples sr onsets n te bn bm be oob
                 (0 + t) (columns ! t)) = Inl RuntimeError"
      using epoch_trial_all_channels_abort [OF assms(2) [folded n_def]] by simp
  qed
  then show ?thesis
    by (auto simp add: load_data_epochs_by_trial_def Let_def n_def [symmetric]
          bn_def [symmetric] columns_def [symmetric] split: prod.splits sum.splits)
qed

lemma check_trial_bounds_local_end:
  assumes "check_trial_bounds m is_first is_last n sz s = (Extract ls le a b, w)" and "0 \<le> n"
  shows "0 \<le> le"
  using assms by (auto simp add: check_trial_bounds_def Let_def split: if_splits)

lemma py_round_nonneg: "0 \<le> x \<Longrightarrow> 0 \<le> py_round x"
  by (simp add: py_round_def Let_def)

lemma epoch_num_samples_nonneg: "0 \<le> sr \<Longrightarrow> 0 \<le> epoch_num_samples te sr"
  by (simp add: epoch_num_samples_def py_round_nonneg)

lemma extract_keeps_outside:
  assumes chk: "check_trial_bounds m is_first is_last n sz s = (Extract ls le a b, w)"
    and n: "0 \<le> n"
    and asg: "assign_slice row ls le vs = Inr row'"
    and k: "k < length row" and out: "outside_recording n sz s k"
  shows "row' ! k = row ! k"
proof -
  have ls: "0 \<le> ls" by (rule check_trial_bounds_nonneg [OF chk])
  have le: "0 \<le> le" by (rule check_trial_bounds_local_end [OF chk n])
  have "int k < ls \<or> le \<le> int k"
    using out check_trial_bounds_before [OF _ chk] check_trial_bounds_after [OF _ chk]
    by (auto simp add: outside_recording_def)
  then show ?thesis
    by (rule assign_slice_outside [OF asg ls le k])
qed

lemma check_trial_bounds_warns:
  assumes "out_of_bounds n sz s" and "0 \<le> sz"
    and "check_trial_bounds m is_first is_last n sz s = (r, w)" and "r \<noteq> Abort"
  shows "0 < w"
  using assms
  by (cases r)
     (auto simp add: out_of_bounds_def dest: check_trial_bounds_before
        check_trial_bounds_before_skip check_trial_bounds_after check_trial_bounds_after_skip)

lemma epoch_trial_from_channel_success:
  assumes run: "epoch_trial_from_channel c channel_data sr onsets n te bn bm be oob t row
                  = (row', Inr w)"
    and n: "0 \<le> n"
  shows "(k < length row \<and> outside_recording n (int (length channel_data))
             (trial_start (onsets ! t) te sr) k \<longrightarrow> row' ! k = row ! k)
         \<and> (c = 0 \<and> out_of_bounds n (int (length channel_data))
                       (trial_start (onsets ! t) te sr) \<longrightarrow> 0 < w)"
proof (cases "check_trial_bounds oob (t = 0) (int t = int (length onsets) - 1) n
                  (int (length channel_data)) (trial_start (onsets ! t) te sr)")
  case (Pair r w0)
  have notabort: "r \<noteq> Abort"
    using run Pair by (auto simp add: epoch_trial_from_channel_def Let_def)
  have w: "w = (if c = 0 then w0 else 0)"
    using run Pair
    by (cases r) (auto simp add: epoch_trial_from_channel_def Let_def
          split: if_splits option.splits sum.splits)
  have warn: "c = 0 \<and> out_of_bounds n (int (length channel_data))
                       (trial_start (onsets ! t) te sr) \<longrightarrow> 0 < w"
    using check_trial_bounds_warns [OF _ _ Pair notabort] w by simp
  have keep: "row' ! k = row ! k"
    if "k < length row" and "outside_recording n (int (length channel_data))
             (trial_start (onsets ! t) te sr) k"
  proof (cases r)
    case Abort
    then show ?thesis using notabort by simp
  next
    case Skip
    then show ?thesis
      using run Pair by (simp add: epoch_trial_from_channel_def Let_def)
  next
    case (Extract ls le a b)
    have chk: "check_trial_bounds oob (t = 0) (int t = int (length onsets) - 1) n
                  (int (length channel_data)) (trial_start (onsets ! t) te sr)
                = (Extract ls le a b, w0)"
      using Pair Extract by simp
    from run chk have "row' = row \<or> (\<exists>vs. assign_slice row ls le vs = Inr row')"
      by (auto simp add: epoch_trial_from_channel_def Let_def
            split: if_splits option.splits sum.splits)
    then show ?thesis
      using extract_keeps_outside [OF chk n _ that] by auto
  qed
  show ?thesis using keep warn by blast
qed

lemma epoch_trial_all_channels_success:
  assumes run: "epoch_trial_all_channels channels_data num_samples sr onsets n te bn bm be oob
                  t col = (col', Inr w)"
    and n: "0 \<le> n" and sz: "0 \<le> num_samples"
  shows "(c < length col \<and> k < length (col ! c)
            \<and> outside_recording n num_samples (trial_start (onsets ! t) te sr) k
              \<longrightarrow> col' ! c ! k = col ! c ! k)
         \<and> (out_of_bounds n num_samples (trial_start (onsets ! t) te sr) \<longrightarrow> 0 < w)"
proof (cases "check_trial_bounds oob (t = 0) (int t = int (length onsets) - 1) n
                  num_samples (trial_start (onsets ! t) te sr)")
  case (Pair r w0)
  have notabort: "r \<noteq> Abort"
    using run Pair by (auto simp add: epoch_trial_all_channels_def Let_def)
  have w: "w = w0"
    using run Pair
    by (cases r) (auto simp add: epoch_trial_all_channels_def Let_def
          split: if_splits prod.splits sum.splits)
  have warn: "out_of_bounds n num_samples (trial_start (onsets ! t) te sr) \<longrightarrow> 0 < w"
    using check_trial_bounds_warns [OF _ sz Pair notabort] w by simp
  have keep: "col' ! c ! k = col ! c ! k"
    if c: "c < length col" and k: "k < length (col ! c)"
      and out: "outside_recording n num_samples (trial_start (onsets ! t) te sr) k"
  proof (cases r)
    case Abort
    then show ?thesis using notabort by simp
  next
    case Skip
    then show ?thesis
      using run Pair by (simp add: epoch_trial_all_channels_def Let_def)
  next
    case (Extract ls le a b)
    have chk: "check_trial_bounds oob (t = 0) (int t = int (length onsets) - 1) n
                  num_samples (trial_start (onsets ! t) te sr) = (Extract ls le a b, w0)"
      using Pair Extract by simp
    define body where "body = (\<lambda>channel_idx row.
         case normalized bm (retrieve_sample_range_data channels_data a b ! channel_idx)
                (py_slice (retrieve_sample_range_data channels_data a b ! channel_idx)
                   (trial_start (onsets ! t) be sr - trial_start (onsets ! t) te sr)
                   (trial_start (onsets ! t) be sr - trial_start (onsets ! t) te sr + bn)) of
           None \<Rightarrow> (row, Inr ())
         | Some values \<Rightarrow>
             (case assign_slice row ls le values of
                Inl e \<Rightarrow> (row, Inl e)
              | Inr row' \<Rightarrow> (row', Inr ())))"
    from run chk obtain u where inner: "iter_idx body 0 col = (col', Inr u)"
      by (auto simp add: epoch_trial_all_channels_def Let_def body_def [symmetric]
            split: if_splits prod.splits sum.splits)
    have "body c (col ! c) = (col' ! c, Inr (u ! c))"
      using iter_idx_Inr [OF inner] c by simp
    then have "col' ! c = col ! c \<or> (\<exists>vs. assign_slice (col ! c) ls le vs = Inr (col' ! c))"
      by (auto simp add: body_def split: option.splits sum.splits)
    then show ?thesis
      using extract_keeps_outside [OF chk n _ k out] by auto
  qed
  show ?thesis using keep warn by blast
qed

lemma load_data_epochs_by_channels_success:
  assumes run: "load_data_epochs_by_channels channels_data sr onsets te bm be oob = Inr (data, w)"
    and sr: "0 \<le> sr" and t: "t < length onsets"
  shows "(c < length channels_data \<and> k < nat (epoch_num_samples te sr)
            \<and> outside_recording (epoch_num_samples te sr) (int (length (channels_data ! c)))
                 (trial_start (onsets ! t) te sr) k
          \<longrightarrow> data ! c ! t ! k = NaN)
         \<and> (channels_data \<noteq> []
            \<and> out_of_bounds (epoch_num_samples te sr) (int (length (channels_data ! 0)))
                 (trial_start (onsets ! t) te sr) \<longrightarrow> 0 < w)"
proof -
  define n where "n = epoch_num_samples te sr"
  define bn where "bn = epoch_num_samples be sr"
  define data0 where "data0 = replicate (length channels_data)
                   (replicate (length onsets) (allocate_array (nat n)))"
  define body where "body = (\<lambda>channel_idx rows.
                   case iter_idx (epoch_trial_from_channel channel_idx
                                    (channels_data ! channel_idx) sr onsets
                                    n te bn bm be oob) 0 rows of
                     (rows', Inl e) \<Rightarrow> (rows', Inl e)
                   | (rows', Inr ws) \<Rightarrow> (rows', Inr (sum_list ws)))"
  have n: "0 \<le> n" by (simp add: n_def epoch_num_samples_nonneg sr)
  from run obtain ws where outer: "iter_idx body 0 data0 = (data, Inr ws)"
    and w: "w = sum_list ws"
    by (auto simp add: load_data_epochs_by_channels_def Let_def n_def [symmetric]
          bn_def [symmetric] data0_def [symmetric] body_def [symmetric]
          split: prod.splits sum.splits)
  have cell: "\<exists>w0 wc. epoch_trial_from_channel c (channels_data ! c) sr onsets n te bn bm be oob t
                 (allocate_array (nat n)) = (data ! c ! t, Inr w0)
              \<and> ws ! c = sum_list wc \<and> t < length wc \<and> wc ! t = w0"
    if c: "c < length channels_data" for c
  proof -
    have "body c (data0 ! c) = (data ! c, Inr (ws ! c))"
      using iter_idx_Inr [OF outer] c by (simp add: data0_def)
    then obtain wc where inner: "iter_idx (epoch_trial_from_channel c (channels_data ! c) sr onsets
                                    n te bn bm be oob) 0 (data0 ! c) = (data ! c, Inr wc)"
      and wc: "ws ! c = sum_list wc"
      by (auto simp add: body_def split: prod.splits sum.splits)
    have "epoch_trial_from_channel c (channels_data ! c) sr onsets n te bn bm be oob (0 + t)
            (data0 ! c ! t) = (data ! c ! t, Inr (wc ! t))" and "length wc = length (data0 ! c)"
      using iter_idx_Inr [OF inner] c t by (simp_all add: data0_def)
    then show ?thesis
      using wc c t by (intro exI [of _ "wc ! t"] exI [of _ wc]) (simp add: data0_def)
  qed
  have fill: "data ! c ! t ! k = NaN"
    if c: "c < length channels_data" and k: "k < nat n"
      and out: "outside_recording n (int (length (channels_data ! c)))
                 (trial_start (onsets ! t) te sr) k"
  proof -
    from cell [OF c] obtain w0 where
      "epoch_trial_from_channel c (channels_data ! c) sr onsets n te bn bm be oob t
                 (allocate_array (nat n)) = (data ! c ! t, Inr w0)" by blast
    from epoch_trial_from_channel_success [OF this n, of k] k out
    show ?thesis by (simp add: allocate_array_def)
  qed
  have warn: "0 < w"
    if ne: "channels_data \<noteq> []"
      and out: "out_of_bounds n (int (length (channels_data ! 0)))
                 (trial_start (onsets ! t) te sr)"
  proof -
    have c0: "0 < length channels_data" using ne by simp
    from cell [OF c0] obtain w0 wc where
      e: "epoch_trial_from_channel 0 (channels_data ! 0) sr onsets n te bn bm be oob t
                 (allocate_array (nat n)) = (data ! 0 ! t, Inr w0)"
      and wc: "ws ! 0 = sum_list wc" "t < length wc" "wc ! t = w0" by blast
    have "0 < w0"
      using epoch_trial_from_channel_success [OF e n] out by simp
    moreover have "w0 \<le> sum_list wc"
      using wc(2,3) by (auto intro: member_le_sum_list)
    moreover have "length ws = length data0"
      using iter_idx_Inr [OF outer] by simp
    then have "ws ! 0 \<le> sum_list ws"
      using c0 by (auto simp add: data0_def intro: member_le_sum_list)
    ultimately show ?thesis using w wc(1) by simp
  qed
  show ?thesis
    using fill warn by (auto simp add: n_def)
qed

lemma load_data_epochs_by_trial_success:
  assumes run: "load_data_epochs_by_trial channels_data num_samples sr onsets te bm be oob
                  = Inr (data, w)"
    and sr: "0 \<le> sr" and sz: "0 \<le> num_samples" and t: "t < length onsets"
  shows "(c < length channels_data \<and> k < nat (epoch_num_samples te sr)
            \<and> outside_recording (epoch_num_samples te sr) num_samples
                 (trial_start (onsets ! t) te sr) k
          \<longrightarrow> data ! c ! t ! k = NaN)
         \<and> (out_of_bounds (epoch_num_samples te sr) num_samples
                 (trial_start (onsets ! t) te sr) \<longrightarrow> 0 < w)"
proof -
  define n where "n = epoch_num_samples te sr"
  define bn where "bn = epoch_num_samples be sr"
  define columns where "columns = replicate (length onsets)
                      (replicate (length channels_data) (allocate_array (nat n)))"
  have n: "0 \<le> n" by (simp add: n_def epoch_num_samples_nonneg sr)
  from run obtain columns' ws where
    loop: "iter_idx (epoch_trial_all_channels channels_data num_samples sr onsets
                       n te bn bm be oob) 0 columns = (columns', Inr ws)"
    and data: "data = map (\<lambda>channel_idx. map (\<lambda>trial_idx. columns' ! trial_idx ! channel_idx)
                                        [0..<length onsets]) [0..<length channels_data]"
    and w: "w = sum_list ws"
    by (auto simp add: load_data_epochs_by_trial_def Let_def n_def [symmetric]
          bn_def [symmetric] columns_def [symmetric] split: prod.splits sum.splits)
  have trial: "epoch_trial_all_channels channels_data num_samples sr onsets n te bn bm be oob t
                 (replicate (length channels_data) (allocate_array (nat n)))
               = (columns' ! t, Inr (ws ! t))"
    and len: "length ws = length onsets"
    using iter_idx_Inr [OF loop] t by (simp_all add: columns_def)
  note facts = epoch_trial_all_channels_success [OF trial n sz]
  have fill: "data ! c ! t ! k = NaN"
    if "c < length channels_data" and "k < nat n"
      and "outside_recording n num_samples (trial_start (onsets ! t) te sr) k"
    using facts [of c k] that t by (simp add: data allocate_array_def)
  have warn: "0 < w" if "out_of_bounds n num_samples (trial_start (onsets ! t) te sr)"
  proof -
    have "0 < ws ! t" using facts [of 0 0] that by simp
    moreover have "ws ! t \<le> sum_list ws"
      using len t by (auto intro: member_le_sum_list)
    ultimately show ?thesis using w by simp
  qed
  show ?thesis
    using fill warn by (auto simp add: n_def)
qed

lemma example_epochs:
  "load_data_epochs_by_channels example_recording 1 [0, 2, 5] (- 1, 2) 0 (- 1, 0) 1
     = Inr ([[[NaN, Some 1, Some 2], [Some 2, Some 3, Some 4], [Some 5, Some 6, NaN]]], 2)"
  "load_data_epochs_by_trial example_recording 6 1 [0, 2, 5] (- 1, 2) 0 (- 1, 0) 1
     = Inr ([[[NaN, Some 1, Some 2], [Some 2, Some 3, Some 4], [Some 5, Some 6, NaN]]], 2)"
  by code_simp+

lemma iter_idx_all_ok:
  assumes "\<And>k. k < length xs \<Longrightarrow> \<exists>x' r. f (i + k) (xs ! k) = (x', Inr r)"
  shows "\<exists>xs' rs. iter_idx f i xs = (xs', Inr rs)"
  using assms
proof (induction xs arbitrary: i)
  case Nil
  then show ?case by simp
next
  case (Cons x xs)
  obtain x' r where fx: "f i x = (x', Inr r)"
    using Cons.prems [of 0] by auto
  have "\<And>k. k < length xs \<Longrightarrow> \<exists>x' r. f (Suc i + k) (xs ! k) = (x', Inr r)"
    using Cons.prems [of "Suc k" for k] by simp
  then obtain xs' rs where "iter_idx f (Suc i) xs = (xs', Inr rs)"
    using Cons.IH by blast
  then show ?case using fx by simp
qed

lemma check_trial_bounds_extract:
  assumes "check_trial_bounds m is_first is_last n sz s = (Extract ls le a b, w)"
    and "0 \<le> n" and "0 \<le> sz"
  shows "0 \<le> a \<and> a \<le> b \<and> b \<le> sz \<and> 0 \<le> ls \<and> ls \<le> le \<and> le \<le> n \<and> le - ls = b - a"
  using assms by (auto simp add: check_trial_bounds_def Let_def split: if_splits)

lemma check_trial_bounds_locals:
  assumes "check_trial_bounds m is_first is_last n sz s = (Extract ls le a b, w)"
  shows "ls = (if s < 0 then - s else 0) \<and> le = (if sz < s + n then sz - s else n)"
  using assms by (auto simp add: check_trial_bounds_def Let_def split: if_splits)

lemma normalized_length:
  assumes "normalized m vs bl = Some vs'"
  shows "length vs' = length vs"
  using assms by (auto simp add: normalized_def split: if_splits)

lemma assign_slice_fits:
  assumes "0 \<le> a" "a \<le> b" "b \<le> int (length channel_data)"
    and "0 \<le> ls" "ls \<le> le" "le \<le> int (length row)" "le - ls = b - a"
    and vs: "normalized m (py_slice channel_data a b) bl = Some vs"
  shows "\<exists>row'. assign_slice row ls le vs = Inr row'"
proof -
  have b1: "py_slice_bounds (length row) ls le = (nat ls, nat le)"
    using assms by (simp add: py_slice_bounds_def Let_def)
  have b2: "py_slice_bounds (length channel_data) a b = (nat a, nat b)"
    using assms by (simp add: py_slice_bounds_def Let_def)
  have "length (py_slice channel_data a b) = nat le - nat ls"
    using assms by (simp add: py_slice_def b2)
  then have "length vs = nat le - nat ls"
    using normalized_length [OF vs] by simp
  then show ?thesis
    by (simp add: assign_slice_def b1)
qed

lemma check_trial_bounds_admitted:
  assumes "admitted t num_trials n sz s" and "t < num_trials" and "0 \<le> n"
  shows "fst (check_trial_bounds 1 (t = 0) (int t = int num_trials - 1) n sz s) \<noteq> Abort"
proof -
  have last: "(int t = int num_trials - 1) = (Suc t = num_trials)"
    using assms(2) by auto
  show ?thesis
    using assms(1,3) unfolding last
    by (auto simp add: check_trial_bounds_def admitted_def Let_def)
qed

lemma epoch_trial_from_channel_ok:
  assumes adm: "admitted t (length onsets) n (int (length channel_data))
                  (trial_start (onsets ! t) te sr)"
    and base: "baseline_in_recording bm (int (length channel_data))
                  (trial_start (onsets ! t) be sr) bn"
    and t: "t < length onsets" and n: "0 \<le> n" and row: "int (length row) = n"
  shows "\<exists>row' w. epoch_trial_from_channel c channel_data sr onsets n te bn bm be 1 t row
                    = (row', Inr w)"
proof (cases "check_trial_bounds 1 (t = 0) (int t = int (length onsets) - 1) n
                  (int (length channel_data)) (trial_start (onsets ! t) te sr)")
  case (Pair r w0)
  have notabort: "r \<noteq> Abort"
    using check_trial_bounds_admitted [OF adm t n] Pair by simp
  show ?thesis
  proof (cases r)
    case Abort
    then show ?thesis using notabort by simp
  next
    case Skip
    then show ?thesis
      using Pair by (simp add: epoch_trial_from_channel_def Let_def)
  next
    case (Extract ls le a b)
    have chk: "check_trial_bounds 1 (t = 0) (int t = int (length onsets) - 1) n
                  (int (length channel_data)) (trial_start (onsets ! t) te sr)
                = (Extract ls le a b, w0)"
      using Pair Extract by simp
    note facts = check_trial_bounds_extract [OF chk n]
    define bs where "bs = trial_start (onsets ! t) be sr"
    have fits: "\<not> (0 < bm \<and> (bs < 0 \<or> int (length channel_data) < bs + bn))"
      using base by (auto simp add: baseline_in_recording_def bs_def)
    show ?thesis
    proof (cases "normalized bm (py_slice channel_data a b) (py_slice channel_data bs (bs + bn))")
      case None
      then show ?thesis
        using chk fits
        by (simp add: epoch_trial_from_channel_def Let_def bs_def [symmetric])
    next
      case (Some vs)
      have "\<exists>row'. assign_slice row ls le vs = Inr row'"
        by (rule assign_slice_fits [OF _ _ _ _ _ _ _ Some]) (use facts row in simp_all)
      then show ?thesis
        using chk fits Some
        by (auto simp add: epoch_trial_from_channel_def Let_def bs_def [symmetric])
    qed
  qed
qed

lemma epoch_trial_all_channels_ok:
  assumes adm: "admitted t (length onsets) n num_samples (trial_start (onsets ! t) te sr)"
    and base: "baseline_in_trial bm n num_samples (trial_start (onsets ! t) te sr)
                 (trial_start (onsets ! t) be sr) bn"
    and t: "t < length onsets" and n: "0 \<le> n" and sz: "0 \<le> num_samples"
    and rows: "\<forall>row \<in> set col. int (length row) = n"
    and len: "\<forall>channel_data \<in> set channels_data. int (length channel_data) = num_samples"
    and cols: "length col = length channels_data"
  shows "\<exists>col' w. epoch_trial_all_channels channels_data num_samples sr onsets n te bn bm be 1
                    t col = (col', Inr w)"
proof (cases "check_trial_bounds 1 (t = 0) (int t = int (length onsets) - 1) n
                  num_samples (trial_start (onsets ! t) te sr)")
  case (Pair r w0)
  have notabort: "r \<noteq> Abort"
    using check_trial_bounds_admitted [OF adm t n] Pair by simp
  show ?thesis
  proof (cases r)
    case Abort
    then show ?thesis using notabort by simp
  next
    case Skip
    then show ?thesis
      using Pair by (simp add: epoch_trial_all_channels_def Let_def)
  next
    case (Extract ls le a b)
    have chk: "check_trial_bounds 1 (t = 0) (int t = int (length onsets) - 1) n
                  num_samples (trial_start (onsets ! t) te sr) = (Extract ls le a b, w0)"
      using Pair Extract by simp
    note facts = check_trial_bounds_extract [OF chk n sz]
    define bs where "bs = trial_start (onsets ! t) be sr - trial_start (onsets ! t) te sr"
    have fits: "\<not> (0 < bm \<and> (bs < 0 \<or> n < bs + bn \<or> bs < ls \<or> le < bs + bn))"
      using base check_trial_bounds_locals [OF chk]
      by (auto simp add: baseline_in_trial_def bs_def split: if_splits)
    define body where "body = (\<lambda>channel_idx row.
         case normalized bm (retrieve_sample_range_data channels_data a b ! channel_idx)
                (py_slice (retrieve_sample_range_data channels_data a b ! channel_idx)
                   bs (bs + bn)) of
           None \<Rightarrow> (row, Inr ())
         | Some values \<Rightarrow>
             (case assign_slice row ls le values of
                Inl e \<Rightarrow> (row, Inl e)
              | Inr row' \<Rightarrow> (row', Inr ())))"
    have "\<exists>col' us. iter_idx body 0 col = (col', Inr us)"
    proof (rule iter_idx_all_ok)
      fix k assume k: "k < length col"
      have cd: "int (length (channels_data ! k)) = num_samples"
        using len k cols by simp
      have rk: "int (length (col ! k)) = n"
        using rows k by simp
      have td: "retrieve_sample_range_data channels_data a b ! k = py_slice (channels_data ! k) a b"
        using k cols by (simp add: retrieve_sample_range_data_def)
      show "\<exists>x' r. body (0 + k) (col ! k) = (x', Inr r)"
      proof (cases "normalized bm (py_slice (channels_data ! k) a b)
                      (py_slice (py_slice (channels_data ! k) a b) bs (bs + bn))")
        case None
        then show ?thesis by (simp add: body_def td)
      next
        case (Some vs)
        have "\<exists>row'. assign_slice (col ! k) ls le vs = Inr row'"
          by (rule assign_slice_fits [OF _ _ _ _ _ _ _ Some]) (use facts cd rk in simp_all)
        then show ?thesis
          using Some by (auto simp add: body_def td)
      qed
    qed
    then show ?thesis
      using chk fits
      by (auto simp add: epoch_trial_all_channels_def Let_def bs_def [symmetric]
            body_def [symmetric])
  qed
qed

lemma load_data_epochs_by_channels_ok:
  assumes adm: "\<And>t. t < length onsets \<Longrightarrow>
                  admitted t (length onsets) (epoch_num_samples te sr) num_samples
                    (trial_start (onsets ! t) te sr)"
    and base: "\<And>t. t < length onsets \<Longrightarrow>
                  baseline_in_recording bm num_samples (trial_start (onsets ! t) be sr)
                    (epoch_num_samples be sr)"
    and sr: "0 \<le> sr"
    and len: "\<forall>channel_data \<in> set channels_data. int (length channel_data) = num_samples"
  shows "\<exists>data w. load_data_epochs_by_channels channels_data sr onsets te bm be 1 = Inr (data, w)"
proof -
  define n where "n = epoch_num_samples te sr"
  define bn where "bn = epoch_num_samples be sr"
  define data0 where "data0 = replicate (length channels_data)
                   (replicate (length onsets) (allocate_array (nat n)))"
  define body where "body = (\<lambda>channel_idx rows.
                   case iter_idx (epoch_trial_from_channel channel_idx
                                    (channels_data ! channel_idx) sr onsets
                                    n te bn bm be (Suc 0)) 0 rows of
                     (rows', Inl e) \<Rightarrow> (rows', Inl e)
                   | (rows', Inr ws) \<Rightarrow> (rows', Inr (sum_list ws)))"
  have n: "0 \<le> n" by (simp add: n_def epoch_num_samples_nonneg sr)
  have "\<exists>data ws. iter_idx body 0 data0 = (data, Inr ws)"
  proof (rule iter_idx_all_ok)
    fix c assume c: "c < length data0"
    then have cd: "int (length (channels_data ! c)) = num_samples"
      using len by (simp add: data0_def)
    have "\<exists>rows' ws. iter_idx (epoch_trial_from_channel c (channels_data ! c) sr onsets
                                  n te bn bm be (Suc 0)) 0 (data0 ! c) = (rows', Inr ws)"
    proof (rule iter_idx_all_ok)
      fix t assume "t < length (data0 ! c)"
      then have t: "t < length onsets" using c by (simp add: data0_def)
      have row: "int (length (data0 ! c ! t)) = n"
        using c t n by (simp add: data0_def allocate_array_def)
      show "\<exists>x' r. epoch_trial_from_channel c (channels_data ! c) sr onsets n te bn bm be (Suc 0)
                     (0 + t) (data0 ! c ! t) = (x', Inr r)"
        using epoch_trial_from_channel_ok [OF _ _ t n row, where channel_data = "channels_data ! c"
            and te = te and sr = sr and bm = bm and be = be and bn = bn and c = c]
          adm [OF t] base [OF t] by (simp add: cd n_def bn_def)
    qed
    then show "\<exists>x' r. body (0 + c) (data0 ! c) = (x', Inr r)"
      by (auto simp add: body_def)
  qed
  then show ?thesis
    by (auto simp add: load_data_epochs_by_channels_def Let_def n_def [symmetric]
          bn_def [symmetric] data0_def [symmetric] body_def [symmetric])
qed

lemma load_data_epochs_by_trial_ok:
  assumes adm: "\<And>t. t < length onsets \<Longrightarrow>
                  admitted t (length onsets) (epoch_num_samples te sr) num_samples
                    (trial_start (onsets ! t) te sr)"
    and base: "\<And>t. t < length onsets \<Longrightarrow>
                  baseline_in_trial bm (epoch_num_samples te sr) num_samples
                    (trial_start (onsets ! t) te sr) (trial_start (onsets ! t) be sr)
                    (epoch_num_samples be sr)"
    and sr: "0 \<le> sr" and sz: "0 \<le> num_samples"
    and len: "\<forall>channel_data \<in> set channels_data. int (length channel_data) = num_samples"
  shows "\<exists>data w. load_data_epochs_by_trial channels_data num_samples sr onsets te bm be 1
                    = Inr (data, w)"
proof -
  define n where "n = epoch_num_samples te sr"
  define bn where "bn = epoch_num_samples be sr"
  define columns where "columns = replicate (length onsets)
                      (replicate (length channels_data) (allocate_array (nat n)))"
  have n: "0 \<le> n" by (simp add: n_def epoch_num_samples_nonneg sr)
  have "\<exists>columns' ws. iter_idx (epoch_trial_all_channels channels_data num_samples sr onsets
                                  n te bn bm be (Suc 0)) 0 columns = (columns', Inr ws)"
  proof (rule iter_idx_all_ok)
    fix t assume "t < length columns"
    then have t: "t < length onsets" by (simp add: columns_def)
    have col: "columns ! t = replicate (length channels_data) (allocate_array (nat n))"
      using t by (simp add: columns_def)
    have rows: "\<forall>row \<in> set (columns ! t). int (length row) = n"
      using n by (simp add: col allocate_array_def)
    show "\<exists>x' r. epoch_trial_all_channels channels_data num_samples sr onsets n te bn bm be (Suc 0)
                   (0 + t) (columns ! t) = (x', Inr r)"
      using epoch_trial_all_channels_ok [OF _ _ t n sz rows len, where bm = bm and te = te and be = be
            and sr = sr and bn = bn]
        adm [OF t] base [OF t]
      by (simp add: n_def bn_def col)
  qed
  then show ?thesis
    by (auto simp add: load_data_epochs_by_trial_def Let_def n_def [symmetric]
          bn_def [symmetric] columns_def [symmetric])
qed

text \<open>
  Claim C8. Let the window of trial \<open>t\<close> not lie within the recording. With the policy
  \<open>error\<close> (method 0) both ways of epoching raise. With the policy \<open>first_last_only\<close>
  (method 1) they raise when the trial is not the first and starts before the recording,
  or is not the last and ends after it (so for every trial in between). When the call
  returns under method 1, at least one warning was logged and the positions of the
  trial's row that lie outside the recording hold NaN, for every channel. And the call
  does return under method 1, with any baseline method, when every trial starts within
  the recording or is the first, and ends within it or is the last, and passes the check
  of its baseline: when epoching by channels the baseline lies within the recording,
  when epoching by trial it also lies within the window of the trial.
\<close>

theorem out_of_bounds_policies:
  assumes sr: "0 \<le> sampling_rate" and t: "t < length onsets"
    and n: "n = epoch_num_samples trial_epoch sampling_rate"
    and s: "s = trial_start (onsets ! t) trial_epoch sampling_rate"
    and ch: "channels_data \<noteq> []"
    and len: "\<forall>channel_data \<in> set channels_data. int (length channel_data) = num_samples"
    and oob: "out_of_bounds n num_samples s"
  shows "load_data_epochs_by_channels channels_data sampling_rate onsets trial_epoch
             baseline_method baseline_epoch 0 = Inl RuntimeError
       \<and> load_data_epochs_by_trial channels_data num_samples sampling_rate onsets trial_epoch
             baseline_method baseline_epoch 0 = Inl RuntimeError
       \<and> ((0 < t \<and> s < 0) \<or> (t + 1 < length onsets \<and> num_samples < s + n) \<longrightarrow>
             load_data_epochs_by_channels channels_data sampling_rate onsets trial_epoch
               baseline_method baseline_epoch 1 = Inl RuntimeError
           \<and> load_data_epochs_by_trial channels_data num_samples sampling_rate onsets trial_epoch
               baseline_method baseline_epoch 1 = Inl RuntimeError)
       \<and> (\<forall>data w.
             load_data_epochs_by_channels channels_data sampling_rate onsets trial_epoch
               baseline_method baseline_epoch 1 = Inr (data, w)
             \<or> load_data_epochs_by_trial channels_data num_samples sampling_rate onsets
                 trial_epoch baseline_method baseline_epoch 1 = Inr (data, w)
             \<longrightarrow> 0 < w
                 \<and> (\<forall>c < length channels_data. \<forall>k < nat n.
                       outside_recording n num_samples s k \<longrightarrow> data ! c ! t ! k = NaN))
       \<and> ((\<forall>i < length onsets.
              admitted i (length onsets) n num_samples
                (trial_start (onsets ! i) trial_epoch sampling_rate)
              \<and> baseline_in_recording baseline_method num_samples
                  (trial_start (onsets ! i) baseline_epoch sampling_rate)
                  (epoch_num_samples baseline_epoch sampling_rate))
           \<longrightarrow> (\<exists>data w. load_data_epochs_by_channels channels_data sampling_rate onsets
                            trial_epoch baseline_method baseline_epoch 1 = Inr (data, w)))
       \<and> ((\<forall>i < length onsets.
              admitted i (length onsets) n num_samples
                (trial_start (onsets ! i) trial_epoch sampling_rate)
              \<and> baseline_in_trial baseline_method n num_samples
                  (trial_start (onsets ! i) trial_epoch sampling_rate)
                  (trial_start (onsets ! i) baseline_epoch sampling_rate)
                  (epoch_num_samples baseline_epoch sampling_rate))
           \<longrightarrow> (\<exists>data w. load_data_epochs_by_trial channels_data num_samples sampling_rate
                            onsets trial_epoch baseline_method baseline_epoch 1 = Inr (data, w)))"
proof -
  have size0: "int (length (channels_data ! 0)) = num_samples"
    using ch len by (cases channels_data) simp_all
  have sz: "0 \<le> num_samples" using size0 by linarith
  have a0: "fst (check_trial_bounds 0 (t = 0) (int t = int (length onsets) - 1)
                (epoch_num_samples trial_epoch sampling_rate) num_samples
                (trial_start (onsets ! t) trial_epoch sampling_rate)) = Abort"
    using check_trial_bounds_error oob n s by simp
  have m0: "load_data_epochs_by_channels channels_data sampling_rate onsets trial_epoch
             baseline_method baseline_epoch 0 = Inl RuntimeError"
    by (rule load_data_epochs_by_channels_abort [OF ch t]) (simp only: size0 a0)
  have m0': "load_data_epochs_by_trial channels_data num_samples sampling_rate onsets trial_epoch
             baseline_method baseline_epoch 0 = Inl RuntimeError"
    by (rule load_data_epochs_by_trial_abort [OF t a0])
  have m1: "load_data_epochs_by_channels channels_data sampling_rate onsets trial_epoch
               baseline_method baseline_epoch 1 = Inl RuntimeError
           \<and> load_data_epochs_by_trial channels_data num_samples sampling_rate onsets trial_epoch
               baseline_method baseline_epoch 1 = Inl RuntimeError"
    if "(0 < t \<and> s < 0) \<or> (t + 1 < length onsets \<and> num_samples < s + n)"
  proof -
    have a1: "fst (check_trial_bounds 1 (t = 0) (int t = int (length onsets) - 1)
                (epoch_num_samples trial_epoch sampling_rate) num_samples
                (trial_start (onsets ! t) trial_epoch sampling_rate)) = Abort"
      using that
    proof
      assume "0 < t \<and> s < 0"
      then show ?thesis
        using check_trial_bounds_not_first [of s] s by simp
    next
      assume b: "t + 1 < length onsets \<and> num_samples < s + n"
      then have "\<not> int t = int (length onsets) - 1" by linarith
      then show ?thesis
        using check_trial_bounds_not_last [of num_samples s n] b sz s n by simp
    qed
    have c1: "load_data_epochs_by_channels channels_data sampling_rate onsets trial_epoch
               baseline_method baseline_epoch 1 = Inl RuntimeError"
      by (rule load_data_epochs_by_channels_abort [OF ch t]) (simp only: size0 a1)
    have c2: "load_data_epochs_by_trial channels_data num_samples sampling_rate onsets trial_epoch
               baseline_method baseline_epoch 1 = Inl RuntimeError"
      by (rule load_data_epochs_by_trial_abort [OF t a1])
    show ?thesis using c1 c2 by simp
  qed
  have ok: "0 < w \<and> (\<forall>c < length channels_data. \<forall>k < nat n.
                       outside_recording n num_samples s k \<longrightarrow> data ! c ! t ! k = NaN)"
    if "load_data_epochs_by_channels channels_data sampling_rate onsets trial_epoch
               baseline_method baseline_epoch 1 = Inr (data, w)
        \<or> load_data_epochs_by_trial channels_data num_samples sampling_rate onsets
                 trial_epoch baseline_method baseline_epoch 1 = Inr (data, w)" for data w
    using that
  proof
    assume r: "load_data_epochs_by_channels channels_data sampling_rate onsets trial_epoch
               baseline_method baseline_epoch 1 = Inr (data, w)"
    have sizes: "int (length (channels_data ! c)) = num_samples" if "c < length channels_data" for c
      using len that by simp
    show ?thesis
      using load_data_epochs_by_channels_success [OF r sr t] oob ch sizes
      by (simp add: n [symmetric] s [symmetric] size0)
  next
    assume r: "load_data_epochs_by_trial channels_data num_samples sampling_rate onsets
                 trial_epoch baseline_method baseline_epoch 1 = Inr (data, w)"
    show ?thesis
      using load_data_epochs_by_trial_success [OF r sr sz t] oob
      by (simp add: n [symmetric] s [symmetric])
  qed
  have returns: "\<exists>data w. load_data_epochs_by_channels channels_data sampling_rate onsets
                            trial_epoch baseline_method baseline_epoch 1 = Inr (data, w)"
    if "\<forall>i < length onsets.
              admitted i (length onsets) n num_samples
                (trial_start (onsets ! i) trial_epoch sampling_rate)
              \<and> baseline_in_recording baseline_method num_samples
                  (trial_start (onsets ! i) baseline_epoch sampling_rate)
                  (epoch_num_samples baseline_epoch sampling_rate)"
    by (rule load_data_epochs_by_channels_ok [OF _ _ sr len]) (use that n in simp_all)
  have returns': "\<exists>data w. load_data_epochs_by_trial channels_data num_samples sampling_rate
                            onsets trial_epoch baseline_method baseline_epoch 1 = Inr (data, w)"
    if "\<forall>i < length onsets.
              admitted i (length onsets) n num_samples
                (trial_start (onsets ! i) trial_epoch sampling_rate)
              \<and> baseline_in_trial baseline_method n num_samples
                  (trial_start (onsets ! i) trial_epoch sampling_rate)
                  (trial_start (onsets ! i) baseline_epoch sampling_rate)
                  (epoch_num_samples baseline_epoch sampling_rate)"
    by (rule load_data_epochs_by_trial_ok [OF _ _ sr sz len]) (use that n in simp_all)
  show ?thesis
    using m0 m0' m1 ok returns returns' by blast
qed

text \<open>
  The example: method 0 raises for the trials at 0, 2 and 5; method 1 raises when the
  out-of-bounds trial at 0 is the second of three; with the trials at 0, 2 and 5 method
  1 returns, with warnings and NaN at the first position of the first trial, without
  baseline normalization and also with the median of the baseline (0, 1), which lies
  within the recording and within the window of every trial.
\<close>

lemma example_windows:
  "epoch_num_samples (- 1, 2) 1 = 3" "trial_start 0 (- 1, 2) 1 = - 1"
  "trial_start 2 (- 1, 2) 1 = 1" "trial_start 5 (- 1, 2) 1 = 4"
  "epoch_num_samples (0, 1) 1 = 1" "trial_start 0 (0, 1) 1 = 0"
  "trial_start 2 (0, 1) 1 = 2" "trial_start 5 (0, 1) 1 = 5"
  by code_simp+

theorem out_of_bounds_policies_witness:
  "load_data_epochs_by_channels example_recording 1 [0, 2, 5] (- 1, 2) 0 (- 1, 0) 0
     = Inl RuntimeError
   \<and> load_data_epochs_by_trial example_recording 6 1 [0, 2, 5] (- 1, 2) 0 (- 1, 0) 0
     = Inl RuntimeError
   \<and> load_data_epochs_by_channels example_recording 1 [2, 0, 5] (- 1, 2) 0 (- 1, 0) 1
     = Inl RuntimeError
   \<and> load_data_epochs_by_trial example_recording 6 1 [2, 0, 5] (- 1, 2) 0 (- 1, 0) 1
     = Inl RuntimeError
   \<and> (\<exists>data w.
        load_data_epochs_by_channels example_recording 1 [0, 2, 5] (- 1, 2) 0 (- 1, 0) 1
          = Inr (data, w)
        \<and> load_data_epochs_by_trial example_recording 6 1 [0, 2, 5] (- 1, 2) 0 (- 1, 0) 1
          = Inr (data, w)
        \<and> 0 < w \<and> data ! 0 ! 0 ! 0 = NaN \<and> data ! 0 ! 0 ! 1 = Some 1)
   \<and> (\<exists>data w.
        load_data_epochs_by_channels example_recording 1 [0, 2, 5] (- 1, 2) 2 (0, 1) 1
          = Inr (data, w)
        \<and> 0 < w \<and> data ! 0 ! 0 ! 0 = NaN)
   \<and> (\<exists>data w.
        load_data_epochs_by_trial example_recording 6 1 [0, 2, 5] (- 1, 2) 2 (0, 1) 1
          = Inr (data, w)
        \<and> 0 < w \<and> data ! 0 ! 0 ! 0 = NaN)"
proof -
  have rec: "example_recording \<noteq> []"
    "\<forall>channel_data \<in> set example_recording. int (length channel_data) = 6"
    by (simp_all add: example_recording_def)
  have oob: "out_of_bounds 3 6 (- 1)"
    by (simp add: out_of_bounds_def)
  have first: "(0::nat) < length [0, 2, 5 :: real]" and second: "(1::nat) < length [2, 0, 5 :: real]"
    by simp_all
  have w: "3 = epoch_num_samples (- 1, 2) 1"
    "- 1 = trial_start ([0, 2, 5] ! 0) (- 1, 2) 1" "- 1 = trial_start ([2, 0, 5] ! 1) (- 1, 2) 1"
    by (simp_all add: example_windows)
  note a = out_of_bounds_policies [OF _ first w(1) w(2) rec oob,
      where baseline_method = 0 and baseline_epoch = "(- 1, 0)"]
  note b = out_of_bounds_policies [OF _ second w(1) w(3) rec oob,
      where baseline_method = 0 and baseline_epoch = "(- 1, 0)"]
  note c = out_of_bounds_policies [OF _ first w(1) w(2) rec oob,
      where baseline_method = 2 and baseline_epoch = "(0, 1)"]
  have outside: "outside_recording 3 6 (- 1) 0"
    by (simp add: outside_recording_def)
  have plain: "0 < (2::nat) \<and> [[[NaN, Some 1, Some 2], [Some 2, Some 3, Some 4],
                          [Some 5, Some 6, NaN]]] ! 0 ! 0 ! 0 = (NaN :: sample)"
    using a [THEN conjunct2, THEN conjunct2, THEN conjunct2, THEN conjunct1, rule_format,
        OF _ disjI1, OF _ example_epochs(1)] outside
    by simp
  have cases: "i = 0 \<or> i = 1 \<or> i = 2" if "i < length [0, 2, 5 :: real]" for i :: nat
    using that by fastforce
  have in_recording: "\<forall>i < length [0, 2, 5 :: real].
      admitted i (length [0, 2, 5 :: real]) 3 6 (trial_start ([0, 2, 5] ! i) (- 1, 2) 1)
      \<and> baseline_in_recording 2 6 (trial_start ([0, 2, 5] ! i) (0, 1) 1)
          (epoch_num_samples (0, 1) 1)"
  proof (intro allI impI)
    fix i :: nat
    assume "i < length [0, 2, 5 :: real]"
    then have "i = 0 \<or> i = 1 \<or> i = 2" by (rule cases)
    then show "admitted i (length [0, 2, 5 :: real]) 3 6 (trial_start ([0, 2, 5] ! i) (- 1, 2) 1)
      \<and> baseline_in_recording 2 6 (trial_start ([0, 2, 5] ! i) (0, 1) 1)
          (epoch_num_samples (0, 1) 1)"
      by (auto simp add: admitted_def baseline_in_recording_def example_windows)
  qed
  have in_trial: "\<forall>i < length [0, 2, 5 :: real].
      admitted i (length [0, 2, 5 :: real]) 3 6 (trial_start ([0, 2, 5] ! i) (- 1, 2) 1)
      \<and> baseline_in_trial 2 3 6 (trial_start ([0, 2, 5] ! i) (- 1, 2) 1)
          (trial_start ([0, 2, 5] ! i) (0, 1) 1) (epoch_num_samples (0, 1) 1)"
  proof (intro allI impI)
    fix i :: nat
    assume "i < length [0, 2, 5 :: real]"
    then have "i = 0 \<or> i = 1 \<or> i = 2" by (rule cases)
    then show "admitted i (length [0, 2, 5 :: real]) 3 6 (trial_start ([0, 2, 5] ! i) (- 1, 2) 1)
      \<and> baseline_in_trial 2 3 6 (trial_start ([0, 2, 5] ! i) (- 1, 2) 1)
          (trial_start ([0, 2, 5] ! i) (0, 1) 1) (epoch_num_samples (0, 1) 1)"
      by (auto simp add: admitted_def baseline_in_trial_def example_windows)
  qed
  obtain data1 w1 where r1:
    "load_data_epochs_by_channels example_recording 1 [0, 2, 5] (- 1, 2) 2 (0, 1) 1
       = Inr (data1, w1)"
    using c [THEN conjunct2, THEN conjunct2, THEN conjunct2, THEN conjunct2, THEN conjunct1,
        THEN mp, OF _ in_recording]
    by auto
  obtain data2 w2 where r2:
    "load_data_epochs_by_trial example_recording 6 1 [0, 2, 5] (- 1, 2) 2 (0, 1) 1
       = Inr (data2, w2)"
    using c [THEN conjunct2, THEN conjunct2, THEN conjunct2, THEN conjunct2, THEN conjunct2,
        THEN mp, OF _ in_trial]
    by auto
  have median1: "0 < w1 \<and> data1 ! 0 ! 0 ! 0 = NaN"
    using c [THEN conjunct2, THEN conjunct2, THEN conjunct2, THEN conjunct1, rule_format,
        OF _ disjI1, OF _ r1] outside
    by (simp add: example_recording_def)
  have median2: "0 < w2 \<and> data2 ! 0 ! 0 ! 0 = NaN"
    using c [THEN conjunct2, THEN conjunct2, THEN conjunct2, THEN conjunct1, rule_format,
        OF _ disjI2, OF _ r2] outside
    by (simp add: example_recording_def)
  show ?thesis
    using a b example_epochs plain r1 r2 median1 median2 by simp
qed

text \<open>
  The check of the baseline is a separate reason to raise: with the mean of the baseline
  (-1, 0), which for the first trial starts one sample before the recording, both ways
  of epoching raise under method 1 although the trial itself is admitted.
\<close>

lemma baseline_outside_recording_raises:
  "load_data_epochs_by_channels example_recording 1 [0, 2, 5] (- 1, 2) 1 (- 1, 0) 1
     = Inl RuntimeError"
  "load_data_epochs_by_trial example_recording 6 1 [0, 2, 5] (- 1, 2) 1 (- 1, 0) 1
     = Inl RuntimeError"
  by code_simp+

section \<open>The cross-projection metric\<close>

lemma normalize_zero_trial:
  assumes "row \<noteq> []" and "\<forall>v \<in> set row. v = Some 0"
  shows "\<forall>v \<in> set (normalize_trial row). v = NaN"
proof -
  have "map (\<lambda>v. sample_mul v v) row = replicate (length row) (Some 0)"
    using assms(2) by (induction row) (simp_all add: sample_mul_def)
  moreover have "sample_sum (replicate n (Some 0)) = Some 0" for n
    by (induction n) (simp_all add: sample_sum_def sample_add_def)
  ultimately have "trial_norm row = NaN"
    by (simp add: trial_norm_def)
  then show ?thesis
    by (simp add: normalize_trial_def sample_div_def split: option.splits)
qed

text \<open>
  Claim C10. When the lower-cased normalization mode is \<open>mean\<close>, \<open>average\<close> or
  \<open>median\<close> (and the baseline has one row per trial) the metric returns the t-statistic
  of the values above the diagonal of the projection matrix of the baseline-corrected
  trials. For every other mode, whatever the data, it raises \<open>UnboundLocalError\<close>. A
  trial whose samples are all 0 has the norm NaN instead of 0, so that its normalized
  samples are NaN.
\<close>

theorem metric_cross_proj_needs_baseline_norm:
  "(py_lower (metric_baseline_norm cfg) \<in> {''mean'', ''average'', ''median''}
      \<and> baseline = Some b \<and> length b = length data
    \<longrightarrow> metric_cross_proj ttest_1samp cfg sampling_rate data baseline
          = Inr (ttest_1samp (upper_triangle
                   (projections (baseline_corrected cfg sampling_rate data b)))))
   \<and> (py_lower (metric_baseline_norm cfg) \<notin> {''mean'', ''average'', ''median''}
    \<longrightarrow> metric_cross_proj ttest_1samp cfg sampling_rate data baseline = Inl UnboundLocalError)
   \<and> (row \<noteq> [] \<and> (\<forall>v \<in> set row. v = Some 0)
    \<longrightarrow> (\<forall>v \<in> set (normalize_trial row). v = NaN))"
proof (intro conjI impI)
  assume "py_lower (metric_baseline_norm cfg) \<in> {''mean'', ''average'', ''median''}
      \<and> baseline = Some b \<and> length b = length data"
  then show "metric_cross_proj ttest_1samp cfg sampling_rate data baseline
          = Inr (ttest_1samp (upper_triangle
                   (projections (baseline_corrected cfg sampling_rate data b))))"
    by (auto simp add: metric_cross_proj_def Let_def subtract_per_row_def baseline_corrected_def)
next
  assume "py_lower (metric_baseline_norm cfg) \<notin> {''mean'', ''average'', ''median''}"
  then show "metric_cross_proj ttest_1samp cfg sampling_rate data baseline = Inl UnboundLocalError"
    by (simp add: metric_cross_proj_def Let_def)
next
  assume "row \<noteq> [] \<and> (\<forall>v \<in> set row. v = Some 0)"
  then show "\<forall>v \<in> set (normalize_trial row). v = NaN"
    using normalize_zero_trial by blast
qed

text \<open>
  The example of claim C10: with mode \<open>Median\<close> the corrected trials are (3, 4) and
  (6, 8), with norms 5 and 10, and the one value above the diagonal is 10; with mode
  \<open>none\<close> the call raises.
\<close>

lemma py_lower_examples:
  "py_lower ''median'' = ''median''" "py_lower ''Median'' = ''median''"
  "py_lower ''none'' = ''none''"
  by code_simp+

lemma sqrt_25: "sqrt 25 = 5"
  by (rule real_sqrt_unique) simp_all

lemma example_corrected:
  "baseline_corrected (example_metric_config ''Median'') 1 example_trials example_baselines
     = [[Some 3, Some 4], [Some 6, Some 8]]"
proof -
  have r: "py_round ((0 - - 1) * 1) = 1" "py_round ((2 - - 1) * 1) = 3"
    using py_round_of_int [of 1] py_round_of_int [of 3] by simp_all
  have med: "nanmedian [Some 0, Some 1, Some 2] = Some 1" "nanmedian [Some 1, Some 1, Some 7] = Some 1"
    by (simp_all add: nanmedian_def nan_values_def)
  show ?thesis
    using r
    by (simp add: baseline_corrected_def example_metric_config_def py_lower_examples
          example_trials_def example_baselines_def med py_slice_def py_slice_bounds_def
          sample_sub_def)
qed

lemma example_projections:
  "upper_triangle (projections [[Some 3, Some 4], [Some 6, Some 8]]) = [Some 10]"
proof -
  have n: "trial_norm [Some 3, Some 4] = Some 5" "trial_norm [Some 6, Some 8] = Some 10"
    by (simp_all add: trial_norm_def sample_sum_def sample_mul_def sample_add_def
          sqrt_25 sqrt_100)
  have u: "[0..<2] = [0, 1]" "[Suc 0..<2] = [1]" "[Suc 1..<2] = []" "[2..<2] = []"
    by (simp_all add: upt_rec)
  show ?thesis
    by (simp add: upper_triangle_def projections_def normalize_trial_def n u
          sample_sum_def sample_mul_def sample_add_def sample_div_def)
qed

theorem metric_cross_proj_needs_baseline_norm_witness:
  "\<forall>ttest_1samp.
     metric_cross_proj ttest_1samp (example_metric_config ''Median'') 1 example_trials
       (Some example_baselines) = Inr (ttest_1samp [Some 10])
     \<and> metric_cross_proj ttest_1samp (example_metric_config ''none'') 1 example_trials None
       = Inl UnboundLocalError"
proof
  fix ttest_1samp :: "sample list \<Rightarrow> sample"
  have norms: "py_lower (metric_baseline_norm (example_metric_config ''Median''))
                 \<in> {''mean'', ''average'', ''median''}"
    "py_lower (metric_baseline_norm (example_metric_config ''none''))
                 \<notin> {''mean'', ''average'', ''median''}"
    by (simp_all add: example_metric_config_def py_lower_examples)
  have len: "length example_baselines = length example_trials"
    by (simp add: example_baselines_def example_trials_def)
  have a: "metric_cross_proj ttest_1samp (example_metric_config ''Median'') 1 example_trials
       (Some example_baselines) = Inr (ttest_1samp [Some 10])"
    using metric_cross_proj_needs_baseline_norm [THEN conjunct1, rule_format,
        OF conjI [OF norms(1) conjI [OF refl len]], of ttest_1samp 1]
    by (simp add: example_corrected example_projections)
  have b: "metric_cross_proj ttest_1samp (example_metric_config ''none'') 1 example_trials None
       = Inl UnboundLocalError"
    by (rule metric_cross_proj_needs_baseline_norm [THEN conjunct2, THEN conjunct1,
          rule_format, OF norms(2)])
  show "metric_cross_proj ttest_1samp (example_metric_config ''Median'') 1 example_trials
       (Some example_baselines) = Inr (ttest_1samp [Some 10])
     \<and> metric_cross_proj ttest_1samp (example_metric_config ''none'') 1 example_trials None
       = Inl UnboundLocalError"
    using a b by simp
qed

section \<open>Loading and writing the configuration\<close>

lemma lex_plain_text:
  "plain_text s \<Longrightarrow> lex (InString acc) (s @ rest) = lex (InString (rev s @ acc)) rest"
  by (induction s arbitrary: acc) (simp_all add: plain_text_def)

lemma config_str_head_begins:
  "\<exists>rest. config_str_head r c =
     concat
       [''{\<newline>'',
        ''    \"preprocess\": {\<newline>'',
        ''        \"high_pass\":                        '',
        bool_str (cfg_preprocess_high_pass c),
        '',\<newline>'',
        ''        \"line_noise_removal\":               \"'',
        cfg_preprocess_line_noise_removal c,
        ''\"\<newline>'',
        ''        \"early_re_referencing\"''] @ rest"
  by (simp add: config_str_head_def)

lemma missing_comma_not_json:
  assumes "plain_text line_noise_removal"
  shows "json_loads (concat
       [''{\<newline>'',
        ''    \"preprocess\": {\<newline>'',
        ''        \"high_pass\":                        '',
        bool_str high_pass,
        '',\<newline>'',
        ''        \"line_noise_removal\":               \"'',
        line_noise_removal,
        ''\"\<newline>'',
        ''        \"early_re_referencing\"''] @ rest) = None"
  by (cases high_pass)
     (simp_all add: json_loads_def bool_str_def lex_plain_text [OF assms]
        is_ws_def punct_token_def unescape_def start_value_def take_key_def push_value_def
        word_value_def)

lemma written_head_not_json:
  assumes "plain_text (cfg_preprocess_line_noise_removal c)"
  shows "json_loads (config_str_head r c @ rest) = None"
proof -
  obtain rest' where "config_str_head r c =
     concat
       [''{\<newline>'',
        ''    \"preprocess\": {\<newline>'',
        ''        \"high_pass\":                        '',
        bool_str (cfg_preprocess_high_pass c),
        '',\<newline>'',
        ''        \"line_noise_removal\":               \"'',
        cfg_preprocess_line_noise_removal c,
        ''\"\<newline>'',
        ''        \"early_re_referencing\"''] @ rest'"
    using config_str_head_begins by blast
  then show ?thesis
    using missing_comma_not_json [OF assms, of "cfg_preprocess_high_pass c" "rest' @ rest"]
    by simp
qed

lemma write_then_load_never_loads:
  assumes "plain_text (cfg_preprocess_line_noise_removal c)"
  shows "write_then_load r c = (Inr False, c) \<or> write_then_load r c = (Inl KeyError, c)"
proof (cases "config_str_method r c")
  case (Inl e)
  then have "e = KeyError"
    by (auto simp add: config_str_method_def split: if_splits option.splits prod.splits)
  then show ?thesis
    using Inl by (simp add: write_then_load_def write_config_def)
next
  case (Inr method_str)
  then show ?thesis
    by (simp add: write_then_load_def write_config_def load_config_def
          written_head_not_json [OF assms])
qed

lemma load_config_keeps_config:
  "fst (load_config file current) \<noteq> Inr True \<Longrightarrow> snd (load_config file current) = current"
  by (auto simp add: load_config_def split: option.splits outcome.splits)

text \<open>
  Claim C4. The text that \<open>write_config\<close> writes for the default configuration has no
  comma between the entry \<open>line_noise_removal\<close> and the entry \<open>early_re_referencing\<close>
  (and a comma after the last entry of \<open>preprocess\<close>), whatever the rendering of the
  numbers. It is no JSON document, so \<open>load_config\<close> of the written file returns
  \<open>False\<close> and the configuration is not loaded from it.
\<close>

theorem written_default_config_is_not_loaded:
  "write_then_load r create_default_config = (Inr False, create_default_config)"
proof -
  have plain: "plain_text (cfg_preprocess_line_noise_removal create_default_config)"
    by (simp add: create_default_config_def plain_text_def)
  have "\<exists>method_str. config_str_method r create_default_config = Inr method_str"
    by (simp add: config_str_method_def create_default_config_def)
  then show ?thesis
    by (auto simp add: write_then_load_def write_config_def load_config_def
          written_head_not_json [OF plain])
qed

text \<open>
  Claim C7. For a configuration file with the text \<open>{}\<close> the dictionary of the method
  \<open>std_base\<close> is removed and created empty, and the validation pass raises \<open>KeyError\<close>
  when it reads the baseline epoch from it. For a file whose channel types hold a
  number, lower-casing the number raises \<open>AttributeError\<close>. In both cases
  \<open>load_config\<close> does not return \<open>False\<close>; the configuration in memory stays as it was.
\<close>

theorem load_config_raises:
  "load_config (Some ''{}'') create_default_config = (Inl KeyError, create_default_config)
   \<and> load_config (Some ''{\"channels\": {\"types\": [1]}}'') create_default_config
       = (Inl AttributeError, create_default_config)"
  by code_simp

end
